theory Spec2Isabelle
  imports Main
begin

section \<open>JavaScript strings\<close>

text \<open>
  A JavaScript string is a sequence of UTF-16 code units. Offsets (\<open>start\<close>, \<open>end\<close>),
  \<open>slice\<close>, \<open>trim\<close> and \<open>btoa\<close> all count and inspect code units, so a string is
  modelled as a list of code units; \<open>js\<close> embeds an ASCII literal.
\<close>

type_synonym jsstring = "nat list"

definition js :: "string \<Rightarrow> jsstring" where
  "js s = map of_char s"

text \<open>WhiteSpace and LineTerminator of ECMAScript: what \<open>trim\<close> strips and \<open>\s\<close> matches.\<close>

definition isLineTerminator :: "nat \<Rightarrow> bool" where
  "isLineTerminator c = (c = 10 \<or> c = 13 \<or> c = 8232 \<or> c = 8233)"

definition isJSWhitespace :: "nat \<Rightarrow> bool" where
  "isJSWhitespace c =
     (c = 9 \<or> c = 10 \<or> c = 11 \<or> c = 12 \<or> c = 13 \<or> c = 32 \<or> c = 160 \<or> c = 5760 \<or>
      (8192 \<le> c \<and> c \<le> 8202) \<or> c = 8232 \<or> c = 8233 \<or> c = 8239 \<or> c = 8287 \<or>
      c = 12288 \<or> c = 65279)"

definition trim_js :: "jsstring \<Rightarrow> jsstring" where
  "trim_js s = rev (dropWhile isJSWhitespace (rev (dropWhile isJSWhitespace s)))"

text \<open>\<open>s.slice(a, b)\<close> for non-negative offsets.\<close>

definition slice :: "jsstring \<Rightarrow> nat \<Rightarrow> nat \<Rightarrow> jsstring" where
  "slice s a b = take (b - a) (drop a s)"

text \<open>\<open>s.split(sep)\<close> for a one-character separator: never the empty list.\<close>

fun split_on :: "nat \<Rightarrow> jsstring \<Rightarrow> jsstring list" where
  "split_on sep [] = [[]]"
| "split_on sep (c # cs) =
     (if c = sep then [] # split_on sep cs
      else (case split_on sep cs of
              [] \<Rightarrow> [[c]]
            | w # ws \<Rightarrow> (c # w) # ws))"

text \<open>\<open>xs.join(sep)\<close> on an array of strings.\<close>

fun join_js :: "jsstring \<Rightarrow> jsstring list \<Rightarrow> jsstring" where
  "join_js sep [] = []"
| "join_js sep [x] = x"
| "join_js sep (x # y # ys) = x @ sep @ join_js sep (y # ys)"

text \<open>\<open>s.includes(t)\<close> and \<open>s.startsWith(t)\<close>.\<close>

fun starts_with :: "jsstring \<Rightarrow> jsstring \<Rightarrow> bool" where
  "starts_with s [] = True"
| "starts_with [] (t # ts) = False"
| "starts_with (c # cs) (t # ts) = (c = t \<and> starts_with cs ts)"

fun includes_js :: "jsstring \<Rightarrow> jsstring \<Rightarrow> bool" where
  "includes_js [] t = (t = [])"
| "includes_js (c # cs) t = (starts_with (c # cs) t \<or> includes_js cs t)"

text \<open>\<open>s.toLowerCase()\<close> on the ASCII letters (tag names).\<close>

definition toLowerCase :: "jsstring \<Rightarrow> jsstring" where
  "toLowerCase s = map (\<lambda>c. if 65 \<le> c \<and> c \<le> 90 then c + 32 else c) s"


section \<open>Errors\<close>

text \<open>
  Every \<open>throw\<close> of the source and every exception of a built-in it calls is a value:
  \<open>UnknownNodeType t\<close> is \<open>new Error("unknown node type: " + t)\<close>, \<open>TypeError\<close> a property
  read on \<open>undefined\<close> or \<open>null\<close>, \<open>InvalidCharacterError\<close> the exception of
  \<open>btoa\<close> and \<open>atob\<close>, and \<open>FormatError\<close> a failure of the external formatter.
\<close>

datatype error =
    UnknownNodeType jsstring
  | TypeError
  | InvalidCharacterError
  | FormatError jsstring


section \<open>The built-ins \<open>btoa\<close> and \<open>atob\<close>\<close>

text \<open>
  \<open>btoa\<close> throws on a code unit above \<open>0xFF\<close> and otherwise encodes the code units as
  bytes in base64 with padding. \<open>atob\<close> is the forgiving base64 decoder: it strips ASCII
  whitespace, drops up to two padding characters when the length is a multiple of four,
  and throws when the length is then one more than a multiple of four or a character is
  outside the alphabet.
\<close>

definition b64char :: "nat \<Rightarrow> nat" where
  "b64char n =
     (if n < 26 then 65 + n
      else if n < 52 then 71 + n
      else if n < 62 then n - 4
      else if n = 62 then 43
      else 47)"

definition b64val :: "nat \<Rightarrow> nat option" where
  "b64val c =
     (if 65 \<le> c \<and> c \<le> 90 then Some (c - 65)
      else if 97 \<le> c \<and> c \<le> 122 then Some (c - 71)
      else if 48 \<le> c \<and> c \<le> 57 then Some (c + 4)
      else if c = 43 then Some 62
      else if c = 47 then Some 63
      else None)"

fun sextets :: "nat list \<Rightarrow> nat list" where
  "sextets (a # b # c # rest) =
     [a div 4, (a mod 4) * 16 + b div 16, (b mod 16) * 4 + c div 64, c mod 64] @ sextets rest"
| "sextets [a, b] = [a div 4, (a mod 4) * 16 + b div 16, (b mod 16) * 4]"
| "sextets [a] = [a div 4, (a mod 4) * 16]"
| "sextets [] = []"

definition padding :: "nat list \<Rightarrow> jsstring" where
  "padding s = replicate ((3 - length s mod 3) mod 3) 61"

definition encode64 :: "nat list \<Rightarrow> jsstring" where
  "encode64 s = map b64char (sextets s) @ padding s"

definition btoa :: "jsstring \<Rightarrow> error + jsstring" where
  "btoa s = (if list_ex (\<lambda>c. 255 < c) s then Inl InvalidCharacterError else Inr (encode64 s))"

definition isAsciiWhitespace :: "nat \<Rightarrow> bool" where
  "isAsciiWhitespace c = (c = 9 \<or> c = 10 \<or> c = 12 \<or> c = 13 \<or> c = 32)"

definition stripPadding :: "jsstring \<Rightarrow> jsstring" where
  "stripPadding d =
     (case rev d of
        p # q # r \<Rightarrow> if p = 61 \<and> q = 61 then rev r else if p = 61 then rev (q # r) else d
      | [p] \<Rightarrow> if p = 61 then [] else d
      | [] \<Rightarrow> d)"

fun decode64 :: "nat list \<Rightarrow> nat list" where
  "decode64 (p # q # r # s # rest) =
     [p * 4 + q div 16, (q mod 16) * 16 + r div 4, (r mod 4) * 64 + s] @ decode64 rest"
| "decode64 [p, q, r] = [p * 4 + q div 16, (q mod 16) * 16 + r div 4]"
| "decode64 [p, q] = [p * 4 + q div 16]"
| "decode64 [p] = []"
| "decode64 [] = []"

definition atob :: "jsstring \<Rightarrow> error + jsstring" where
  "atob data =
     (let d0 = filter (\<lambda>c. \<not> isAsciiWhitespace c) data;
          d = (if length d0 mod 4 = 0 then stripPadding d0 else d0)
      in if length d mod 4 = 1 then Inl InvalidCharacterError
         else (case those (map b64val d) of
                 None \<Rightarrow> Inl InvalidCharacterError
               | Some vs \<Rightarrow> Inr (decode64 vs)))"


section \<open>The document IR\<close>

text \<open>
  The values the host's \<open>doc.builders\<close> construct. A \<open>line\<close> object carries the flags
  \<open>soft\<close>, \<open>hard\<close> and \<open>literal\<close> of the host and the flag \<open>keepIfLonely\<close> this printer
  adds with \<open>Object.assign\<close>; an absent flag reads as false. A plain string is a document.
\<close>

datatype doc =
    Str jsstring
  | Concat "doc list"
  | Fill "doc list"
  | Group doc
  | Indent doc
  | Align int doc
  | Line (soft: bool) (hard: bool) (literal: bool) (keepIfLonely: bool)
  | BreakParent

definition line :: doc where
  "line = Line False False False False"

definition softline :: doc where
  "softline = Line True False False False"

definition hardline :: doc where
  "hardline = Concat [Line False True False False, BreakParent]"

definition literalline :: doc where
  "literalline = Concat [Line False True True False, BreakParent]"

definition dedent :: "doc \<Rightarrow> doc" where
  "dedent d = Align (- 1) d"

fun intersperse :: "'a \<Rightarrow> 'a list \<Rightarrow> 'a list" where
  "intersperse sep [] = []"
| "intersperse sep [x] = [x]"
| "intersperse sep (x # y # ys) = x # sep # intersperse sep (y # ys)"

definition join :: "doc \<Rightarrow> doc list \<Rightarrow> doc" where
  "join sep arr = Concat (intersperse sep arr)"

definition keepIfLonelyLine :: doc where
  "keepIfLonelyLine = Line False True False True"

text \<open>A document in a boolean position: only the empty string is falsy.\<close>

definition truthy :: "doc \<Rightarrow> bool" where
  "truthy d = (d \<noteq> Str [])"

fun isLine :: "doc \<Rightarrow> bool" where
  "isLine (Line s h l k) = True"
| "isLine d = False"

fun isLineDiscardedIfLonely :: "doc \<Rightarrow> bool" where
  "isLineDiscardedIfLonely (Line s h l k) = (\<not> k)"
| "isLineDiscardedIfLonely d = False"

fun isEmptyDoc :: "doc \<Rightarrow> bool" and isEmptyGroup :: "doc list \<Rightarrow> bool" where
  "isEmptyDoc (Str s) = (s = [])"
| "isEmptyDoc (Line s h l k) = (\<not> k)"
| "isEmptyDoc (Group c) = (if truthy c then isEmptyDoc c else False)"
| "isEmptyDoc (Indent c) = (if truthy c then isEmptyDoc c else False)"
| "isEmptyDoc (Align n c) = (if truthy c then isEmptyDoc c else False)"
| "isEmptyDoc (Concat ps) = isEmptyGroup ps"
| "isEmptyDoc (Fill ps) = isEmptyGroup ps"
| "isEmptyDoc BreakParent = False"
| "isEmptyGroup [] = True"
| "isEmptyGroup (d # ds) = (isEmptyDoc d \<and> isEmptyGroup ds)"

fun getParts :: "doc \<Rightarrow> doc list option" where
  "getParts (Fill ps) = Some ps"
| "getParts (Concat ps) = Some ps"
| "getParts d = None"

text \<open>
  \<open>trimLeft\<close> and \<open>trimRight\<close> splice the array they are given, or the \<open>parts\<close> array of
  its first (last) element, in place, and return what they removed (\<open>undefined\<close> when
  nothing was). The model returns the array after the call together with the removed
  documents; an element whose \<open>parts\<close> were spliced is rebuilt around the new parts.
\<close>

fun setParts :: "doc \<Rightarrow> doc list \<Rightarrow> doc" where
  "setParts (Fill ps) qs = Fill qs"
| "setParts (Concat ps) qs = Concat qs"
| "setParts d qs = d"

function trimLeft :: "(doc \<Rightarrow> bool) \<Rightarrow> doc list \<Rightarrow> doc list \<times> doc list option" where
  "trimLeft isWhitespace [] = ([], None)"
| "trimLeft isWhitespace (d # ds) =
     (if isWhitespace d then
        (dropWhile isWhitespace (d # ds), Some (takeWhile isWhitespace (d # ds)))
      else (case getParts d of
              None \<Rightarrow> (d # ds, None)
            | Some parts \<Rightarrow>
                (case trimLeft isWhitespace parts of
                   (parts', removed) \<Rightarrow> (setParts d parts' # ds, removed))))"
  by pat_completeness auto
termination
proof (relation "measure (\<lambda>(w, ds). size_list size ds)")
  show "wf (measure (\<lambda>(w, ds). size_list size ds))" by simp
next
  fix isWhitespace :: "doc \<Rightarrow> bool" and d ds x2
  assume "getParts d = Some x2"
  then have "size_list size x2 < size d" by (cases d) auto
  then show "((isWhitespace, x2), isWhitespace, d # ds) \<in> measure (\<lambda>(w, ds). size_list size ds)"
    by simp
qed

function trimRight :: "(doc \<Rightarrow> bool) \<Rightarrow> doc list \<Rightarrow> doc list \<times> doc list option" where
  "trimRight isWhitespace grp =
     (if grp = [] then ([], None)
      else if isWhitespace (last grp) then
        (rev (dropWhile isWhitespace (rev grp)), Some (rev (takeWhile isWhitespace (rev grp))))
      else (case getParts (last grp) of
              None \<Rightarrow> (grp, None)
            | Some parts \<Rightarrow>
                (case trimRight isWhitespace parts of
                   (parts', removed) \<Rightarrow> (butlast grp @ [setParts (last grp) parts'], removed))))"
  by pat_completeness auto
termination
proof (relation "measure (\<lambda>(w, ds). size_list size ds)")
  show "wf (measure (\<lambda>(w, ds). size_list size ds))" by simp
next
  fix isWhitespace :: "doc \<Rightarrow> bool" and grp :: "doc list" and x2
  assume ne: "grp \<noteq> []" and gp: "getParts (last grp) = Some x2"
  from gp have "size_list size x2 < size (last grp)" by (cases "last grp") auto
  moreover have "size (last grp) \<le> size_list size grp"
    using ne size_list_estimation' [of "last grp" grp "size (last grp)" size] by simp
  ultimately show "((isWhitespace, x2), isWhitespace, grp) \<in> measure (\<lambda>(w, ds). size_list size ds)"
    by simp
qed

definition trim :: "doc list \<Rightarrow> (doc \<Rightarrow> bool) \<Rightarrow> doc list" where
  "trim docs isWhitespace = fst (trimRight isWhitespace (fst (trimLeft isWhitespace docs)))"

definition dedentFinalNewline :: "doc list \<Rightarrow> doc list" where
  "dedentFinalNewline docs =
     (case trimRight isLine docs of
        (docs', Some trimmedRight) \<Rightarrow> docs' @ [dedent (last trimmedRight)]
      | (docs', None) \<Rightarrow> docs')"

definition extractOutermostNewlines :: "doc list \<Rightarrow> doc list" where
  "extractOutermostNewlines docs =
     (case trimLeft isLine docs of
        (docs1, leading) \<Rightarrow>
          (case trimRight isLine docs1 of
             (docs2, trailing) \<Rightarrow>
               (case leading of None \<Rightarrow> [] | Some ls \<Rightarrow> ls)
               @ (if \<not> isEmptyGroup docs2 then [Fill docs2] else [])
               @ (case trailing of None \<Rightarrow> [] | Some ts \<Rightarrow> ts)))"


section \<open>The syntax tree\<close>

text \<open>
  The nodes the parser hands to \<open>print\<close>, one constructor per value of \<open>node.type\<close> that
  the printer distinguishes; \<open>Other t\<close> is a node of any other type \<open>t\<close>. Every node but
  the root carries its offsets \<open>start\<close> and \<open>end\<close> first. A property that may be absent
  or \<open>null\<close> is an option; an attribute's \<open>value\<close> is \<open>true\<close> (\<open>None\<close>) or an array.
  \<open>Root\<close> is the parser's result with \<open>__isRoot\<close> set: its \<open>module\<close>, \<open>instance\<close>, \<open>css\<close>
  and \<open>html\<close>.
\<close>

datatype elemkind = Element | InlineComponent | Slot | Window | Head | Title

datatype metakind = Options | Body

datatype blockkind = ThenBlock | PendingBlock | CatchBlock

text \<open>
  The destructuring patterns of an await block (\<open>node.value\<close>, \<open>node.error\<close>): \<open>null\<close>, a
  string (the AST before v3.20) or a pattern node.
\<close>

datatype pattern =
    PNull
  | PString jsstring
  | ArrayPattern "pattern list"
  | AssignmentPattern pattern pattern
  | PIdentifier jsstring
  | PLiteral jsstring
  | ObjectPattern "pattern list"
  | Property pattern pattern
  | RestElement pattern
  | POther jsstring

datatype node =
    Root "node option" "node option" "node option" "node option"
  | Fragment nat nat "node list"
  | Text nat nat "jsstring option" jsstring
  | Elem elemkind nat nat jsstring "node list" "node list" "node option"
  | Meta metakind nat nat jsstring "node list"
  | Identifier nat nat jsstring
  | AttributeShorthand nat nat jsstring
  | Attribute nat nat jsstring "node list option"
  | MustacheTag nat nat node
  | IfBlock nat nat node "node list" "node option"
  | ElseBlock nat nat "node list"
  | EachBlock nat nat node node "jsstring option" "node option" "node list" "node option"
  | AwaitBlock nat nat node pattern pattern node node node
  | Block blockkind nat nat "node list"
  | EventHandler nat nat jsstring "jsstring list" "node option"
  | Binding nat nat jsstring node
  | ClassDirective nat nat jsstring node
  | LetDirective nat nat jsstring "node option"
  | DebugTag nat nat "node list"
  | Ref nat nat jsstring
  | Comment nat nat jsstring
  | Transition nat nat bool bool jsstring "jsstring list" "node option"
  | Action nat nat jsstring "node option"
  | Animation nat nat jsstring "node option"
  | RawMustacheTag nat nat node
  | Spread nat nat node
  | Script nat nat "node list"
  | Style nat nat
  | BinaryExpression nat nat node jsstring node
  | LiteralExpr nat nat jsstring
  | ConditionalExpression nat nat node node node
  | Other jsstring nat nat

text \<open>
  The fields, in the order of the constructors' arguments:
  \<open>Text start end raw data\<close>;
  \<open>Elem type start end name attributes children expression\<close>;
  \<open>Meta type start end name attributes\<close>;
  \<open>AttributeShorthand start end name\<close>, the name of its identifier \<open>expression\<close>;
  \<open>Attribute start end name value\<close>;
  \<open>IfBlock start end expression children else\<close>;
  \<open>EachBlock start end expression context index key children else\<close>;
  \<open>AwaitBlock start end expression value error pending then catch\<close>;
  \<open>EventHandler start end name modifiers expression\<close>;
  \<open>Transition start end intro outro name modifiers expression\<close>;
  \<open>Script start end attributes\<close>;
  \<open>BinaryExpression start end left operator right\<close>;
  \<open>LiteralExpr start end raw\<close> (type \<open>Literal\<close>);
  \<open>ConditionalExpression start end test consequent alternate\<close>.
\<close>

fun elemkind_name :: "elemkind \<Rightarrow> jsstring" where
  "elemkind_name Element = js ''Element''"
| "elemkind_name InlineComponent = js ''InlineComponent''"
| "elemkind_name Slot = js ''Slot''"
| "elemkind_name Window = js ''Window''"
| "elemkind_name Head = js ''Head''"
| "elemkind_name Title = js ''Title''"

fun nodeType :: "node \<Rightarrow> jsstring" where
  "nodeType (Root m i c h) = []"
| "nodeType (Fragment s e cs) = js ''Fragment''"
| "nodeType (Text s e r d) = js ''Text''"
| "nodeType (Elem k s e n as cs x) = elemkind_name k"
| "nodeType (Meta k s e n as) = (case k of Options \<Rightarrow> js ''Options'' | Body \<Rightarrow> js ''Body'')"
| "nodeType (Identifier s e n) = js ''Identifier''"
| "nodeType (AttributeShorthand s e n) = js ''AttributeShorthand''"
| "nodeType (Attribute s e n v) = js ''Attribute''"
| "nodeType (MustacheTag s e x) = js ''MustacheTag''"
| "nodeType (IfBlock s e x cs el) = js ''IfBlock''"
| "nodeType (ElseBlock s e cs) = js ''ElseBlock''"
| "nodeType (EachBlock s e x c i k cs el) = js ''EachBlock''"
| "nodeType (AwaitBlock s e x v er p t c) = js ''AwaitBlock''"
| "nodeType (Block k s e cs) =
     (case k of ThenBlock \<Rightarrow> js ''ThenBlock'' | PendingBlock \<Rightarrow> js ''PendingBlock''
      | CatchBlock \<Rightarrow> js ''CatchBlock'')"
| "nodeType (EventHandler s e n ms x) = js ''EventHandler''"
| "nodeType (Binding s e n x) = js ''Binding''"
| "nodeType (ClassDirective s e n x) = js ''Class''"
| "nodeType (LetDirective s e n x) = js ''Let''"
| "nodeType (DebugTag s e ids) = js ''DebugTag''"
| "nodeType (Ref s e n) = js ''Ref''"
| "nodeType (Comment s e d) = js ''Comment''"
| "nodeType (Transition s e i out n ms x) = js ''Transition''"
| "nodeType (Action s e n x) = js ''Action''"
| "nodeType (Animation s e n x) = js ''Animation''"
| "nodeType (RawMustacheTag s e x) = js ''RawMustacheTag''"
| "nodeType (Spread s e x) = js ''Spread''"
| "nodeType (Script s e as) = js ''Script''"
| "nodeType (Style s e) = js ''Style''"
| "nodeType (BinaryExpression s e l opr r) = js ''BinaryExpression''"
| "nodeType (LiteralExpr s e r) = js ''Literal''"
| "nodeType (ConditionalExpression s e t c a) = js ''ConditionalExpression''"
| "nodeType (Other t s e) = t"

text \<open>\<open>locStart\<close> and \<open>locEnd\<close>: \<open>node.start\<close> and \<open>node.end\<close>. The printer never reads
  them on the root.\<close>

fun locStart :: "node \<Rightarrow> nat" where
  "locStart (Root m i c h) = 0"
| "locStart (Fragment s e cs) = s"
| "locStart (Text s e r d) = s"
| "locStart (Elem k s e n as cs x) = s"
| "locStart (Meta k s e n as) = s"
| "locStart (Identifier s e n) = s"
| "locStart (AttributeShorthand s e n) = s"
| "locStart (Attribute s e n v) = s"
| "locStart (MustacheTag s e x) = s"
| "locStart (IfBlock s e x cs el) = s"
| "locStart (ElseBlock s e cs) = s"
| "locStart (EachBlock s e x c i k cs el) = s"
| "locStart (AwaitBlock s e x v er p t c) = s"
| "locStart (Block k s e cs) = s"
| "locStart (EventHandler s e n ms x) = s"
| "locStart (Binding s e n x) = s"
| "locStart (ClassDirective s e n x) = s"
| "locStart (LetDirective s e n x) = s"
| "locStart (DebugTag s e ids) = s"
| "locStart (Ref s e n) = s"
| "locStart (Comment s e d) = s"
| "locStart (Transition s e i out n ms x) = s"
| "locStart (Action s e n x) = s"
| "locStart (Animation s e n x) = s"
| "locStart (RawMustacheTag s e x) = s"
| "locStart (Spread s e x) = s"
| "locStart (Script s e as) = s"
| "locStart (Style s e) = s"
| "locStart (BinaryExpression s e l opr r) = s"
| "locStart (LiteralExpr s e r) = s"
| "locStart (ConditionalExpression s e t c a) = s"
| "locStart (Other t s e) = s"

fun locEnd :: "node \<Rightarrow> nat" where
  "locEnd (Root m i c h) = 0"
| "locEnd (Fragment s e cs) = e"
| "locEnd (Text s e r d) = e"
| "locEnd (Elem k s e n as cs x) = e"
| "locEnd (Meta k s e n as) = e"
| "locEnd (Identifier s e n) = e"
| "locEnd (AttributeShorthand s e n) = e"
| "locEnd (Attribute s e n v) = e"
| "locEnd (MustacheTag s e x) = e"
| "locEnd (IfBlock s e x cs el) = e"
| "locEnd (ElseBlock s e cs) = e"
| "locEnd (EachBlock s e x c i k cs el) = e"
| "locEnd (AwaitBlock s e x v er p t c) = e"
| "locEnd (Block k s e cs) = e"
| "locEnd (EventHandler s e n ms x) = e"
| "locEnd (Binding s e n x) = e"
| "locEnd (ClassDirective s e n x) = e"
| "locEnd (LetDirective s e n x) = e"
| "locEnd (DebugTag s e ids) = e"
| "locEnd (Ref s e n) = e"
| "locEnd (Comment s e d) = e"
| "locEnd (Transition s e i out n ms x) = e"
| "locEnd (Action s e n x) = e"
| "locEnd (Animation s e n x) = e"
| "locEnd (RawMustacheTag s e x) = e"
| "locEnd (Spread s e x) = e"
| "locEnd (Script s e as) = e"
| "locEnd (Style s e) = e"
| "locEnd (BinaryExpression s e l opr r) = e"
| "locEnd (LiteralExpr s e r) = e"
| "locEnd (ConditionalExpression s e t c a) = e"
| "locEnd (Other t s e) = e"

text \<open>\<open>node.name\<close>, \<open>node.children\<close>: \<open>None\<close> where the property is \<open>undefined\<close>.\<close>

fun nameProp :: "node \<Rightarrow> jsstring option" where
  "nameProp (Elem k s e n as cs x) = Some n"
| "nameProp (Meta k s e n as) = Some n"
| "nameProp (Identifier s e n) = Some n"
| "nameProp (Attribute s e n v) = Some n"
| "nameProp (EventHandler s e n ms x) = Some n"
| "nameProp (Binding s e n x) = Some n"
| "nameProp (ClassDirective s e n x) = Some n"
| "nameProp (LetDirective s e n x) = Some n"
| "nameProp (Ref s e n) = Some n"
| "nameProp (Transition s e i out n ms x) = Some n"
| "nameProp (Action s e n x) = Some n"
| "nameProp (Animation s e n x) = Some n"
| "nameProp n = None"

fun childrenProp :: "node \<Rightarrow> node list option" where
  "childrenProp (Fragment s e cs) = Some cs"
| "childrenProp (Elem k s e n as cs x) = Some cs"
| "childrenProp (IfBlock s e x cs el) = Some cs"
| "childrenProp (ElseBlock s e cs) = Some cs"
| "childrenProp (EachBlock s e x c i k cs el) = Some cs"
| "childrenProp (Block k s e cs) = Some cs"
| "childrenProp n = None"

fun attributesProp :: "node \<Rightarrow> node list option" where
  "attributesProp (Elem k s e n as cs x) = Some as"
| "attributesProp (Meta k s e n as) = Some as"
| "attributesProp (Script s e as) = Some as"
| "attributesProp n = None"


section \<open>Helpers of the printer\<close>

definition selfClosingTags :: "jsstring list" where
  "selfClosingTags = map js [''area'', ''base'', ''br'', ''col'', ''embed'', ''hr'', ''img'',
     ''input'', ''link'', ''meta'', ''param'', ''source'', ''track'', ''wbr'']"

definition inlineElements :: "jsstring list" where
  "inlineElements = map js [''a'', ''abbr'', ''audio'', ''b'', ''bdi'', ''bdo'', ''br'',
     ''button'', ''canvas'', ''cite'', ''code'', ''data'', ''datalist'', ''del'', ''dfn'', ''em'',
     ''embed'', ''i'', ''iframe'', ''img'', ''input'', ''ins'', ''kbd'', ''label'', ''map'',
     ''mark'', ''meter'', ''noscript'', ''object'', ''output'', ''picture'', ''progress'', ''q'',
     ''ruby'', ''s'', ''samp'', ''select'', ''slot'', ''small'', ''span'', ''strong'', ''sub'',
     ''sup'', ''svg'', ''template'', ''textarea'', ''time'', ''u'', ''var'', ''video'', ''wbr'']"

definition formattableAttributes :: "jsstring list" where
  "formattableAttributes = [js ''class'']"

definition unsupportedLanguages :: "jsstring list" where
  "unsupportedLanguages =
     map js [''coffee'', ''coffeescript'', ''pug'', ''styl'', ''stylus'', ''sass'']"

fun isASTNode :: "node \<Rightarrow> bool" where
  "isASTNode (Root m i c h) = True"
| "isASTNode n = False"

text \<open>\<open>isPreTagContent\<close> reads \<open>path.stack\<close>: the node being printed and its ancestors.\<close>

fun isPreOrUnformattable :: "node \<Rightarrow> bool" where
  "isPreOrUnformattable (Elem k s e n as cs x) = (k = Element \<and> toLowerCase n = js ''pre'')"
| "isPreOrUnformattable (Attribute s e n v) = (n \<notin> set formattableAttributes)"
| "isPreOrUnformattable n = False"

definition isPreTagContent :: "node list \<Rightarrow> bool" where
  "isPreTagContent stack = list_ex isPreOrUnformattable stack"

fun isInlineElement :: "node \<Rightarrow> bool" where
  "isInlineElement (Elem k s e n as cs x) = (k = Element \<and> n \<in> set inlineElements)"
| "isInlineElement n = False"

text \<open>\<open>isWhitespaceChar(ch)\<close>, where \<open>ch\<close> is \<open>undefined\<close> (\<open>None\<close>) on an empty string.\<close>

fun isWhitespaceChar :: "nat option \<Rightarrow> bool" where
  "isWhitespaceChar None = False"
| "isWhitespaceChar (Some c) = (c = 32 \<or> c = 9 \<or> c = 10 \<or> c = 13)"

text \<open>\<open>canBreakAfter\<close> and \<open>canBreakBefore\<close> index \<open>node.raw\<close>: a text node without
  \<open>raw\<close> is a \<open>TypeError\<close>.\<close>

fun canBreakAfter :: "node \<Rightarrow> error + bool" where
  "canBreakAfter (Text s e raw d) =
     (case raw of
        None \<Rightarrow> Inl TypeError
      | Some r \<Rightarrow> Inr (isWhitespaceChar (if r = [] then None else Some (last r))))"
| "canBreakAfter (Elem k s e n as cs x) =
     (if k = Element then Inr (\<not> isInlineElement (Elem k s e n as cs x)) else Inr True)"
| "canBreakAfter n = Inr True"

fun canBreakBefore :: "node \<Rightarrow> error + bool" where
  "canBreakBefore (Text s e raw d) =
     (case raw of
        None \<Rightarrow> Inl TypeError
      | Some r \<Rightarrow> Inr (isWhitespaceChar (if r = [] then None else Some (hd r))))"
| "canBreakBefore (Elem k s e n as cs x) =
     (if k = Element then Inr (\<not> isInlineElement (Elem k s e n as cs x)) else Inr True)"
| "canBreakBefore n = Inr True"

text \<open>\<open>node.raw || node.data\<close>.\<close>

definition rawOrData :: "jsstring option \<Rightarrow> jsstring \<Rightarrow> jsstring" where
  "rawOrData raw d = (case raw of None \<Rightarrow> d | Some r \<Rightarrow> if r = [] then d else r)"

fun isInlineNode :: "node \<Rightarrow> bool" where
  "isInlineNode (Text s e raw d) =
     (let t = rawOrData raw d; isAllWhitespace = (trim_js t = []) in \<not> isAllWhitespace \<or> t = [])"
| "isInlineNode (MustacheTag s e x) = True"
| "isInlineNode (EachBlock s e x c i k cs el) = True"
| "isInlineNode (IfBlock s e x cs el) = True"
| "isInlineNode (Elem k s e n as cs x) =
     (if k = Element then isInlineElement (Elem k s e n as cs x) else False)"
| "isInlineNode n = False"

definition getChildren :: "node \<Rightarrow> node list" where
  "getChildren n = (case childrenProp n of Some cs \<Rightarrow> cs | None \<Rightarrow> [])"

text \<open>
  \<open>getNextNode\<close>: \<open>path.getParentNode()\<close> is the nearest ancestor, the head of the list
  of ancestors; without one, reading its children is a \<open>TypeError\<close>.
\<close>

definition getNextNode :: "node list \<Rightarrow> node \<Rightarrow> error + node option" where
  "getNextNode ancestors n =
     (case ancestors of
        [] \<Rightarrow> Inl TypeError
      | Root m i c h # rest \<Rightarrow>
          (case h of
             None \<Rightarrow> Inl TypeError
           | Some parent \<Rightarrow> Inr (find (\<lambda>child. locStart child = locEnd n) (getChildren parent)))
      | parent # rest \<Rightarrow> Inr (find (\<lambda>child. locStart child = locEnd n) (getChildren parent)))"

fun isEmptyNode :: "node \<Rightarrow> bool" where
  "isEmptyNode (Text s e raw d) = (trim_js (rawOrData raw d) = [])"
| "isEmptyNode n = False"

fun isIgnoreDirective :: "node \<Rightarrow> bool" where
  "isIgnoreDirective (Comment s e d) = (trim_js d = js ''prettier-ignore'')"
| "isIgnoreDirective n = False"

text \<open>\<open>printRaw\<close>: the \<open>raw\<close> of the leaves, concatenated. A node with children has no
  \<open>raw\<close> of its own read; only text nodes carry \<open>raw\<close>.\<close>

fun printRaw :: "node \<Rightarrow> jsstring" and printRaws :: "node list \<Rightarrow> jsstring" where
  "printRaw (Fragment s e cs) = printRaws cs"
| "printRaw (Elem k s e n as cs x) = printRaws cs"
| "printRaw (IfBlock s e x cs el) = printRaws cs"
| "printRaw (ElseBlock s e cs) = printRaws cs"
| "printRaw (EachBlock s e x c i k cs el) = printRaws cs"
| "printRaw (Block k s e cs) = printRaws cs"
| "printRaw (Text s e raw d) = (case raw of None \<Rightarrow> [] | Some r \<Rightarrow> r)"
| "printRaw n = []"
| "printRaws [] = []"
| "printRaws (c # cs) = printRaw c @ printRaws cs"

fun isTextNode :: "node \<Rightarrow> bool" where
  "isTextNode (Text s e raw d) = True"
| "isTextNode n = False"

fun valueProp :: "node \<Rightarrow> node list option option" where
  "valueProp (Attribute s e n v) = Some v"
| "valueProp n = None"

text \<open>
  \<open>getAttributeValue\<close>: the \<open>value\<close> of the first attribute of that name, \<open>true\<close> or an
  array; \<open>None\<close> when no attribute has the name or the one found has no \<open>value\<close>.
  A node without \<open>attributes\<close> is a \<open>TypeError\<close>.
\<close>

definition getAttributeValue :: "jsstring \<Rightarrow> node \<Rightarrow> error + node list option option" where
  "getAttributeValue attributeName n =
     (case attributesProp n of
        None \<Rightarrow> Inl TypeError
      | Some attributes \<Rightarrow>
          (case find (\<lambda>attribute. nameProp attribute = Some attributeName) attributes of
             None \<Rightarrow> Inr None
           | Some langAttribute \<Rightarrow> Inr (valueProp langAttribute)))"

fun textData :: "node \<Rightarrow> jsstring" where
  "textData (Text s e raw d) = d"
| "textData n = []"

definition getAttributeTextValue :: "jsstring \<Rightarrow> node \<Rightarrow> error + jsstring option" where
  "getAttributeTextValue attributeName n =
     (case getAttributeValue attributeName n of
        Inl err \<Rightarrow> Inl err
      | Inr (Some (Some v)) \<Rightarrow>
          (case find isTextNode v of
             Some textValue \<Rightarrow> Inr (Some (textData textValue))
           | None \<Rightarrow> Inr None)
      | Inr _ \<Rightarrow> Inr None)"

text \<open>\<open>value.replace(/^text\//, "")\<close>.\<close>

definition stripTextPrefix :: "jsstring \<Rightarrow> jsstring" where
  "stripTextPrefix v = (if starts_with v (js ''text/'') then drop 5 v else v)"

definition getLangAttribute :: "node \<Rightarrow> error + jsstring option" where
  "getLangAttribute n =
     (case getAttributeTextValue (js ''lang'') n of
        Inl err \<Rightarrow> Inl err
      | Inr (Some v) \<Rightarrow> Inr (Some (stripTextPrefix v))
      | Inr None \<Rightarrow> Inr None)"

definition isNodeSupportedLanguage :: "node \<Rightarrow> error + bool" where
  "isNodeSupportedLanguage n =
     (case getLangAttribute n of
        Inl err \<Rightarrow> Inl err
      | Inr None \<Rightarrow> Inr True
      | Inr (Some lang) \<Rightarrow> Inr (\<not> (lang \<noteq> [] \<and> lang \<in> set unsupportedLanguages)))"

fun isLoneMustacheTag :: "node list option \<Rightarrow> bool" where
  "isLoneMustacheTag (Some [MustacheTag s e x]) = True"
| "isLoneMustacheTag v = False"

fun isAttributeShorthand :: "node list option \<Rightarrow> bool" where
  "isAttributeShorthand (Some [AttributeShorthand s e n]) = True"
| "isAttributeShorthand v = False"

text \<open>\<open>isOrCanBeConvertedToShorthand\<close>, of an attribute's \<open>name\<close> and \<open>value\<close>.\<close>

fun isOrCanBeConvertedToShorthand :: "jsstring \<Rightarrow> node list option \<Rightarrow> bool" where
  "isOrCanBeConvertedToShorthand name (Some [AttributeShorthand s e n]) = True"
| "isOrCanBeConvertedToShorthand name (Some [MustacheTag s e expression]) =
     (case expression of Identifier s' e' n \<Rightarrow> n = name | _ \<Rightarrow> False)"
| "isOrCanBeConvertedToShorthand name v = False"


section \<open>The regular expressions of the printer\<close>

text \<open>
  Each regular expression of the source is a function that computes what the expression
  computes on every input. \<open>hasBlankLine\<close> is \<open>/\n\r?\s*\n\r?/.test(s)\<close>: a line feed,
  an optional carriage return, whitespace, and a line feed.
\<close>

fun wsThenLF :: "jsstring \<Rightarrow> bool" where
  "wsThenLF [] = False"
| "wsThenLF (c # cs) = (c = 10 \<or> (isJSWhitespace c \<and> wsThenLF cs))"

fun hasBlankLine :: "jsstring \<Rightarrow> bool" where
  "hasBlankLine [] = False"
| "hasBlankLine (c # cs) =
     ((c = 10 \<and> ((case cs of d # ds \<Rightarrow> d = 13 \<and> wsThenLF ds | [] \<Rightarrow> False) \<or> wsThenLF cs))
      \<or> hasBlankLine cs)"

text \<open>\<open>text.split(/[\t\n\f\r ]+/)\<close>.\<close>

definition isSplitWs :: "nat \<Rightarrow> bool" where
  "isSplitWs c = (c = 9 \<or> c = 10 \<or> c = 12 \<or> c = 13 \<or> c = 32)"

function splitWhitespace :: "jsstring \<Rightarrow> jsstring list" where
  "splitWhitespace [] = [[]]"
| "splitWhitespace (c # cs) =
     (if isSplitWs c then [] # splitWhitespace (dropWhile isSplitWs cs)
      else (case splitWhitespace cs of
              [] \<Rightarrow> [[c]]
            | w # ws \<Rightarrow> (c # w) # ws))"
  by pat_completeness auto
termination
  by (relation "measure length") (auto simp: less_Suc_eq_le length_dropWhile_le)

text \<open>\<open>/^([\t\f\r ]*\n){2}/\<close> and \<open>/(\n[\t\f\r ]*){2}$/\<close>.\<close>

definition isBlank :: "nat \<Rightarrow> bool" where
  "isBlank c = (c = 9 \<or> c = 12 \<or> c = 13 \<or> c = 32)"

definition afterBlankLF :: "jsstring \<Rightarrow> jsstring option" where
  "afterBlankLF s = (case dropWhile isBlank s of c # r \<Rightarrow> if c = 10 then Some r else None | [] \<Rightarrow> None)"

definition startsWithTwoNewlines :: "jsstring \<Rightarrow> bool" where
  "startsWithTwoNewlines s =
     (case afterBlankLF s of None \<Rightarrow> False | Some r \<Rightarrow> afterBlankLF r \<noteq> None)"

definition endsWithTwoNewlines :: "jsstring \<Rightarrow> bool" where
  "endsWithTwoNewlines s = startsWithTwoNewlines (rev s)"

text \<open>
  \<open>splitTextToDocs\<close>. An assignment to \<open>docs[0]\<close> on an empty array appends; an
  assignment to \<open>docs[docs.length - 1]\<close> on an empty array leaves it empty.
\<close>

definition splitTextToDocs :: "jsstring \<Rightarrow> doc list" where
  "splitTextToDocs t =
     (let docs0 = filter (\<lambda>d. d \<noteq> Str []) (intersperse line (map Str (splitWhitespace t)));
          docs1 = (if startsWithTwoNewlines t
                   then (if docs0 = [] then [keepIfLonelyLine] else docs0[0 := keepIfLonelyLine])
                   else docs0);
          docs2 = (if endsWithTwoNewlines t
                   then (if docs1 = [] then docs1 else docs1[length docs1 - 1 := keepIfLonelyLine])
                   else docs1)
      in docs2)"


section \<open>The embedded-region codec\<close>

text \<open>The marker attribute: U+2702, \<open>prettier:content\<close>, U+2702.\<close>

definition snippedTagContentAttribute :: jsstring where
  "snippedTagContentAttribute = [9986] @ js ''prettier:content'' @ [9986]"

text \<open>
  The replacement \<open>snipTagContent\<close> writes for one match of its expression, whose groups
  are \<open>attributes\<close> and \<open>content\<close>: the tag with the marker attribute holding
  \<open>btoa(content)\<close>, around the placeholder.
\<close>

definition snipReplacement :: "jsstring \<Rightarrow> jsstring \<Rightarrow> jsstring \<Rightarrow> jsstring \<Rightarrow> error + jsstring" where
  "snipReplacement tagName placeholder attributes content =
     (case btoa content of
        Inl err \<Rightarrow> Inl err
      | Inr encoded \<Rightarrow>
          Inr (js ''<'' @ tagName @ attributes @ js '' '' @ snippedTagContentAttribute @ js ''=\"''
               @ encoded @ js ''\">'' @ placeholder @ js ''</'' @ tagName @ js ''>''))"

text \<open>
  \<open>snipTagContent\<close>: every match of
  \<open>[\s\n]*<tagName([^]*?)>([^]*?)</tagName>[\s\n]*\<close> (flags \<open>gi\<close>) is replaced. A match
  starts at the whitespace before \<open><tagName\<close>; \<open>attributes\<close> runs to the first \<open>>\<close>,
  \<open>content\<close> to the first closing tag after it, and the whitespace after the closing tag
  is taken too.
\<close>

definition lowerChar :: "nat \<Rightarrow> nat" where
  "lowerChar c = (if 65 \<le> c \<and> c \<le> 90 then c + 32 else c)"

fun starts_with_ci :: "jsstring \<Rightarrow> jsstring \<Rightarrow> bool" where
  "starts_with_ci s [] = True"
| "starts_with_ci [] (t # ts) = False"
| "starts_with_ci (c # cs) (t # ts) = (lowerChar c = lowerChar t \<and> starts_with_ci cs ts)"

text \<open>The text before the first occurrence of \<open>pat\<close> (compared by \<open>sw\<close>) and the text
  from that occurrence on.\<close>

fun breakAt :: "(jsstring \<Rightarrow> jsstring \<Rightarrow> bool) \<Rightarrow> jsstring \<Rightarrow> jsstring \<Rightarrow> (jsstring \<times> jsstring) option" where
  "breakAt sw pat [] = (if sw [] pat then Some ([], []) else None)"
| "breakAt sw pat (c # cs) =
     (if sw (c # cs) pat then Some ([], c # cs)
      else (case breakAt sw pat cs of
              None \<Rightarrow> None
            | Some (before, rest) \<Rightarrow> Some (c # before, rest)))"

text \<open>One match of the expression at the head of \<open>s\<close>: the groups and the text after
  the match.\<close>

definition snipMatchHere :: "jsstring \<Rightarrow> jsstring \<Rightarrow> (jsstring \<times> jsstring \<times> jsstring) option" where
  "snipMatchHere tagName s =
     (let s1 = dropWhile isJSWhitespace s in
      if starts_with_ci s1 (js ''<'' @ tagName) then
        (case breakAt starts_with (js ''>'') (drop (Suc (length tagName)) s1) of
           None \<Rightarrow> None
         | Some (attributes, r1) \<Rightarrow>
             (case breakAt starts_with_ci (js ''</'' @ tagName @ js ''>'') (drop 1 r1) of
                None \<Rightarrow> None
              | Some (content, r2) \<Rightarrow>
                  Some (attributes, content,
                        dropWhile isJSWhitespace (drop (length tagName + 3) r2))))
      else None)"

lemma breakAt_length: "breakAt sw pat s = Some (before, rest) \<Longrightarrow> length rest \<le> length s"
  by (induction s arbitrary: before rest) (auto split: if_splits option.splits)

lemma starts_with_ci_length: "starts_with_ci s t \<Longrightarrow> length t \<le> length s"
  by (induction s t rule: starts_with_ci.induct) auto

lemma snipMatchHere_length:
  assumes "snipMatchHere tagName s = Some (a, c, rest)"
  shows "length rest < length s"
proof -
  let ?s1 = "dropWhile isJSWhitespace s"
  from assms obtain r1 r2 where
    sw: "starts_with_ci ?s1 (js ''<'' @ tagName)" and
    b1: "breakAt starts_with (js ''>'') (drop (Suc (length tagName)) ?s1) = Some (a, r1)" and
    b2: "breakAt starts_with_ci (js ''</'' @ tagName @ js ''>'') (drop 1 r1) = Some (c, r2)" and
    r: "rest = dropWhile isJSWhitespace (drop (length tagName + 3) r2)"
    by (auto simp: snipMatchHere_def Let_def split: if_splits option.splits)
  have "length rest \<le> length (drop (length tagName + 3) r2)"
    unfolding r by (rule length_dropWhile_le)
  also have "\<dots> \<le> length r2" by simp
  also have "\<dots> \<le> length r1" using breakAt_length [OF b2] by simp
  also have "\<dots> \<le> length (drop (Suc (length tagName)) ?s1)" using breakAt_length [OF b1] by simp
  also have "\<dots> < length ?s1"
    using starts_with_ci_length [OF sw] by (simp add: js_def)
  also have "\<dots> \<le> length s" by (rule length_dropWhile_le)
  finally show ?thesis .
qed

function snipTagContent :: "jsstring \<Rightarrow> jsstring \<Rightarrow> jsstring \<Rightarrow> error + jsstring" where
  "snipTagContent tagName placeholder [] = Inr []"
| "snipTagContent tagName placeholder (c # cs) =
     (case snipMatchHere tagName (c # cs) of
        Some (attributes, content, rest) \<Rightarrow>
          (case snipReplacement tagName placeholder attributes content of
             Inl err \<Rightarrow> Inl err
           | Inr r \<Rightarrow>
               (case snipTagContent tagName placeholder rest of
                  Inl err \<Rightarrow> Inl err
                | Inr out \<Rightarrow> Inr (r @ out)))
      | None \<Rightarrow>
          (case snipTagContent tagName placeholder cs of
             Inl err \<Rightarrow> Inl err
           | Inr out \<Rightarrow> Inr (c # out)))"
  by pat_completeness auto
termination
  by (relation "measure (\<lambda>(t, p, s). length s)") (auto dest: snipMatchHere_length)


definition hasSnippedContent :: "jsstring \<Rightarrow> bool" where
  "hasSnippedContent t = includes_js t snippedTagContentAttribute"

text \<open>
  \<open>unsnipContent\<close> replaces every match of
  \<open>(<\w+.*?)\s*MARKER="(.*?)">.*?(?=<\/)\<close> (flags \<open>gi\<close>) by the first group, \<open>>\<close>
  and \<open>atob\<close> of the second. \<open>afterMarker\<close> matches from the marker on: the encoded
  content runs to the first \<open>">\<close>, the placeholder to the first \<open></\<close>, neither across a
  line terminator. \<open>unsnipStart\<close> is the lazy \<open>.*?\<close> before the marker: it stops at the
  first position from which whitespace and then the marker follow.
\<close>

definition isWordChar :: "nat \<Rightarrow> bool" where
  "isWordChar c = ((48 \<le> c \<and> c \<le> 57) \<or> (65 \<le> c \<and> c \<le> 90) \<or> (97 \<le> c \<and> c \<le> 122) \<or> c = 95)"

definition afterMarker :: "jsstring \<Rightarrow> (jsstring \<times> jsstring) option" where
  "afterMarker t =
     (if starts_with_ci t (snippedTagContentAttribute @ js ''=\"'') then
        (case breakAt starts_with (js ''\">'') (drop (length snippedTagContentAttribute + 2) t) of
           None \<Rightarrow> None
         | Some (encodedContent, r1) \<Rightarrow>
             if list_ex isLineTerminator encodedContent then None
             else (case breakAt starts_with (js ''</'') (drop 2 r1) of
                     None \<Rightarrow> None
                   | Some (placeholder, rest) \<Rightarrow>
                       if list_ex isLineTerminator placeholder then None
                       else Some (encodedContent, rest)))
      else None)"

fun unsnipStart :: "jsstring \<Rightarrow> (jsstring \<times> jsstring \<times> jsstring) option" where
  "unsnipStart [] = None"
| "unsnipStart (c # cs) =
     (case afterMarker (dropWhile isJSWhitespace (c # cs)) of
        Some (encodedContent, rest) \<Rightarrow> Some ([], encodedContent, rest)
      | None \<Rightarrow>
          if isLineTerminator c then None
          else (case unsnipStart cs of
                  None \<Rightarrow> None
                | Some (pre, encodedContent, rest) \<Rightarrow> Some (c # pre, encodedContent, rest)))"

definition unsnipMatchHere :: "jsstring \<Rightarrow> (jsstring \<times> jsstring \<times> jsstring) option" where
  "unsnipMatchHere s =
     (case s of
        [] \<Rightarrow> None
      | c # t1 \<Rightarrow>
          if c = 60 \<and> takeWhile isWordChar t1 \<noteq> [] then
            (case unsnipStart (dropWhile isWordChar t1) of
               None \<Rightarrow> None
             | Some (pre, encodedContent, rest) \<Rightarrow>
                 Some (c # takeWhile isWordChar t1 @ pre, encodedContent, rest))
          else None)"

lemma afterMarker_length: "afterMarker t = Some (enc, rest) \<Longrightarrow> length rest \<le> length t"
proof -
  assume a: "afterMarker t = Some (enc, rest)"
  then obtain r1 p where
    b1: "breakAt starts_with (js ''\">'') (drop (length snippedTagContentAttribute + 2) t) = Some (enc, r1)"
    and b2: "breakAt starts_with (js ''</'') (drop 2 r1) = Some (p, rest)"
    by (auto simp: afterMarker_def split: if_splits option.splits)
  have "length rest \<le> length r1" using breakAt_length [OF b2] by simp
  also have "\<dots> \<le> length t" using breakAt_length [OF b1] by simp
  finally show ?thesis .
qed

lemma unsnipStart_length: "unsnipStart s = Some (pre, enc, rest) \<Longrightarrow> length rest \<le> length s"
proof (induction s arbitrary: pre)
  case Nil
  then show ?case by simp
next
  case (Cons c cs)
  show ?case
  proof (cases "afterMarker (dropWhile isJSWhitespace (c # cs))")
    case (Some a)
    with Cons.prems have "afterMarker (dropWhile isJSWhitespace (c # cs)) = Some (enc, rest)"
      by (cases a) simp
    then have "length rest \<le> length (dropWhile isJSWhitespace (c # cs))"
      by (rule afterMarker_length)
    also have "\<dots> \<le> length (c # cs)" by (rule length_dropWhile_le)
    finally show ?thesis .
  next
    case None
    with Cons.prems obtain pre' where "unsnipStart cs = Some (pre', enc, rest)"
      by (auto split: if_splits option.splits)
    then have "length rest \<le> length cs" by (rule Cons.IH)
    then show ?thesis by simp
  qed
qed

lemma unsnipMatchHere_length:
  assumes "unsnipMatchHere s = Some (start, enc, rest)"
  shows "length rest < length s"
proof -
  from assms obtain c t1 pre where s: "s = c # t1"
    and u: "unsnipStart (dropWhile isWordChar t1) = Some (pre, enc, rest)"
    by (auto simp: unsnipMatchHere_def split: list.splits if_splits option.splits)
  have "length rest \<le> length (dropWhile isWordChar t1)" using u by (rule unsnipStart_length)
  also have "\<dots> \<le> length t1" by (rule length_dropWhile_le)
  finally show ?thesis using s by simp
qed

function unsnipContent :: "jsstring \<Rightarrow> error + jsstring" where
  "unsnipContent [] = Inr []"
| "unsnipContent (c # cs) =
     (case unsnipMatchHere (c # cs) of
        Some (start, encodedContent, rest) \<Rightarrow>
          (case atob encodedContent of
             Inl err \<Rightarrow> Inl err
           | Inr decoded \<Rightarrow>
               (case unsnipContent rest of
                  Inl err \<Rightarrow> Inl err
                | Inr out \<Rightarrow> Inr (start @ js ''>'' @ decoded @ out)))
      | None \<Rightarrow>
          (case unsnipContent cs of
             Inl err \<Rightarrow> Inl err
           | Inr out \<Rightarrow> Inr (c # out)))"
  by pat_completeness auto
termination
  by (relation "measure length") (auto dest: unsnipMatchHere_length)

text \<open>\<open>getSnippedContent\<close>: \<open>atob\<close> of the marker attribute's text, or the empty string
  when the attribute is absent or empty.\<close>

definition getSnippedContent :: "node \<Rightarrow> error + jsstring" where
  "getSnippedContent n =
     (case getAttributeTextValue snippedTagContentAttribute n of
        Inl err \<Rightarrow> Inl err
      | Inr (Some encodedContent) \<Rightarrow> if encodedContent \<noteq> [] then atob encodedContent else Inr []
      | Inr None \<Rightarrow> Inr [])"

text \<open>\<open>parsers.svelte.preprocess\<close>.\<close>

definition preprocess :: "jsstring \<Rightarrow> error + jsstring" where
  "preprocess t =
     (case snipTagContent (js ''style'') [] t of
        Inl err \<Rightarrow> Inl err
      | Inr t1 \<Rightarrow>
          (case snipTagContent (js ''script'') (js ''{}'') t1 of
             Inl err \<Rightarrow> Inl err
           | Inr t2 \<Rightarrow> Inr (trim_js t2)))"


section \<open>\<open>extractAttributes\<close>\<close>

text \<open>
  \<open>tagAttributes\<close> is the group of the first match of \<open>/<[a-z]+\s*(.*?)>/i\<close>: after a
  \<open><\<close>, letters and whitespace, the text up to the first \<open>>\<close>, which no line terminator
  may precede. Without a match the destructuring of \<open>null\<close> is a \<open>TypeError\<close>.
\<close>

definition isAsciiLetter :: "nat \<Rightarrow> bool" where
  "isAsciiLetter c = ((65 \<le> c \<and> c \<le> 90) \<or> (97 \<le> c \<and> c \<le> 122))"

definition tagRest :: "jsstring \<Rightarrow> jsstring option" where
  "tagRest cs =
     (if takeWhile isAsciiLetter cs = [] then None
      else (let r = dropWhile isJSWhitespace (dropWhile isAsciiLetter cs);
                g = takeWhile (\<lambda>c. c \<noteq> 62 \<and> \<not> isLineTerminator c) r
            in (case drop (length g) r of
                  [] \<Rightarrow> None
                | d # rest \<Rightarrow> if d = 62 then Some g else None)))"

fun tagAttributes :: "jsstring \<Rightarrow> jsstring option" where
  "tagAttributes [] = None"
| "tagAttributes (c # cs) =
     (case (if c = 60 then tagRest cs else None) of
        Some a \<Rightarrow> Some a
      | None \<Rightarrow> tagAttributes cs)"

text \<open>
  One match of \<open>/([^\s=]+)(?:=("|')(.*?)\2)?/gi\<close> at the head of the string: the name,
  the quoted value when the optional group matches, and the text after the match.
\<close>

definition isNameChar :: "nat \<Rightarrow> bool" where
  "isNameChar c = (\<not> isJSWhitespace c \<and> c \<noteq> 61)"

definition quotedValue :: "jsstring \<Rightarrow> (jsstring \<times> jsstring) option" where
  "quotedValue s =
     (case s of
        eq # q # more \<Rightarrow>
          if eq = 61 \<and> (q = 34 \<or> q = 39) then
            (let v = takeWhile (\<lambda>c. c \<noteq> q \<and> \<not> isLineTerminator c) more
             in (case drop (length v) more of
                   [] \<Rightarrow> None
                 | d # rest \<Rightarrow> if d = q then Some (v, rest) else None))
          else None
      | _ \<Rightarrow> None)"

lemma drop_Cons_length: "drop n xs = d # rest \<Longrightarrow> length rest < length xs"
proof -
  assume "drop n xs = d # rest"
  then have "length (drop n xs) = Suc (length rest)" by simp
  then show ?thesis by simp
qed

lemma quotedValue_length: "quotedValue s = Some (v, rest) \<Longrightarrow> length rest \<le> length s"
  by (auto simp: quotedValue_def Let_def split: list.splits if_splits dest!: drop_Cons_length)

lemma attribute_name_length:
  assumes "dropWhile (\<lambda>c. \<not> isNameChar c) s \<noteq> []"
  shows "length (dropWhile isNameChar (dropWhile (\<lambda>c. \<not> isNameChar c) s)) < length s"
proof -
  let ?s1 = "dropWhile (\<lambda>c. \<not> isNameChar c) s"
  from assms obtain c cs where s1: "?s1 = c # cs" by (cases ?s1) auto
  have "isNameChar c" using hd_dropWhile [OF assms] s1 by simp
  then have "length (dropWhile isNameChar ?s1) \<le> length cs"
    using s1 by (simp add: length_dropWhile_le)
  also have "\<dots> < length ?s1" using s1 by simp
  also have "\<dots> \<le> length s" by (rule length_dropWhile_le)
  finally show ?thesis .
qed

lemma attribute_value_length:
  assumes "xi \<in> set s" and "isNameChar xi"
    and "quotedValue (dropWhile isNameChar (dropWhile (\<lambda>c. \<not> isNameChar c) s)) = Some (v, rest)"
  shows "length rest < length s"
proof -
  have "dropWhile (\<lambda>c. \<not> isNameChar c) s \<noteq> []"
    using assms(1,2) by (auto simp: dropWhile_eq_Nil_conv)
  then show ?thesis
    using quotedValue_length [OF assms(3)] attribute_name_length by fastforce
qed

function attributeLoop :: "nat \<Rightarrow> jsstring \<Rightarrow> node list" where
  "attributeLoop pos s =
     (let skipped = takeWhile (\<lambda>c. \<not> isNameChar c) s;
          s1 = dropWhile (\<lambda>c. \<not> isNameChar c) s;
          attrStart = pos + length skipped
      in if s1 = [] then []
         else (let name = takeWhile isNameChar s1;
                   s2 = dropWhile isNameChar s1
               in (case quotedValue s2 of
                     Some (v, rest) \<Rightarrow>
                       (let allLength = length name + length v + 3;
                            valueStart = attrStart + length name + 2;
                            valueNode = (if v = [] then None
                                         else Some [Text valueStart (valueStart + length v) None v])
                        in Attribute attrStart (attrStart + allLength) name valueNode
                           # attributeLoop (attrStart + allLength) rest)
                   | None \<Rightarrow>
                       Attribute attrStart (attrStart + length name) name None
                       # attributeLoop (attrStart + length name) s2)))"
  by pat_completeness auto
termination
  by (relation "measure (\<lambda>(pos, s). length s)")
     (auto simp: attribute_name_length dest: attribute_value_length)

definition extractAttributes :: "jsstring \<Rightarrow> error + node list" where
  "extractAttributes html =
     (case tagAttributes html of
        None \<Rightarrow> Inl TypeError
      | Some attributesString \<Rightarrow> Inr (attributeLoop 0 attributesString))"


section \<open>The printer\<close>

text \<open>
  The options the printer reads, and the host's formatters for embedded code:
  \<open>prettier.format\<close> with the \<open>babel\<close> parser and with the \<open>html\<close> parser. The formatters
  are not part of the plugin; \<open>print\<close> takes them as parameters.
\<close>

record options =
  svelteSortOrder :: jsstring
  svelteStrictMode :: bool
  svelteBracketNewLine :: bool
  svelteAllowShorthand :: bool
  originalText :: jsstring

record host =
  formatBabel :: "jsstring \<Rightarrow> error + jsstring"
  formatHtml :: "jsstring \<Rightarrow> error + jsstring"

text \<open>
  The module-level variable \<open>ignoreNext\<close> is the state every call of \<open>print\<close> reads and
  writes. A computation takes its value and returns the value it leaves behind together
  with a result or the exception thrown; the variable keeps what was last written when an
  exception leaves \<open>print\<close>.
\<close>

type_synonym 'a M = "bool \<Rightarrow> (error + 'a) \<times> bool"

definition ret :: "'a \<Rightarrow> 'a M" where
  "ret a = (\<lambda>ignoreNext. (Inr a, ignoreNext))"

definition throw :: "error \<Rightarrow> 'a M" where
  "throw err = (\<lambda>ignoreNext. (Inl err, ignoreNext))"

definition bnd :: "'a M \<Rightarrow> ('a \<Rightarrow> 'b M) \<Rightarrow> 'b M" where
  "bnd m f = (\<lambda>ignoreNext. case m ignoreNext of
                 (Inl err, ignoreNext') \<Rightarrow> (Inl err, ignoreNext')
               | (Inr a, ignoreNext') \<Rightarrow> f a ignoreNext')"

definition lift :: "error + 'a \<Rightarrow> 'a M" where
  "lift r = (case r of Inl err \<Rightarrow> throw err | Inr a \<Rightarrow> ret a)"

definition getIgnoreNext :: "bool M" where
  "getIgnoreNext = (\<lambda>ignoreNext. (Inr ignoreNext, ignoreNext))"

definition setIgnoreNext :: "bool \<Rightarrow> unit M" where
  "setIgnoreNext b = (\<lambda>ignoreNext. (Inr (), b))"

definition openBrace :: "options \<Rightarrow> doc" where
  "openBrace opts = Str (if svelteStrictMode opts then js ''\"{'' else js ''{'')"

definition closeBrace :: "options \<Rightarrow> doc" where
  "closeBrace opts = Str (if svelteStrictMode opts then js ''}\"'' else js ''}'')"

text \<open>
  The document of a suppressed node: its source slice, split at line feeds, with
  \<open>literalline\<close> before every piece but the first.
\<close>

fun rawParts :: "jsstring list \<Rightarrow> doc list" where
  "rawParts [] = []"
| "rawParts (x # xs) = Str x # concat (map (\<lambda>s. [literalline, Str s]) xs)"

definition rawDoc :: "options \<Rightarrow> node \<Rightarrow> doc" where
  "rawDoc opts n =
     Concat (rawParts (split_on 10 (slice (originalText opts) (locStart n) (locEnd n))))"

text \<open>
  What \<open>print\<close> does with a node that is not the root before it reaches the \<open>switch\<close>:
  when \<open>ignoreNext\<close> is set and the node is not a whitespace-only text node, the flag is
  cleared and the source slice returned; otherwise the \<open>switch\<close> (\<open>body\<close>) runs.
\<close>

definition guarded :: "options \<Rightarrow> node \<Rightarrow> doc M \<Rightarrow> doc M" where
  "guarded opts n body =
     bnd getIgnoreNext (\<lambda>ignoreNext.
       if ignoreNext \<and> (\<not> isTextNode n \<or> \<not> isEmptyNode n)
       then bnd (setIgnoreNext False) (\<lambda>_. ret (rawDoc opts n))
       else body)"

text \<open>The \<open>Script\<close> case: the snipped content goes through both formatters.\<close>

definition printScript :: "host \<Rightarrow> node \<Rightarrow> doc M" where
  "printScript h n =
     bnd (lift (getSnippedContent n)) (\<lambda>content.
     bnd (lift (formatBabel h content)) (\<lambda>jsCode.
     bnd (lift (formatHtml h (js ''<script>'' @ jsCode @ js ''</script>''))) (\<lambda>htmlCode.
     ret (Str htmlCode))))"

text \<open>
  The state of \<open>printChildren\<close>: \<open>childDocs\<close>, \<open>currentGroup\<close> (documents with their
  nodes) and \<open>lastBreakIndex\<close>.
\<close>

record pcstate =
  childDocs :: "doc list"
  currentGroup :: "(doc \<times> node) list"
  lastBreakIndex :: int

definition linebreakPossible :: "pcstate \<Rightarrow> pcstate" where
  "linebreakPossible st =
     (let st1 = (if 0 \<le> lastBreakIndex st \<and> lastBreakIndex st < int (length (childDocs st)) - 1
                 then st\<lparr>childDocs :=
                        take (nat (lastBreakIndex st)) (childDocs st)
                        @ [Concat (drop (nat (lastBreakIndex st)) (childDocs st))]\<rparr>
                 else st)
      in st1\<lparr>lastBreakIndex := - 1\<rparr>)"

text \<open>
  \<open>outputChildDoc(childDoc, fromNodes)\<close>, with \<open>null\<close> as \<open>None\<close>. \<open>canBreakBefore\<close> and
  \<open>canBreakAfter\<close> are only called when the conditions before them hold; on an empty
  \<open>fromNodes\<close> they read a property of \<open>undefined\<close>.
\<close>

definition firstCanBreakBefore :: "node list \<Rightarrow> error + bool" where
  "firstCanBreakBefore fromNodes =
     (case fromNodes of [] \<Rightarrow> Inl TypeError | firstNode # _ \<Rightarrow> canBreakBefore firstNode)"

definition lastCanBreakAfter :: "node list \<Rightarrow> error + bool" where
  "lastCanBreakAfter fromNodes =
     (if fromNodes = [] then Inl TypeError else canBreakAfter (last fromNodes))"

definition pushSoftline :: "doc option \<Rightarrow> pcstate \<Rightarrow> pcstate" where
  "pushSoftline childDoc st =
     (case childDoc of
        None \<Rightarrow> st
      | Some d \<Rightarrow>
          if \<not> isLineDiscardedIfLonely d \<and> childDocs st \<noteq> [] \<and> \<not> isLine (last (childDocs st))
          then st\<lparr>childDocs := childDocs st @ [softline]\<rparr>
          else st)"

definition outputChildDoc :: "bool \<Rightarrow> doc option \<Rightarrow> node list \<Rightarrow> pcstate \<Rightarrow> error + pcstate" where
  "outputChildDoc isPreformat childDoc fromNodes st =
     (let isTruthy = (case childDoc of None \<Rightarrow> False | Some d \<Rightarrow> truthy d);
          push = (\<lambda>st'. if isTruthy then st'\<lparr>childDocs := childDocs st' @ [the childDoc]\<rparr> else st')
      in if isPreformat then Inr (push st)
         else (case (if \<not> isTruthy then Inr True else firstCanBreakBefore fromNodes) of
                 Inl err \<Rightarrow> Inl err
               | Inr breakBefore \<Rightarrow>
                   (let st1 = (if breakBefore then pushSoftline childDoc (linebreakPossible st) else st)
                    in if lastBreakIndex st1 < 0 \<and> isTruthy
                       then (case lastCanBreakAfter fromNodes of
                               Inl err \<Rightarrow> Inl err
                             | Inr breakAfter \<Rightarrow>
                                 Inr (push (if \<not> breakAfter
                                            then st1\<lparr>lastBreakIndex := int (length (childDocs st1))\<rparr>
                                            else st1)))
                       else Inr (push st1))))"

fun outputChildDocs :: "bool \<Rightarrow> doc list \<Rightarrow> node list \<Rightarrow> pcstate \<Rightarrow> error + pcstate" where
  "outputChildDocs isPreformat [] fromNodes st = Inr st"
| "outputChildDocs isPreformat (d # ds) fromNodes st =
     (case outputChildDoc isPreformat (Some d) fromNodes st of
        Inl err \<Rightarrow> Inl err
      | Inr st' \<Rightarrow> outputChildDocs isPreformat ds fromNodes st')"

definition flush :: "bool \<Rightarrow> pcstate \<Rightarrow> error + pcstate" where
  "flush isPreformat st =
     (let groupDocs = map fst (currentGroup st);
          groupNodes = map snd (currentGroup st)
      in (case outputChildDocs isPreformat (extractOutermostNewlines groupDocs) groupNodes st of
            Inl err \<Rightarrow> Inl err
          | Inr st' \<Rightarrow> Inr (st'\<lparr>currentGroup := []\<rparr>)))"

definition lastChildDocProduced :: "bool \<Rightarrow> pcstate \<Rightarrow> error + pcstate" where
  "lastChildDocProduced isPreformat st = outputChildDoc isPreformat None [] st"

text \<open>What \<open>printChildren\<close> does with one child once it is printed.\<close>

definition childProduced :: "bool \<Rightarrow> node \<Rightarrow> doc \<Rightarrow> pcstate \<Rightarrow> error + pcstate" where
  "childProduced isPreformat childNode childDoc st =
     (if isInlineNode childNode
      then Inr (st\<lparr>currentGroup := currentGroup st @ [(childDoc, childNode)]\<rparr>)
      else (case flush isPreformat st of
              Inl err \<Rightarrow> Inl err
            | Inr st' \<Rightarrow>
                outputChildDoc isPreformat
                  (Some (if isLine childDoc then childDoc else Concat [BreakParent, childDoc]))
                  [childNode] st'))"

text \<open>What \<open>printChildren\<close> does after the last child, and its result.\<close>

definition childrenDone :: "bool \<Rightarrow> pcstate \<Rightarrow> error + doc list" where
  "childrenDone isPreformat st =
     (case flush isPreformat st of
        Inl err \<Rightarrow> Inl err
      | Inr st1 \<Rightarrow>
          (case lastChildDocProduced isPreformat st1 of
             Inl err \<Rightarrow> Inl err
           | Inr st2 \<Rightarrow> Inr (childDocs st2)))"

definition indentedWithNewlines :: "doc list \<Rightarrow> doc" where
  "indentedWithNewlines docs = Indent (Concat ([softline] @ trim docs isLine @ [dedent softline]))"

definition indentedPreservingWhitespace :: "doc list \<Rightarrow> doc" where
  "indentedPreservingWhitespace docs = Indent (Concat (dedentFinalNewline docs))"

text \<open>\<open>expandNode\<close>. A pattern without a \<open>name\<close> concatenates as \<open>undefined\<close>; a property
  read on \<open>null\<close> is a \<open>TypeError\<close>.\<close>

fun patName :: "pattern \<Rightarrow> error + jsstring option" where
  "patName PNull = Inl TypeError"
| "patName (PIdentifier n) = Inr (Some n)"
| "patName p = Inr None"

definition orUndefined :: "jsstring option \<Rightarrow> jsstring" where
  "orUndefined v = (case v of None \<Rightarrow> js ''undefined'' | Some s \<Rightarrow> s)"

fun expandNode :: "pattern \<Rightarrow> error + jsstring"
  and expandNodes :: "pattern list \<Rightarrow> error + jsstring list" where
  "expandNode PNull = Inr []"
| "expandNode (PString s) = Inr (js '' '' @ s)"
| "expandNode (ArrayPattern elements) =
     (case expandNodes elements of
        Inl err \<Rightarrow> Inl err
      | Inr xs \<Rightarrow> Inr (js '' ['' @ drop 1 (join_js (js '','') xs) @ js '']''))"
| "expandNode (AssignmentPattern left right) =
     (case expandNode left of
        Inl err \<Rightarrow> Inl err
      | Inr l \<Rightarrow> (case expandNode right of Inl err \<Rightarrow> Inl err | Inr r \<Rightarrow> Inr (l @ js '' ='' @ r)))"
| "expandNode (PIdentifier n) = Inr (js '' '' @ n)"
| "expandNode (PLiteral raw) = Inr (js '' '' @ raw)"
| "expandNode (ObjectPattern properties) =
     (case expandNodes properties of
        Inl err \<Rightarrow> Inl err
      | Inr xs \<Rightarrow> Inr (js '' {'' @ join_js (js '','') xs @ js '' }''))"
| "expandNode (Property key v) =
     (case v of
        PNull \<Rightarrow> Inl TypeError
      | ObjectPattern ps \<Rightarrow>
          (case patName key of
             Inl err \<Rightarrow> Inl err
           | Inr kn \<Rightarrow>
               (case expandNode v of
                  Inl err \<Rightarrow> Inl err
                | Inr x \<Rightarrow> Inr (js '' '' @ orUndefined kn @ js '':'' @ x)))
      | PIdentifier vn \<Rightarrow>
          (case patName key of
             Inl err \<Rightarrow> Inl err
           | Inr kn \<Rightarrow>
               if kn \<noteq> Some vn then
                 (case expandNode key of
                    Inl err \<Rightarrow> Inl err
                  | Inr k \<Rightarrow>
                      (case expandNode v of Inl err \<Rightarrow> Inl err | Inr x \<Rightarrow> Inr (k @ js '':'' @ x)))
               else expandNode v)
      | _ \<Rightarrow> expandNode v)"
| "expandNode (RestElement argument) =
     (case patName argument of
        Inl err \<Rightarrow> Inl err
      | Inr an \<Rightarrow> Inr (js '' ...'' @ orUndefined an))"
| "expandNode (POther t) = Inl (UnknownNodeType t)"
| "expandNodes [] = Inr []"
| "expandNodes (p # ps) =
     (case expandNode p of
        Inl err \<Rightarrow> Inl err
      | Inr x \<Rightarrow> (case expandNodes ps of Inl err \<Rightarrow> Inl err | Inr xs \<Rightarrow> Inr (x # xs)))"

text \<open>
  \<open>print\<close>, with the host's recursion (\<open>path.call(print, name)\<close>, \<open>path.map\<close>,
  \<open>path.each\<close>) written as calls of \<open>print\<close> itself. \<open>ancestors\<close> are the nodes of
  \<open>path.stack\<close> below the node printed, nearest first; \<open>printJS(path, print, name)\<close> is
  the call of \<open>print\<close> on that child (the mark \<open>isJS\<close> it leaves is never read).
  \<open>printNode\<close> is the \<open>switch\<close> on \<open>node.type\<close>, \<open>printEach\<close> is
  \<open>path.map(childPath => childPath.call(print), name)\<close>, \<open>printChildrenLoop\<close> the
  \<open>path.each\<close> of \<open>printChildren\<close>, and \<open>addParts\<close> the \<open>forEach\<close> over the sort
  order in the root case. The order of the calls is the order of evaluation of the source.
\<close>

function (sequential)
  print :: "host \<Rightarrow> options \<Rightarrow> node list \<Rightarrow> node \<Rightarrow> doc M"
  and printNode :: "host \<Rightarrow> options \<Rightarrow> node list \<Rightarrow> node \<Rightarrow> doc M"
  and printEach :: "host \<Rightarrow> options \<Rightarrow> node list \<Rightarrow> node list \<Rightarrow> doc list M"
  and printChildrenLoop ::
    "host \<Rightarrow> options \<Rightarrow> node list \<Rightarrow> bool \<Rightarrow> node list \<Rightarrow> pcstate \<Rightarrow> pcstate M"
  and addParts ::
    "host \<Rightarrow> options \<Rightarrow> node option \<Rightarrow> node option \<Rightarrow> node option \<Rightarrow> node option \<Rightarrow>
     jsstring list \<Rightarrow> doc list \<Rightarrow> doc list M"
where
  "print h opts ancestors (Root m i c html) =
     bnd (addParts h opts m i c html (split_on 45 (svelteSortOrder opts)) []) (\<lambda>parts.
     bnd (setIgnoreNext False) (\<lambda>_.
     ret (Group (join hardline parts))))"
| "print h opts ancestors n = guarded opts n (printNode h opts ancestors n)"

| "addParts h opts m i c html [] parts = ret parts"
| "addParts h opts m i c html (p # ps) parts =
     (if p = js ''scripts'' then
        bnd (case m of
               None \<Rightarrow> ret parts
             | Some mn \<Rightarrow>
                 bnd (lift (extractAttributes (slice (originalText opts) (locStart mn) (locEnd mn))))
                   (\<lambda>attributes.
                 bnd (guarded opts (Script (locStart mn) (locEnd mn) attributes)
                        (printScript h (Script (locStart mn) (locEnd mn) attributes))) (\<lambda>d.
                 ret (parts @ [d])))) (\<lambda>parts1.
        bnd (case i of
               None \<Rightarrow> ret parts1
             | Some inst \<Rightarrow>
                 bnd (lift (extractAttributes (slice (originalText opts) (locStart inst) (locEnd inst))))
                   (\<lambda>attributes.
                 bnd (guarded opts (Script (locStart inst) (locEnd inst) attributes)
                        (printScript h (Script (locStart inst) (locEnd inst) attributes))) (\<lambda>d.
                 ret (parts1 @ [d])))) (\<lambda>parts2.
        addParts h opts m i c html ps parts2))
      else if p = js ''styles'' then
        bnd (case c of
               None \<Rightarrow> ret parts
             | Some css \<Rightarrow>
                 bnd (guarded opts (Style (locStart css) (locEnd css))
                        (throw (UnknownNodeType (js ''Style'')))) (\<lambda>d.
                 ret (parts @ [d]))) (\<lambda>parts1.
        addParts h opts m i c html ps parts1)
      else if p = js ''markup'' then
        bnd (case html of
               None \<Rightarrow> ret (Str [])
             | Some hn \<Rightarrow> print h opts [Root m i c html] hn) (\<lambda>htmlDoc.
        addParts h opts m i c html ps (if truthy htmlDoc then parts @ [htmlDoc] else parts))
      else throw TypeError)"

| "printEach h opts ancestors [] = ret []"
| "printEach h opts ancestors (n # ns) =
     bnd (print h opts ancestors n) (\<lambda>d.
     bnd (printEach h opts ancestors ns) (\<lambda>ds.
     ret (d # ds)))"

| "printChildrenLoop h opts stack isPreformat [] st = ret st"
| "printChildrenLoop h opts stack isPreformat (childNode # rest) st =
     bnd (print h opts stack childNode) (\<lambda>childDoc.
     bnd (lift (childProduced isPreformat childNode childDoc st)) (\<lambda>st'.
     printChildrenLoop h opts stack isPreformat rest st'))"

| "printNode h opts ancestors (Fragment s e children) =
     (if children = [] \<or> list_all isEmptyNode children then ret (Str [])
      else
        bnd (printChildrenLoop h opts (Fragment s e children # ancestors)
               (isPreTagContent (Fragment s e children # ancestors)) children
               \<lparr>childDocs = [], currentGroup = [], lastBreakIndex = - 1\<rparr>) (\<lambda>st.
        bnd (lift (childrenDone (isPreTagContent (Fragment s e children # ancestors)) st)) (\<lambda>docs.
        if \<not> isPreTagContent (Fragment s e children # ancestors)
        then ret (Concat (trim docs isLine @ [hardline]))
        else ret (Concat docs))))"

| "printNode h opts ancestors (Text s e raw d) =
     (if \<not> isPreTagContent (Text s e raw d # ancestors) then
        (if isEmptyNode (Text s e raw d)
         then ret (Line False False False (hasBlankLine (rawOrData raw d)))
         else ret (Fill (splitTextToDocs (rawOrData raw d))))
      else ret (Str d))"

| "printNode h opts ancestors (Elem k s e name attributes children expression) =
     bnd (if name = js ''template''
          then bnd (lift (isNodeSupportedLanguage (Elem k s e name attributes children expression)))
                 (\<lambda>supported. ret (\<not> (\<not> supported)))
          else ret True) (\<lambda>isSupportedLanguage.
     bnd (if list_all isEmptyNode children then ret (Str [])
          else if \<not> isSupportedLanguage
          then ret (Str (printRaw (Elem k s e name attributes children expression)))
          else
            bnd (printChildrenLoop h opts (Elem k s e name attributes children expression # ancestors)
                   (isPreTagContent (Elem k s e name attributes children expression # ancestors))
                   children \<lparr>childDocs = [], currentGroup = [], lastBreakIndex = - 1\<rparr>) (\<lambda>st.
            bnd (lift (childrenDone
                   (isPreTagContent (Elem k s e name attributes children expression # ancestors)) st))
              (\<lambda>docs.
            if isInlineElement (Elem k s e name attributes children expression)
               \<or> isPreTagContent (Elem k s e name attributes children expression # ancestors)
            then ret (indentedPreservingWhitespace docs)
            else ret (indentedWithNewlines docs)))) (\<lambda>body.
     bnd (case expression of
            None \<Rightarrow> ret (Str [])
          | Some x \<Rightarrow>
              if k = InlineComponent then
                bnd (print h opts (Elem k s e name attributes children expression # ancestors) x) (\<lambda>xd.
                ret (Concat [line, Str (js ''this=''), openBrace opts, xd, closeBrace opts]))
              else ret (Str [])) (\<lambda>this.
     bnd (printEach h opts (Elem k s e name attributes children expression # ancestors) attributes)
       (\<lambda>attrs.
     ret (let isSelfClosingTag =
                (list_all isEmptyNode children
                 \<and> (\<not> svelteStrictMode opts \<or> k \<noteq> Element \<or> name \<in> set selfClosingTags))
          in Group (Concat
               ([Str (js ''<''), Str name,
                 Indent (Group (Concat
                   ([this] @ attrs
                    @ [if svelteBracketNewLine opts
                       then dedent (if isSelfClosingTag then line else softline)
                       else Str []])))]
                @ (if isSelfClosingTag
                   then [Str (if svelteBracketNewLine opts then [] else js '' ''), Str (js ''/>'')]
                   else [Str (js ''>''), body, Str (js ''</'' @ name @ js ''>'')]))))))))"

| "printNode h opts ancestors (Meta k s e name attributes) =
     bnd (printEach h opts (Meta k s e name attributes # ancestors) attributes) (\<lambda>attrs.
     ret (Group (Concat [Str (js ''<''), Str name, Indent (Group (Concat attrs)), Str (js '' />'')])))"

| "printNode h opts ancestors (Identifier s e name) = ret (Str name)"

| "printNode h opts ancestors (AttributeShorthand s e name) = ret (Str name)"

| "printNode h opts ancestors (Attribute s e name v) =
     (if isOrCanBeConvertedToShorthand name v then
        (if svelteStrictMode opts
         then ret (Concat [line, Str name, Str (js ''=\"{''), Str name, Str (js ''}\"'')])
         else if svelteAllowShorthand opts
         then ret (Concat [line, Str (js ''{''), Str name, Str (js ''}'')])
         else ret (Concat [line, Str name, Str (js ''={''), Str name, Str (js ''}'')]))
      else
        (case v of
           None \<Rightarrow> ret (Concat [line, Str name])
         | Some vs \<Rightarrow>
             bnd (printEach h opts (Attribute s e name v # ancestors) vs) (\<lambda>valueDocs.
             ret (let quotes = (\<not> isLoneMustacheTag v \<or> svelteStrictMode opts);
                      attrNodeValue =
                        (if \<not> quotes \<or> name \<notin> set formattableAttributes
                         then Concat valueDocs
                         else Indent (Group (Concat (trim valueDocs isLine))))
                  in if quotes
                     then Concat [line, Str name, Str (js ''=''), Str (js ''\"''), attrNodeValue,
                                  Str (js ''\"'')]
                     else Concat [line, Str name, Str (js ''=''), attrNodeValue]))))"

| "printNode h opts ancestors (MustacheTag s e expression) =
     bnd (print h opts (MustacheTag s e expression # ancestors) expression) (\<lambda>x.
     ret (Concat [Str (js ''{''), x, Str (js ''}'')]))"

| "printNode h opts ancestors (IfBlock s e expression children els) =
     bnd (print h opts (IfBlock s e expression children els # ancestors) expression) (\<lambda>x.
     bnd (printChildrenLoop h opts (IfBlock s e expression children els # ancestors)
            (isPreTagContent (IfBlock s e expression children els # ancestors)) children
            \<lparr>childDocs = [], currentGroup = [], lastBreakIndex = - 1\<rparr>) (\<lambda>st.
     bnd (lift (childrenDone (isPreTagContent (IfBlock s e expression children els # ancestors)) st))
       (\<lambda>docs.
     bnd (case els of
            None \<Rightarrow> ret []
          | Some el \<Rightarrow>
              bnd (print h opts (IfBlock s e expression children els # ancestors) el) (\<lambda>d. ret [d]))
       (\<lambda>elseDocs.
     ret (Concat [Group (Concat ([Str (js ''{#if ''), x, Str (js ''}''), indentedWithNewlines docs]
                                 @ elseDocs @ [Str (js ''{/if}'')])),
                  BreakParent])))))"

| "printNode h opts ancestors (ElseBlock s e [IfBlock s' e' expression children els]) =
     (case ancestors of
        [] \<Rightarrow> throw TypeError
      | parent # _ \<Rightarrow>
          if nodeType parent \<noteq> js ''EachBlock'' then
            bnd (print h opts
                   (IfBlock s' e' expression children els
                    # ElseBlock s e [IfBlock s' e' expression children els] # ancestors)
                   expression) (\<lambda>x.
            bnd (printChildrenLoop h opts
                   (IfBlock s' e' expression children els
                    # ElseBlock s e [IfBlock s' e' expression children els] # ancestors)
                   (isPreTagContent
                      (IfBlock s' e' expression children els
                       # ElseBlock s e [IfBlock s' e' expression children els] # ancestors))
                   children \<lparr>childDocs = [], currentGroup = [], lastBreakIndex = - 1\<rparr>) (\<lambda>st.
            bnd (lift (childrenDone
                   (isPreTagContent
                      (IfBlock s' e' expression children els
                       # ElseBlock s e [IfBlock s' e' expression children els] # ancestors)) st))
              (\<lambda>docs.
            bnd (case els of
                   None \<Rightarrow> ret []
                 | Some el \<Rightarrow>
                     bnd (print h opts
                            (IfBlock s' e' expression children els
                             # ElseBlock s e [IfBlock s' e' expression children els] # ancestors) el)
                       (\<lambda>d. ret [d])) (\<lambda>elseDocs.
            ret (Group (Concat ([Str (js ''{:else if ''), x, Str (js ''}''),
                                 indentedWithNewlines docs] @ elseDocs)))))))
          else
            bnd (printChildrenLoop h opts
                   (ElseBlock s e [IfBlock s' e' expression children els] # ancestors)
                   (isPreTagContent (ElseBlock s e [IfBlock s' e' expression children els] # ancestors))
                   [IfBlock s' e' expression children els]
                   \<lparr>childDocs = [], currentGroup = [], lastBreakIndex = - 1\<rparr>) (\<lambda>st.
            bnd (lift (childrenDone
                   (isPreTagContent (ElseBlock s e [IfBlock s' e' expression children els] # ancestors))
                   st)) (\<lambda>docs.
            ret (Group (Concat [Str (js ''{:else}''), indentedWithNewlines docs])))))"

| "printNode h opts ancestors (ElseBlock s e children) =
     bnd (printChildrenLoop h opts (ElseBlock s e children # ancestors)
            (isPreTagContent (ElseBlock s e children # ancestors)) children
            \<lparr>childDocs = [], currentGroup = [], lastBreakIndex = - 1\<rparr>) (\<lambda>st.
     bnd (lift (childrenDone (isPreTagContent (ElseBlock s e children # ancestors)) st)) (\<lambda>docs.
     ret (Group (Concat [Str (js ''{:else}''), indentedWithNewlines docs]))))"

| "printNode h opts ancestors (EachBlock s e expression context index key children els) =
     bnd (print h opts (EachBlock s e expression context index key children els # ancestors)
            expression) (\<lambda>x.
     bnd (print h opts (EachBlock s e expression context index key children els # ancestors)
            context) (\<lambda>ctx.
     bnd (case key of
            None \<Rightarrow> ret []
          | Some kn \<Rightarrow>
              bnd (print h opts (EachBlock s e expression context index key children els # ancestors)
                     kn) (\<lambda>kd.
              ret [Str (js '' (''), kd, Str (js '')'')])) (\<lambda>keyDocs.
     bnd (printChildrenLoop h opts
            (EachBlock s e expression context index key children els # ancestors)
            (isPreTagContent (EachBlock s e expression context index key children els # ancestors))
            children \<lparr>childDocs = [], currentGroup = [], lastBreakIndex = - 1\<rparr>) (\<lambda>st.
     bnd (lift (childrenDone
            (isPreTagContent (EachBlock s e expression context index key children els # ancestors))
            st)) (\<lambda>docs.
     bnd (case els of
            None \<Rightarrow> ret []
          | Some el \<Rightarrow>
              bnd (print h opts (EachBlock s e expression context index key children els # ancestors)
                     el) (\<lambda>d. ret [d])) (\<lambda>elseDocs.
     ret (Concat [Group (Concat ([Str (js ''{#each ''), x, Str (js '' as ''), ctx]
                    @ (case index of
                         None \<Rightarrow> []
                       | Some ix \<Rightarrow> if ix \<noteq> [] then [Str (js '', ''), Str ix] else [])
                    @ keyDocs
                    @ [Str (js ''}''), indentedWithNewlines docs]
                    @ elseDocs @ [Str (js ''{/each}'')])),
                  BreakParent])))))))"

| "printNode h opts ancestors (AwaitBlock s e expression v err pending thn catch) =
     (case (childrenProp pending, childrenProp thn, childrenProp catch) of
        (Some pendingChildren, Some thenChildren, Some catchChildren) \<Rightarrow>
          (let hasPendingBlock = list_ex (\<lambda>n. \<not> isEmptyNode n) pendingChildren;
               hasThenBlock = list_ex (\<lambda>n. \<not> isEmptyNode n) thenChildren;
               hasCatchBlock = list_ex (\<lambda>n. \<not> isEmptyNode n) catchChildren
           in
           bnd (if \<not> hasPendingBlock \<and> hasThenBlock then
                  bnd (print h opts (AwaitBlock s e expression v err pending thn catch # ancestors)
                         expression) (\<lambda>x.
                  bnd (lift (expandNode v)) (\<lambda>vs.
                  bnd (print h opts (AwaitBlock s e expression v err pending thn catch # ancestors)
                         thn) (\<lambda>t.
                  ret [Group (Concat [Str (js ''{#await ''), x, Str (js '' then''), Str vs,
                                      Str (js ''}'')]),
                       Indent t])))
                else
                  bnd (print h opts (AwaitBlock s e expression v err pending thn catch # ancestors)
                         expression) (\<lambda>x.
                  bnd (if hasPendingBlock then
                         bnd (print h opts
                                (AwaitBlock s e expression v err pending thn catch # ancestors)
                                pending) (\<lambda>p. ret [Indent p])
                       else ret []) (\<lambda>pendingDocs.
                  bnd (if hasThenBlock then
                         bnd (lift (expandNode v)) (\<lambda>vs.
                         bnd (print h opts
                                (AwaitBlock s e expression v err pending thn catch # ancestors)
                                thn) (\<lambda>t.
                         ret [Group (Concat [Str (js ''{:then''), Str vs, Str (js ''}'')]), Indent t]))
                       else ret []) (\<lambda>thenDocs.
                  ret ([Group (Concat [Str (js ''{#await ''), x, Str (js ''}'')])]
                       @ pendingDocs @ thenDocs))))) (\<lambda>block.
           bnd (if hasCatchBlock then
                  bnd (lift (expandNode err)) (\<lambda>es.
                  bnd (print h opts (AwaitBlock s e expression v err pending thn catch # ancestors)
                         catch) (\<lambda>cd.
                  ret [Group (Concat [Str (js ''{:catch''), Str es, Str (js ''}'')]), Indent cd]))
                else ret []) (\<lambda>catchDocs.
           ret (Group (Concat (block @ catchDocs @ [Str (js ''{/await}'')]))))))
      | _ \<Rightarrow> throw TypeError)"

| "printNode h opts ancestors (Block k s e children) =
     bnd (printChildrenLoop h opts (Block k s e children # ancestors)
            (isPreTagContent (Block k s e children # ancestors)) children
            \<lparr>childDocs = [], currentGroup = [], lastBreakIndex = - 1\<rparr>) (\<lambda>st.
     bnd (lift (childrenDone (isPreTagContent (Block k s e children # ancestors)) st)) (\<lambda>docs.
     ret (Concat ([softline] @ trim docs isLine @ [dedent softline]))))"

| "printNode h opts ancestors (EventHandler s e name modifiers expression) =
     bnd (case expression of
            None \<Rightarrow> ret (Str [])
          | Some x \<Rightarrow>
              bnd (print h opts (EventHandler s e name modifiers expression # ancestors) x) (\<lambda>xd.
              ret (Concat [Str (js ''=''), openBrace opts, xd, closeBrace opts]))) (\<lambda>suffix.
     ret (Concat [line, Str (js ''on:''), Str name,
                  if modifiers \<noteq> []
                  then Concat [Str (js ''|''), join (Str (js ''|'')) (map Str modifiers)]
                  else Str [],
                  suffix]))"

| "printNode h opts ancestors (Binding s e name expression) =
     bnd (if (case expression of Identifier s' e' n \<Rightarrow> n = name | _ \<Rightarrow> False) then ret (Str [])
          else
            bnd (print h opts (Binding s e name expression # ancestors) expression) (\<lambda>xd.
            ret (Concat [Str (js ''=''), openBrace opts, xd, closeBrace opts]))) (\<lambda>suffix.
     ret (Concat [line, Str (js ''bind:''), Str name, suffix]))"

| "printNode h opts ancestors (ClassDirective s e name expression) =
     bnd (if (case expression of Identifier s' e' n \<Rightarrow> n = name | _ \<Rightarrow> False) then ret (Str [])
          else
            bnd (print h opts (ClassDirective s e name expression # ancestors) expression) (\<lambda>xd.
            ret (Concat [Str (js ''=''), openBrace opts, xd, closeBrace opts]))) (\<lambda>suffix.
     ret (Concat [line, Str (js ''class:''), Str name, suffix]))"

| "printNode h opts ancestors (LetDirective s e name expression) =
     bnd (case expression of
            None \<Rightarrow> ret (Str [])
          | Some x \<Rightarrow>
              if (case x of Identifier s' e' n \<Rightarrow> n = name | _ \<Rightarrow> False) then ret (Str [])
              else
                bnd (print h opts (LetDirective s e name expression # ancestors) x) (\<lambda>xd.
                ret (Concat [Str (js ''=''), openBrace opts, xd, closeBrace opts]))) (\<lambda>suffix.
     ret (Concat [line, Str (js ''let:''), Str name, suffix]))"

| "printNode h opts ancestors (DebugTag s e identifiers) =
     bnd (if identifiers \<noteq> [] then
            bnd (printEach h opts (DebugTag s e identifiers # ancestors) identifiers) (\<lambda>ids.
            ret (Concat [Str (js '' ''), join (Str (js '', '')) ids]))
          else ret (Str [])) (\<lambda>idsDoc.
     ret (Concat [Str (js ''{@debug''), idsDoc, Str (js ''}'')]))"

| "printNode h opts ancestors (Ref s e name) = ret (Concat [line, Str (js ''ref:''), Str name])"

| "printNode h opts ancestors (Comment s e d) =
     bnd (if isIgnoreDirective (Comment s e d) then
            bnd (lift (getNextNode ancestors (Comment s e d))) (\<lambda>next.
            case next of
              None \<Rightarrow> ret False
            | Some _ \<Rightarrow> bnd (setIgnoreNext True) (\<lambda>_. ret True))
          else ret True) (\<lambda>continue.
     if \<not> continue then ret (Str [])
     else
       bnd (if hasSnippedContent d then lift (unsnipContent d) else ret d) (\<lambda>t.
       ret (Group (Concat [Str (js ''<!--''), Str t, Str (js ''-->'')]))))"

| "printNode h opts ancestors (Transition s e intro outro name modifiers expression) =
     bnd (case expression of
            None \<Rightarrow> ret (Str [])
          | Some x \<Rightarrow>
              bnd (print h opts (Transition s e intro outro name modifiers expression # ancestors) x)
                (\<lambda>xd.
              ret (Concat [Str (js ''=''), openBrace opts, xd, closeBrace opts]))) (\<lambda>suffix.
     ret (Concat [line,
                  Str (if intro \<and> outro then js ''transition'' else if intro then js ''in''
                       else js ''out''),
                  Str (js '':''), Str name,
                  if modifiers \<noteq> []
                  then Concat [Str (js ''|''), join (Str (js ''|'')) (map Str modifiers)]
                  else Str [],
                  suffix]))"

| "printNode h opts ancestors (Action s e name expression) =
     bnd (case expression of
            None \<Rightarrow> ret (Str [])
          | Some x \<Rightarrow>
              bnd (print h opts (Action s e name expression # ancestors) x) (\<lambda>xd.
              ret (Concat [Str (js ''=''), openBrace opts, xd, closeBrace opts]))) (\<lambda>suffix.
     ret (Concat [line, Str (js ''use:''), Str name, suffix]))"

| "printNode h opts ancestors (Animation s e name expression) =
     bnd (case expression of
            None \<Rightarrow> ret (Str [])
          | Some x \<Rightarrow>
              bnd (print h opts (Animation s e name expression # ancestors) x) (\<lambda>xd.
              ret (Concat [Str (js ''=''), openBrace opts, xd, closeBrace opts]))) (\<lambda>suffix.
     ret (Concat [line, Str (js ''animate:''), Str name, suffix]))"

| "printNode h opts ancestors (RawMustacheTag s e expression) =
     bnd (print h opts (RawMustacheTag s e expression # ancestors) expression) (\<lambda>x.
     ret (Concat [Str (js ''{@html ''), x, Str (js ''}'')]))"

| "printNode h opts ancestors (Spread s e expression) =
     bnd (print h opts (Spread s e expression # ancestors) expression) (\<lambda>x.
     ret (Concat [line, Str (js ''{...''), x, Str (js ''}'')]))"

| "printNode h opts ancestors (Script s e attributes) = printScript h (Script s e attributes)"

| "printNode h opts ancestors (BinaryExpression s e left operator right) =
     bnd (print h opts (BinaryExpression s e left operator right # ancestors) left) (\<lambda>l.
     bnd (print h opts (BinaryExpression s e left operator right # ancestors) right) (\<lambda>r.
     ret (Concat [l, Str (js '' ''), Str operator, r])))"

| "printNode h opts ancestors (LiteralExpr s e raw) = ret (Str (js '' '' @ raw))"

| "printNode h opts ancestors (ConditionalExpression s e test consequent alternate) =
     bnd (print h opts (ConditionalExpression s e test consequent alternate # ancestors) test) (\<lambda>t.
     bnd (print h opts (ConditionalExpression s e test consequent alternate # ancestors) consequent)
       (\<lambda>c.
     bnd (print h opts (ConditionalExpression s e test consequent alternate # ancestors) alternate)
       (\<lambda>a.
     ret (Concat [t, Str (js '' ? ''), c, Str (js '' : ''), a]))))"

| "printNode h opts ancestors n = throw (UnknownNodeType (nodeType n))"
  by pat_completeness auto

termination
  by (relation "inv_image (less_than <*lex*> less_than)
        (case_sum
          (case_sum (\<lambda>(h, opts, ancestors, n). (2 * size n + 1, 0))
                    (\<lambda>(h, opts, ancestors, n). (2 * size n, 0)))
          (case_sum (\<lambda>(h, opts, ancestors, ns). (2 * size_list size ns + 1, 0))
            (case_sum (\<lambda>(h, opts, stack, isPreformat, ns, st). (2 * size_list size ns + 1, 0))
                      (\<lambda>(h, opts, m, i, c, html, names, parts).
                          (2 * size (Root m i c html), length names)))))")
     auto


text \<open>
  \<open>printChildren(path, print)\<close> as one computation, \<open>stack\<close> being the node whose children
  are printed and its ancestors: the loop over the children from the empty state, then
  what follows the loop.
\<close>

definition printChildren :: "host \<Rightarrow> options \<Rightarrow> node list \<Rightarrow> node list \<Rightarrow> doc list M" where
  "printChildren h opts stack children =
     bnd (printChildrenLoop h opts stack (isPreTagContent stack) children
            \<lparr>childDocs = [], currentGroup = [], lastBreakIndex = - 1\<rparr>) (\<lambda>st.
     lift (childrenDone (isPreTagContent stack) st))"


section \<open>Example inputs\<close>

text \<open>
  A host whose script formatter rejects its input and whose markup formatter returns it
  unchanged, the default options over a source text, and the trees of a few small source
  texts, as the parser builds them.
\<close>

definition exampleHost :: host where
  "exampleHost =
     \<lparr>formatBabel = (\<lambda>s. Inl (FormatError (js ''SyntaxError''))), formatHtml = Inr\<rparr>"

definition exampleOptions :: "jsstring \<Rightarrow> options" where
  "exampleOptions t =
     \<lparr>svelteSortOrder = js ''scripts-styles-markup'', svelteStrictMode = False,
      svelteBracketNewLine = False, svelteAllowShorthand = True, originalText = t\<rparr>"

text \<open>\<open><!-- prettier-ignore -->\<close>, a line feed, \<open><div   ></div>\<close>.\<close>

definition ignoredMarkup :: jsstring where
  "ignoredMarkup = js ''<!-- prettier-ignore -->'' @ [10] @ js ''<div   ></div>''"

definition ignoreComment :: node where
  "ignoreComment = Comment 0 24 (js '' prettier-ignore '')"

definition lineFeedText :: node where
  "lineFeedText = Text 24 25 (Some [10]) [10]"

definition spacedDiv :: node where
  "spacedDiv = Elem Element 25 39 (js ''div'') [] [] None"

definition ignoredFragment :: node where
  "ignoredFragment = Fragment 0 39 [ignoreComment, lineFeedText, spacedDiv]"

text \<open>\<open>{#await p then v}hi{/await}\<close>.\<close>

definition inlineAwait :: node where
  "inlineAwait =
     AwaitBlock 0 28 (Identifier 8 9 (js ''p'')) (PIdentifier (js ''v'')) PNull
       (Block PendingBlock 17 17 [])
       (Block ThenBlock 17 19 [Text 17 19 (Some (js ''hi'')) (js ''hi'')])
       (Block CatchBlock 19 19 [])"

text \<open>\<open>{#if a}b{/if}\<close>.\<close>

definition smallIf :: node where
  "smallIf = IfBlock 0 13 (Identifier 5 6 (js ''a'')) [Text 7 8 (Some (js ''b'')) (js ''b'')] None"

text \<open>\<open>{#await p}<!-- prettier-ignore --> {:then { items = [] }}x{/await}\<close>: the default
  value of the pattern is an array expression.\<close>

definition failingAwait :: node where
  "failingAwait =
     AwaitBlock 0 62 (Identifier 8 9 (js ''p''))
       (ObjectPattern [Property (PIdentifier (js ''items''))
          (AssignmentPattern (PIdentifier (js ''items'')) (POther (js ''ArrayExpression'')))])
       PNull
       (Block PendingBlock 10 35
          [Comment 10 34 (js '' prettier-ignore ''), Text 34 35 (Some (js '' '')) (js '' '')])
       (Block ThenBlock 53 54 [Text 53 54 (Some (js ''x'')) (js ''x'')])
       (Block CatchBlock 54 54 [])"

definition failingRoot :: node where
  "failingRoot = Root None None None (Some (Fragment 0 62 [failingAwait]))"

text \<open>\<open><p>  hi  x</p>\<close>.\<close>

definition sampleMarkup :: node where
  "sampleMarkup = Root None None None (Some (Fragment 0 14
     [Elem Element 0 14 (js ''p'') [] [Text 3 10 (Some (js ''  hi  x'')) (js ''  hi  x'')] None]))"

text \<open>\<open><script lang="coffee">x = 1</script>\<close>, what \<open>preprocess\<close> makes of it, and the tree
  of that text: the script from offset 0 to offset 63 and an empty fragment.\<close>

definition coffeeSource :: jsstring where
  "coffeeSource = js ''<script lang=\"coffee\">x = 1</script>''"

definition coffeeSnipped :: jsstring where
  "coffeeSnipped =
     js ''<script lang=\"coffee\" '' @ snippedTagContentAttribute @ js ''=\"eCA9IDE=\">{}</script>''"

definition coffeeRoot :: node where
  "coffeeRoot = Root None (Some (Script 0 63 [])) None (Some (Fragment 63 63 []))"

text \<open>\<open>{#each xs as x}y{/each}\<close>.\<close>

definition smallEach :: node where
  "smallEach =
     EachBlock 0 23 (Identifier 7 9 (js ''xs'')) (Identifier 13 14 (js ''x'')) None None
       [Text 15 16 (Some (js ''y'')) (js ''y'')] None"

text \<open>A script whose body holds the character U+2192, and a script whose body holds a
  \<open>style\<close> tag in a string.\<close>

definition arrowScript :: jsstring where
  "arrowScript = js ''<script>let s = \"'' @ [8594] @ js ''\";</script>''"

definition styleInScript :: jsstring where
  "styleInScript = js ''<script>let a = \"<style>b</style>\";</script>''"

text \<open>A script whose start tag runs over three lines, what \<open>preprocess\<close> makes of it, and
  the tree of that text.\<close>

definition multilineScript :: jsstring where
  "multilineScript =
     js ''<script'' @ [10] @ js ''  lang=\"ts\"'' @ [10] @ js ''  context=\"module\">let a;</script>''"

definition multilineSnipped :: jsstring where
  "multilineSnipped =
     js ''<script'' @ [10] @ js ''  lang=\"ts\"'' @ [10] @ js ''  context=\"module\" ''
     @ snippedTagContentAttribute @ js ''=\"bGV0IGE7\">{}</script>''"

definition multilineRoot :: node where
  "multilineRoot = Root (Some (Script 0 80 [])) None None (Some (Fragment 80 80 []))"

text \<open>\<open><template lang="pug">p hello</template>\<close>.\<close>

definition pugSource :: jsstring where
  "pugSource = js ''<template lang=\"pug\">p hello</template>''"

definition pugLang :: node where
  "pugLang = Attribute 10 20 (js ''lang'') (Some [Text 16 19 (Some (js ''pug'')) (js ''pug'')])"

definition pugTemplate :: node where
  "pugTemplate =
     Elem Element 0 39 (js ''template'') [pugLang]
       [Text 21 28 (Some (js ''p hello'')) (js ''p hello'')] None"


section \<open>Predicates on documents and trees\<close>

text \<open>
  What the host's renderer reads from a document: a \<open>break-parent\<close> or a hard line
  anywhere inside forces a break, and a document of strings and literal lines renders
  as its strings with a line feed for every literal line.
\<close>

fun hasForcedBreak :: "doc \<Rightarrow> bool" and hasForcedBreaks :: "doc list \<Rightarrow> bool" where
  "hasForcedBreak (Str s) = False"
| "hasForcedBreak (Concat ps) = hasForcedBreaks ps"
| "hasForcedBreak (Fill ps) = hasForcedBreaks ps"
| "hasForcedBreak (Group c) = hasForcedBreak c"
| "hasForcedBreak (Indent c) = hasForcedBreak c"
| "hasForcedBreak (Align n c) = hasForcedBreak c"
| "hasForcedBreak (Line s h l k) = h"
| "hasForcedBreak BreakParent = True"
| "hasForcedBreaks [] = False"
| "hasForcedBreaks (d # ds) = (hasForcedBreak d \<or> hasForcedBreaks ds)"

fun literalText :: "doc \<Rightarrow> jsstring" and literalTexts :: "doc list \<Rightarrow> jsstring" where
  "literalText (Str s) = s"
| "literalText (Concat ps) = literalTexts ps"
| "literalText (Fill ps) = literalTexts ps"
| "literalText (Group c) = literalText c"
| "literalText (Indent c) = literalText c"
| "literalText (Align n c) = literalText c"
| "literalText (Line s h l k) = (if h \<and> l then [10] else [])"
| "literalText BreakParent = []"
| "literalTexts [] = []"
| "literalTexts (d # ds) = literalText d @ literalTexts ds"

fun isIfOrEachBlock :: "node \<Rightarrow> bool" where
  "isIfOrEachBlock (IfBlock s e x cs el) = True"
| "isIfOrEachBlock (EachBlock s e x c i k cs el) = True"
| "isIfOrEachBlock n = False"

fun isAwaitBlock :: "node \<Rightarrow> bool" where
  "isAwaitBlock (AwaitBlock s e x v er p t c) = True"
| "isAwaitBlock n = False"

text \<open>
  The parser's contract for the text children of an element: they follow one another
  from offset \<open>p\<close> to offset \<open>q\<close>, and the \<open>raw\<close> of each is its slice of the source.
\<close>

fun contiguousText :: "jsstring \<Rightarrow> nat \<Rightarrow> nat \<Rightarrow> node list \<Rightarrow> bool" where
  "contiguousText t p q [] = (p = q)"
| "contiguousText t p q (Text s e raw d # ns) =
     (s = p \<and> s \<le> e \<and> raw = Some (slice t s e) \<and> contiguousText t e q ns)"
| "contiguousText t p q (n # ns) = False"


text \<open>
  A string without its trailing whitespace: what the first group of the expression of
  \<open>unsnipContent\<close> keeps of the attributes, the \<open>\s*\<close> before the marker taking the rest.
\<close>

definition trimEnd :: "jsstring \<Rightarrow> jsstring" where
  "trimEnd s = rev (dropWhile isJSWhitespace (rev s))"


section \<open>Properties\<close>

text \<open>
  The definitions a concrete input is evaluated with.
\<close>

lemmas monad_defs =
  guarded_def bnd_def ret_def throw_def lift_def getIgnoreNext_def setIgnoreNext_def

lemmas doc_defs =
  line_def softline_def hardline_def literalline_def dedent_def join_def keepIfLonelyLine_def
  truthy_def trim_def dedentFinalNewline_def extractOutermostNewlines_def
  indentedWithNewlines_def indentedPreservingWhitespace_def rawDoc_def openBrace_def
  closeBrace_def

lemmas children_defs =
  linebreakPossible_def firstCanBreakBefore_def lastCanBreakAfter_def pushSoftline_def
  outputChildDoc_def flush_def lastChildDocProduced_def childProduced_def childrenDone_def

lemmas string_defs =
  js_def slice_def trim_js_def isJSWhitespace_def isLineTerminator_def rawOrData_def
  toLowerCase_def splitTextToDocs_def isSplitWs_def isBlank_def afterBlankLF_def
  startsWithTwoNewlines_def endsWithTwoNewlines_def orUndefined_def

lemmas node_defs =
  isPreTagContent_def getChildren_def getNextNode_def getAttributeValue_def
  getAttributeTextValue_def getLangAttribute_def isNodeSupportedLanguage_def
  stripTextPrefix_def getSnippedContent_def hasSnippedContent_def
  snippedTagContentAttribute_def selfClosingTags_def inlineElements_def
  formattableAttributes_def unsupportedLanguages_def printScript_def

lemmas example_defs =
  exampleHost_def exampleOptions_def ignoredMarkup_def ignoreComment_def lineFeedText_def
  spacedDiv_def ignoredFragment_def inlineAwait_def smallIf_def failingAwait_def
  failingRoot_def sampleMarkup_def smallEach_def pugSource_def pugLang_def pugTemplate_def

lemmas eval_defs =
  monad_defs doc_defs children_defs string_defs node_defs example_defs Let_def


subsection \<open>The state and the guard of \<open>print\<close>\<close>

lemma guarded_False: "guarded opts n body False = body False"
  by (simp add: guarded_def bnd_def getIgnoreNext_def)

lemma guarded_True:
  "guarded opts n body True =
     (if \<not> isTextNode n \<or> \<not> isEmptyNode n then (Inr (rawDoc opts n), False) else body True)"
  by (simp add: guarded_def bnd_def getIgnoreNext_def setIgnoreNext_def ret_def)

lemma print_not_root:
  "\<not> isASTNode n \<Longrightarrow> print h opts ancestors n = guarded opts n (printNode h opts ancestors n)"
  by (cases n) (simp_all only: print.simps isASTNode.simps not_True_eq_False)

lemma bnd_Inr_elim:
  assumes "bnd m f ig = (Inr d, ig')"
  obtains a ig1 where "m ig = (Inr a, ig1)" and "f a ig1 = (Inr d, ig')"
  using assms by (auto simp: bnd_def split: prod.splits sum.splits)

lemma ret_eq: "ret a ig = (Inr d, ig') \<longleftrightarrow> d = a \<and> ig' = ig"
  by (auto simp: ret_def)

lemma bnd_assoc: "bnd (bnd m f) g = bnd m (\<lambda>a. bnd (f a) g)"
  by (rule ext) (simp add: bnd_def split: prod.splits sum.splits)

lemma bnd_ret_left: "bnd (ret a) f = f a"
  by (rule ext) (simp add: bnd_def ret_def)

lemma lift_Inr: "lift r ig = (Inr a, ig') \<longleftrightarrow> r = Inr a \<and> ig' = ig"
  by (cases r) (auto simp: lift_def ret_def throw_def)


subsection \<open>Base64 round trip\<close>

lemma b64val_b64char: "n < 64 \<Longrightarrow> b64val (b64char n) = Some n"
  by (auto simp: b64val_def b64char_def)

lemma b64char_not_pad: "n < 64 \<Longrightarrow> b64char n \<noteq> 61"
  by (auto simp: b64char_def)

lemma b64char_not_ws: "n < 64 \<Longrightarrow> \<not> isAsciiWhitespace (b64char n)"
  by (auto simp: b64char_def isAsciiWhitespace_def)

lemma sextets_lt: "list_all (\<lambda>c. c < 256) s \<Longrightarrow> list_all (\<lambda>n. n < 64) (sextets s)"
  by (induction s rule: sextets.induct) (auto simp: less_mult_imp_div_less)

lemma decode_sextets: "list_all (\<lambda>c. c < 256) s \<Longrightarrow> decode64 (sextets s) = s"
  by (induction s rule: sextets.induct) auto

lemma length_sextets_mod:
  "length (sextets s) mod 4 = (if length s mod 3 = 0 then 0 else length s mod 3 + 1)"
  by (induction s rule: sextets.induct) (auto simp: mod_Suc)

lemma sextets_Nil: "sextets s = [] \<longleftrightarrow> s = []"
  by (induction s rule: sextets.induct) auto

lemma padding_cases:
  "padding s = (if length s mod 3 = 0 then [] else if length s mod 3 = 1 then [61, 61] else [61])"
proof -
  have r: "replicate 2 (61::nat) = [61, 61]" by (simp add: numeral_2_eq_2)
  have "length s mod 3 = 0 \<or> length s mod 3 = 1 \<or> length s mod 3 = 2" by arith
  then show ?thesis
    using r by (auto simp: padding_def)
qed

lemma length_encode64: "length (encode64 s) mod 4 = 0"
proof -
  have "length s mod 3 = 0 \<or> length s mod 3 = 1 \<or> length s mod 3 = 2" by arith
  then show ?thesis
    using length_sextets_mod [of s]
    by (auto simp: encode64_def padding_cases mod_Suc split: if_splits)
qed

lemma those_map_b64val:
  "list_all (\<lambda>n. n < 64) xs \<Longrightarrow> those (map (b64val \<circ> b64char) xs) = Some xs"
  by (induction xs) (auto simp: b64val_b64char)

lemma filter_ws_b64:
  "list_all (\<lambda>n. n < 64) xs \<Longrightarrow>
   filter (\<lambda>c. \<not> isAsciiWhitespace c) (map b64char xs) = map b64char xs"
  by (induction xs) (auto simp: b64char_not_ws)

lemma stripPadding_snoc:
  "y \<noteq> 61 \<Longrightarrow> stripPadding (ys @ [y]) = ys @ [y]"
  "y \<noteq> 61 \<Longrightarrow> stripPadding (ys @ [y] @ [61]) = ys @ [y]"
  "stripPadding (ys @ [y] @ [61, 61]) = ys @ [y]"
  by (simp_all add: stripPadding_def split: list.split)

lemma stripPadding_encode64:
  assumes "list_all (\<lambda>c. c < 256) s"
  shows "stripPadding (encode64 s) = map b64char (sextets s)"
proof -
  let ?X = "map b64char (sextets s)"
  have nopad: "61 \<notin> set ?X"
    using sextets_lt [OF assms] by (auto simp: list_all_iff b64char_not_pad)
  show ?thesis
  proof (cases "?X" rule: rev_cases)
    case Nil
    then have "s = []" by (simp add: sextets_Nil)
    then show ?thesis by (simp add: encode64_def padding_def stripPadding_def)
  next
    case (snoc ys y)
    with nopad have y: "y \<noteq> 61" by auto
    have "encode64 s = ys @ [y] @ padding s"
      using snoc by (simp add: encode64_def)
    then show ?thesis
      using y snoc stripPadding_snoc by (simp add: padding_cases)
  qed
qed

lemma btoa_bytes: "list_all (\<lambda>c. c < 256) s \<Longrightarrow> btoa s = Inr (encode64 s)"
  by (auto simp: btoa_def list_all_iff list_ex_iff)

lemma atob_encode64:
  assumes "list_all (\<lambda>c. c < 256) s"
  shows "atob (encode64 s) = Inr s"
proof -
  have lt: "list_all (\<lambda>n. n < 64) (sextets s)" by (rule sextets_lt [OF assms])
  have fp: "filter (\<lambda>c. \<not> isAsciiWhitespace c) (padding s) = padding s"
    by (simp add: padding_cases isAsciiWhitespace_def)
  have f: "filter (\<lambda>c. \<not> isAsciiWhitespace c) (encode64 s) = encode64 s"
    by (simp add: encode64_def filter_ws_b64 [OF lt] fp)
  have l: "length (map b64char (sextets s)) mod 4 \<noteq> 1"
    using length_sextets_mod [of s] by (auto split: if_splits)
  show "atob (encode64 s) = Inr s"
    unfolding atob_def f Let_def
    using l by (simp add: length_encode64 stripPadding_encode64 [OF assms] those_map_b64val [OF lt]
        decode_sextets [OF assms])
qed

lemma encode64_Nil: "encode64 s = [] \<longleftrightarrow> s = []"
  by (auto simp: encode64_def sextets_Nil padding_def)

lemma find_append_last:
  "list_all (\<lambda>a. \<not> P a) xs \<Longrightarrow> P y \<Longrightarrow> find P (xs @ [y]) = Some y"
  by (induction xs) auto


subsection \<open>Snipping and unsnipping a tag\<close>

lemma b64char_range:
  "n < 64 \<Longrightarrow> b64char n = 43 \<or> b64char n = 47 \<or> (48 \<le> b64char n \<and> b64char n \<le> 57)
     \<or> (65 \<le> b64char n \<and> b64char n \<le> 90) \<or> (97 \<le> b64char n \<and> b64char n \<le> 122)"
  by (auto simp: b64char_def)

lemma encode64_alphabet:
  assumes "list_all (\<lambda>c. c < 256) s" and "c \<in> set (encode64 s)"
  shows "c \<noteq> 34 \<and> \<not> isLineTerminator c"
proof -
  from assms(2) have "c \<in> set (map b64char (sextets s)) \<or> c \<in> set (padding s)"
    by (auto simp: encode64_def)
  then show ?thesis
  proof
    assume "c \<in> set (map b64char (sextets s))"
    then obtain n where n: "n \<in> set (sextets s)" and c: "c = b64char n" by auto
    from n sextets_lt [OF assms(1)] have "n < 64" by (auto simp: list_all_iff)
    from b64char_range [OF this] c show ?thesis by (auto simp: isLineTerminator_def)
  next
    assume "c \<in> set (padding s)"
    then have "c = 61" by (auto simp: padding_def)
    then show ?thesis by (simp add: isLineTerminator_def)
  qed
qed

lemma lowerChar_scissors: "lowerChar c = 9986 \<longleftrightarrow> c = 9986"
  by (auto simp: lowerChar_def)

lemma starts_with_ci_refl: "starts_with_ci (xs @ ys) xs"
  by (induction xs) auto

lemma starts_with_refl: "starts_with (xs @ ys) xs"
  by (induction xs) auto

lemma afterMarker_not_scissors:
  assumes "t = [] \<or> hd t \<noteq> 9986"
  shows "afterMarker t = None"
proof (cases t)
  case Nil
  then show ?thesis by (simp add: afterMarker_def snippedTagContentAttribute_def)
next
  case (Cons c cs)
  with assms have "c \<noteq> 9986" by simp
  then have "lowerChar c \<noteq> lowerChar 9986" by (auto simp: lowerChar_def)
  then show ?thesis
    using Cons by (simp add: afterMarker_def snippedTagContentAttribute_def)
qed

lemma breakAt_first:
  assumes "p0 \<notin> set a"
  shows "breakAt starts_with (p0 # p) (a @ (p0 # p) @ b) = Some (a, (p0 # p) @ b)"
  using assms
proof (induction a)
  case Nil
  have "starts_with ((p0 # p) @ b) (p0 # p)" by (rule starts_with_refl)
  then show ?case by (cases "(p0 # p) @ b") auto
next
  case (Cons c a)
  then have "c \<noteq> p0" and "p0 \<notin> set a" by auto
  with Cons.IH show ?case by simp
qed

lemma afterMarker_snipped:
  assumes "34 \<notin> set enc" and "\<not> list_ex isLineTerminator enc"
    and "60 \<notin> set ph" and "\<not> list_ex isLineTerminator ph"
  shows "afterMarker (snippedTagContentAttribute @ js ''=\"'' @ enc @ js ''\">'' @ ph @ js ''</'' @ rest)
         = Some (enc, js ''</'' @ rest)"
proof -
  let ?m = "snippedTagContentAttribute @ js ''=\"''"
  let ?t = "?m @ enc @ js ''\">'' @ ph @ js ''</'' @ rest"
  have sw: "starts_with_ci ?t ?m" by (rule starts_with_ci_refl)
  have len: "length snippedTagContentAttribute + 2 = length ?m" by (simp add: js_def)
  have d: "drop (length snippedTagContentAttribute + 2) ?t = enc @ js ''\">'' @ ph @ js ''</'' @ rest"
    unfolding len by simp
  have b1: "breakAt starts_with (js ''\">'') (enc @ js ''\">'' @ ph @ js ''</'' @ rest)
      = Some (enc, js ''\">'' @ ph @ js ''</'' @ rest)"
    using breakAt_first [of 34 enc "[62]" "ph @ js ''</'' @ rest"] assms(1) by (simp add: js_def)
  have d2: "drop 2 (js ''\">'' @ ph @ js ''</'' @ rest) = ph @ js ''</'' @ rest"
    by (simp add: js_def)
  have b2: "breakAt starts_with (js ''</'') (ph @ js ''</'' @ rest) = Some (ph, js ''</'' @ rest)"
    using breakAt_first [of 60 ph "[47]" rest] assms(3) by (simp add: js_def)
  have "afterMarker ?t = Some (enc, js ''</'' @ rest)"
    by (simp only: afterMarker_def sw if_True d b1 option.case prod.case d2 b2 assms(2,4) if_False)
  then show ?thesis by simp
qed

lemma dropWhile_append_hd:
  assumes "x \<in> set xs" and "\<not> P x"
  shows "dropWhile P (xs @ ys) \<noteq> [] \<and> hd (dropWhile P (xs @ ys)) \<in> set xs"
  using assms
proof (induction xs)
  case Nil
  then show ?case by simp
next
  case (Cons c cs)
  then show ?case by (cases "P c") auto
qed

lemma unsnipStart_snipped:
  assumes am: "afterMarker (snippedTagContentAttribute @ r) = Some (enc, rest)"
    and "list_all isJSWhitespace T"
    and "B = [] \<or> \<not> isJSWhitespace (last B)"
    and "9986 \<notin> set B" and "\<not> list_ex isLineTerminator B"
  shows "unsnipStart (B @ T @ snippedTagContentAttribute @ r) = Some (B, enc, rest)"
  using assms(3-5)
proof (induction B)
  case Nil
  have nw: "\<not> isJSWhitespace 9986" by (simp add: isJSWhitespace_def)
  have m: "snippedTagContentAttribute @ r = 9986 # (js ''prettier:content'' @ [9986] @ r)"
    by (simp add: snippedTagContentAttribute_def)
  have dw: "dropWhile isJSWhitespace (T @ snippedTagContentAttribute @ r) = snippedTagContentAttribute @ r"
    using assms(2) nw unfolding m by (induction T) auto
  obtain c cs where c: "T @ snippedTagContentAttribute @ r = c # cs"
    unfolding m by (cases T) auto
  have "unsnipStart (c # cs) = Some ([], enc, rest)"
    using dw am unfolding c by simp
  then show ?case using c by simp
next
  case (Cons b B')
  let ?tail = "T @ snippedTagContentAttribute @ r"
  from Cons.prems have last: "\<not> isJSWhitespace (last (b # B'))" by simp
  have mem: "last (b # B') \<in> set (b # B')" by (rule last_in_set) simp
  from dropWhile_append_hd [where P = isJSWhitespace and ys = ?tail, OF mem last]
  have ne: "dropWhile isJSWhitespace ((b # B') @ ?tail) \<noteq> []"
    and hd: "hd (dropWhile isJSWhitespace ((b # B') @ ?tail)) \<in> set (b # B')" by auto
  from hd Cons.prems(2) have "hd (dropWhile isJSWhitespace ((b # B') @ ?tail)) \<noteq> 9986" by metis
  then have none: "afterMarker (dropWhile isJSWhitespace (b # B' @ ?tail)) = None"
    using afterMarker_not_scissors by simp
  from Cons.prems have b: "\<not> isLineTerminator b" by simp
  have B': "B' = [] \<or> \<not> isJSWhitespace (last B')" using Cons.prems(1) by (cases B') auto
  have "unsnipStart (B' @ ?tail) = Some (B', enc, rest)"
    using Cons.IH [OF B'] Cons.prems by simp
  then show ?case using none b by simp
qed

lemma takeWhile_append_stop: "\<not> P y \<Longrightarrow> takeWhile P (xs @ y # ys) = takeWhile P xs"
  by (induction xs) auto

lemma dropWhile_append_stop: "\<not> P y \<Longrightarrow> dropWhile P (xs @ y # ys) = dropWhile P xs @ y # ys"
  by (induction xs) auto

lemma unsnipContent_no_tag: "60 \<notin> set s \<Longrightarrow> unsnipContent s = Inr s"
  by (induction s) (auto simp: unsnipMatchHere_def)

lemma unsnipContent_end_tag:
  assumes "60 \<notin> set tagName"
  shows "unsnipContent (js ''</'' @ tagName @ js ''>'') = Inr (js ''</'' @ tagName @ js ''>'')"
proof -
  have e: "js ''</'' @ tagName @ js ''>'' = 60 # 47 # tagName @ [62]" by (simp add: js_def)
  have "60 \<notin> set (47 # tagName @ [62])" using assms by simp
  then have r: "unsnipContent (47 # tagName @ [62]) = Inr (47 # tagName @ [62])"
    by (rule unsnipContent_no_tag)
  have "unsnipMatchHere (60 # 47 # tagName @ [62]) = None"
    by (simp add: unsnipMatchHere_def isWordChar_def)
  then show ?thesis unfolding e using r by simp
qed

lemma trimEnd_split:
  "\<exists>T. s = trimEnd s @ T \<and> list_all isJSWhitespace T
       \<and> (trimEnd s = [] \<or> \<not> isJSWhitespace (last (trimEnd s)))"
proof -
  let ?T = "rev (takeWhile isJSWhitespace (rev s))"
  have "trimEnd s @ ?T = rev (takeWhile isJSWhitespace (rev s) @ dropWhile isJSWhitespace (rev s))"
    by (simp only: trimEnd_def rev_append)
  also have "\<dots> = rev (rev s)" by (simp only: takeWhile_dropWhile_id)
  finally have 1: "s = trimEnd s @ ?T" by (simp only: rev_rev_ident)
  have 2: "list_all isJSWhitespace ?T"
    by (auto simp: list_all_iff dest: set_takeWhileD)
  have 3: "trimEnd s = [] \<or> \<not> isJSWhitespace (last (trimEnd s))"
  proof (cases "dropWhile isJSWhitespace (rev s) = []")
    case True
    then show ?thesis by (simp add: trimEnd_def)
  next
    case False
    then have "\<not> isJSWhitespace (hd (dropWhile isJSWhitespace (rev s)))" by (rule hd_dropWhile)
    then show ?thesis using False by (simp add: trimEnd_def last_rev)
  qed
  from 1 2 3 show ?thesis by blast
qed

lemma word_not_whitespace: "isWordChar c \<Longrightarrow> \<not> isJSWhitespace c"
  by (auto simp: isWordChar_def isJSWhitespace_def)

lemma trimEnd_word_prefix:
  "trimEnd s = takeWhile isWordChar s @ trimEnd (dropWhile isWordChar s)"
proof -
  let ?w = "takeWhile isWordChar s" and ?a = "dropWhile isWordChar s"
  have s: "s = ?w @ ?a" by simp
  have w: "dropWhile isJSWhitespace (rev ?w) = rev ?w"
  proof (cases "?w = []")
    case True
    then show ?thesis by simp
  next
    case False
    then have "last ?w \<in> set ?w" by (rule last_in_set)
    then have "isWordChar (last ?w)" by (auto dest: set_takeWhileD)
    then have "\<not> isJSWhitespace (hd (rev ?w))"
      using False by (simp add: hd_rev word_not_whitespace)
    then show ?thesis using False by (cases "rev ?w") auto
  qed
  have "dropWhile isJSWhitespace (rev ?a @ rev ?w) = dropWhile isJSWhitespace (rev ?a) @ rev ?w"
  proof (cases "dropWhile isJSWhitespace (rev ?a) = []")
    case True
    then have "\<And>x. x \<in> set (rev ?a) \<Longrightarrow> isJSWhitespace x" by (simp add: dropWhile_eq_Nil_conv)
    then have "dropWhile isJSWhitespace (rev ?a @ rev ?w) = dropWhile isJSWhitespace (rev ?w)"
      by (rule dropWhile_append2)
    with True w show ?thesis by simp
  next
    case False
    then obtain x where "x \<in> set (rev ?a)" "\<not> isJSWhitespace x"
      by (auto simp: dropWhile_eq_Nil_conv)
    then show ?thesis by (simp add: dropWhile_append1)
  qed
  then have key: "dropWhile isJSWhitespace (rev ?a @ rev ?w) = dropWhile isJSWhitespace (rev ?a) @ rev ?w" .
  have "rev s = rev ?a @ rev ?w" by (metis rev_append takeWhile_dropWhile_id)
  then have "trimEnd s = rev (dropWhile isJSWhitespace (rev ?a @ rev ?w))"
    by (simp only: trimEnd_def)
  also have "\<dots> = rev (dropWhile isJSWhitespace (rev ?a) @ rev ?w)" by (simp only: key)
  also have "\<dots> = ?w @ trimEnd ?a" by (simp only: rev_append rev_rev_ident trimEnd_def)
  finally show ?thesis .
qed

lemma unsnipMatchHere_snipped:
  assumes tag: "tagName \<noteq> []" "list_all isWordChar tagName"
    and attrs: "9986 \<notin> set attributes" "\<not> list_ex isLineTerminator attributes"
    and am: "afterMarker (snippedTagContentAttribute @ r) = Some (enc, rest)"
  shows "unsnipMatchHere (js ''<'' @ tagName @ attributes @ js '' '' @ snippedTagContentAttribute @ r)
         = Some (js ''<'' @ tagName @ trimEnd attributes, enc, rest)"
proof -
  let ?m = "snippedTagContentAttribute @ r"
  let ?a = "dropWhile isWordChar attributes"
  have sp: "\<not> isWordChar 32" by (simp add: isWordChar_def)
  have tw: "takeWhile isWordChar (tagName @ attributes @ 32 # ?m)
      = tagName @ takeWhile isWordChar attributes"
    using tag(2) by (simp add: takeWhile_append2 list_all_iff takeWhile_append_stop [where P = isWordChar, OF sp])
  have dw: "dropWhile isWordChar (tagName @ attributes @ 32 # ?m) = ?a @ 32 # ?m"
    using tag(2) by (simp add: dropWhile_append2 list_all_iff dropWhile_append_stop [where P = isWordChar, OF sp])
  obtain T where T: "?a = trimEnd ?a @ T" "list_all isJSWhitespace T"
    "trimEnd ?a = [] \<or> \<not> isJSWhitespace (last (trimEnd ?a))"
    using trimEnd_split [of ?a] by blast
  have sub: "set (trimEnd ?a) \<subseteq> set attributes"
  proof -
    have "set (trimEnd ?a) \<subseteq> set ?a" unfolding trimEnd_def by (auto dest: set_dropWhileD)
    also have "\<dots> \<subseteq> set attributes" by (auto dest: set_dropWhileD)
    finally show ?thesis .
  qed
  have T32: "list_all isJSWhitespace (T @ [32])" using T(2) by (simp add: isJSWhitespace_def)
  have us1: "unsnipStart (trimEnd ?a @ (T @ [32]) @ ?m) = Some (trimEnd ?a, enc, rest)"
    using sub attrs by (intro unsnipStart_snipped [OF am T32 T(3)]) (auto simp: list_ex_iff)
  have us2: "?a @ 32 # ?m = trimEnd ?a @ (T @ [32]) @ ?m"
    using T(1) by (metis append_assoc append_Cons append_Nil)
  have us: "unsnipStart (?a @ 32 # ?m) = Some (trimEnd ?a, enc, rest)"
    by (simp only: us2 us1)
  have e: "js ''<'' @ tagName @ attributes @ js '' '' @ ?m = 60 # (tagName @ attributes @ 32 # ?m)"
    by (simp add: js_def)
  have ne: "tagName @ takeWhile isWordChar attributes \<noteq> []" using tag(1) by simp
  have "unsnipMatchHere (60 # (tagName @ attributes @ 32 # ?m))
      = Some (60 # (tagName @ takeWhile isWordChar attributes) @ trimEnd ?a, enc, rest)"
    unfolding unsnipMatchHere_def using ne by (simp only: list.case tw dw us) simp
  then show ?thesis
    unfolding e using trimEnd_word_prefix [of attributes] by (simp add: js_def)
qed

lemma lowerChar_lt: "lowerChar c = 60 \<longleftrightarrow> c = 60"
  by (auto simp: lowerChar_def)

lemma starts_with_ci_append_split:
  "starts_with_ci (a @ b) p \<Longrightarrow>
     starts_with_ci a p \<or> (\<exists>p1 p2. p = p1 @ p2 \<and> length p1 = length a \<and> p2 \<noteq> [] \<and> starts_with_ci b p2)"
proof (induction a arbitrary: p)
  case Nil
  then show ?case by (cases p) auto
next
  case (Cons c cs)
  show ?case
  proof (cases p)
    case Nil
    then show ?thesis by simp
  next
    case (Cons t ts)
    with Cons.prems have lc: "lowerChar c = lowerChar t" and sw: "starts_with_ci (cs @ b) ts" by auto
    from Cons.IH [OF sw] show ?thesis
    proof
      assume "starts_with_ci cs ts"
      then show ?thesis using lc Cons by simp
    next
      assume "\<exists>p1 p2. ts = p1 @ p2 \<and> length p1 = length cs \<and> p2 \<noteq> [] \<and> starts_with_ci b p2"
      then obtain p1 p2 where "ts = p1 @ p2" "length p1 = length cs" "p2 \<noteq> []" "starts_with_ci b p2"
        by blast
      then have "p = (t # p1) @ p2 \<and> length (t # p1) = length (c # cs) \<and> p2 \<noteq> [] \<and> starts_with_ci b p2"
        using Cons by simp
      then show ?thesis by blast
    qed
  qed
qed

lemma closing_tag_not_across:
  assumes "60 \<notin> set pt" and "starts_with_ci ((c # cs) @ (60 # pt) @ rest) (60 # pt)"
  shows "starts_with_ci (c # cs) (60 # pt)"
proof -
  from starts_with_ci_append_split [OF assms(2)] show ?thesis
  proof
    assume "starts_with_ci (c # cs) (60 # pt)"
    then show ?thesis .
  next
    assume "\<exists>p1 p2. 60 # pt = p1 @ p2 \<and> length p1 = length (c # cs) \<and> p2 \<noteq> []
        \<and> starts_with_ci ((60 # pt) @ rest) p2"
    then obtain p1 p2 where p: "60 # pt = p1 @ p2" "length p1 = length (c # cs)" "p2 \<noteq> []"
      "starts_with_ci ((60 # pt) @ rest) p2" by blast
    from p(2) obtain q qs where p1: "p1 = q # qs" by (cases p1) auto
    from p(3) obtain t ts where p2: "p2 = t # ts" by (cases p2) auto
    from p(1) p1 p2 have "t \<in> set pt" by auto
    moreover from p(4) p2 have "lowerChar 60 = lowerChar t" by simp
    then have "t = 60" using lowerChar_lt [of t] by (simp add: lowerChar_def)
    ultimately show ?thesis using assms(1) by simp
  qed
qed

lemma breakAt_closing_tag:
  assumes "60 \<notin> set pt" and "breakAt starts_with_ci (60 # pt) content = None"
  shows "breakAt starts_with_ci (60 # pt) (content @ (60 # pt) @ rest) = Some (content, (60 # pt) @ rest)"
  using assms(2)
proof (induction content)
  case Nil
  have "starts_with_ci ((60 # pt) @ rest) (60 # pt)" by (rule starts_with_ci_refl)
  then show ?case by simp
next
  case (Cons c cs)
  from Cons.prems have n: "\<not> starts_with_ci (c # cs) (60 # pt)"
    and r: "breakAt starts_with_ci (60 # pt) cs = None"
    by (auto split: if_splits option.splits)
  have "\<not> starts_with_ci ((c # cs) @ (60 # pt) @ rest) (60 # pt)"
    using n closing_tag_not_across [OF assms(1)] by blast
  then show ?case using Cons.IH [OF r] by simp
qed

lemma snipMatchHere_tag:
  assumes "62 \<notin> set attributes" and "60 \<notin> set tagName"
    and "breakAt starts_with_ci (js ''</'' @ tagName @ js ''>'') content = None"
  shows "snipMatchHere tagName
           (js ''<'' @ tagName @ attributes @ js ''>'' @ content @ js ''</'' @ tagName @ js ''>'')
         = Some (attributes, content, [])"
proof -
  let ?close = "js ''</'' @ tagName @ js ''>''"
  let ?s = "(js ''<'' @ tagName) @ attributes @ js ''>'' @ content @ ?close"
  have cl: "?close = 60 # (47 # tagName @ [62])" by (simp add: js_def)
  have pt: "60 \<notin> set (47 # tagName @ [62])" using assms(2) by simp
  have dw: "dropWhile isJSWhitespace ?s = ?s" by (simp add: js_def isJSWhitespace_def)
  have sw: "starts_with_ci ?s (js ''<'' @ tagName)" by (rule starts_with_ci_refl)
  have len: "Suc (length tagName) = length (js ''<'' @ tagName)" by (simp add: js_def)
  have d: "drop (Suc (length tagName)) ?s = attributes @ js ''>'' @ content @ ?close"
    unfolding len by simp
  have b1: "breakAt starts_with (js ''>'') (attributes @ js ''>'' @ content @ ?close)
      = Some (attributes, js ''>'' @ content @ ?close)"
    using breakAt_first [of 62 attributes "[]" "content @ ?close"] assms(1) by (simp add: js_def)
  have d1: "drop 1 (js ''>'' @ content @ ?close) = content @ ?close" by (simp add: js_def)
  have b2: "breakAt starts_with_ci ?close (content @ ?close) = Some (content, ?close)"
    using breakAt_closing_tag [OF pt, of content "[]"] assms(3) unfolding cl by simp
  have r: "dropWhile isJSWhitespace (drop (length tagName + 3) ?close) = []"
    by (simp add: js_def)
  have "snipMatchHere tagName ?s = Some (attributes, content, [])"
    by (simp only: snipMatchHere_def Let_def dw sw if_True d b1 option.case prod.case d1 b2 r)
  then show ?thesis by simp
qed

text \<open>
  Where the round trip holds: a tag whose body is bytes (code units below 256) and holds
  no closing tag, with attributes on one line that hold neither \<open>>\<close> nor the marker
  character. \<open>snipTagContent\<close> writes \<open>btoa\<close> of the body into the marker attribute,
  \<open>unsnipContent\<close> of that text gives the tag back with the body unchanged (of the
  attributes only the trailing whitespace is lost), and \<open>getSnippedContent\<close> on a node
  that carries the marker attribute with that value returns the body.
\<close>

lemma snip_unsnip_tag:
  assumes "list_all (\<lambda>c. c < 256) content"
    and "breakAt starts_with_ci (js ''</'' @ tagName @ js ''>'') content = None"
    and "tagName \<noteq> []" and "list_all isWordChar tagName"
    and "62 \<notin> set attributes" and "9986 \<notin> set attributes"
    and "\<not> list_ex isLineTerminator attributes"
    and "60 \<notin> set placeholder" and "\<not> list_ex isLineTerminator placeholder"
    and "list_all (\<lambda>a. nameProp a \<noteq> Some snippedTagContentAttribute) attrs"
  shows "(\<exists>snipped.
            snipTagContent tagName placeholder
              (js ''<'' @ tagName @ attributes @ js ''>'' @ content @ js ''</'' @ tagName @ js ''>'')
              = Inr snipped
            \<and> snipped = js ''<'' @ tagName @ attributes @ js '' '' @ snippedTagContentAttribute
                @ js ''=\"'' @ encode64 content @ js ''\">'' @ placeholder @ js ''</'' @ tagName @ js ''>''
            \<and> unsnipContent snipped =
                Inr (js ''<'' @ tagName @ trimEnd attributes @ js ''>'' @ content
                     @ js ''</'' @ tagName @ js ''>''))
         \<and> getSnippedContent
             (Script s e (attrs @ [Attribute a b snippedTagContentAttribute
                (Some [Text vs ve raw (encode64 content)])])) = Inr content"
proof -
  let ?enc = "encode64 content"
  let ?r = "js ''=\"'' @ ?enc @ js ''\">'' @ placeholder @ js ''</'' @ tagName @ js ''>''"
  let ?snipped = "js ''<'' @ tagName @ attributes @ js '' '' @ snippedTagContentAttribute @ ?r"
  let ?text = "js ''<'' @ tagName @ attributes @ js ''>'' @ content @ js ''</'' @ tagName @ js ''>''"
  have lt: "60 \<notin> set tagName" using assms(4) by (auto simp: list_all_iff isWordChar_def)
  have 1: "snipReplacement tagName placeholder attributes content = Inr ?snipped"
    by (simp add: snipReplacement_def btoa_bytes [OF assms(1)])
  have sm: "snipMatchHere tagName ?text = Some (attributes, content, [])"
    by (rule snipMatchHere_tag [OF assms(5) lt assms(2)])
  obtain d ds where d: "?text = d # ds" by (simp add: js_def)
  have "snipTagContent tagName placeholder (d # ds) = Inr (?snipped @ [])"
    using sm 1 unfolding d by simp
  then have 0: "snipTagContent tagName placeholder ?text = Inr ?snipped"
    unfolding d by simp
  have 2: "atob ?enc = Inr content" by (rule atob_encode64 [OF assms(1)])
  have alpha: "34 \<notin> set ?enc" "\<not> list_ex isLineTerminator ?enc"
    using encode64_alphabet [OF assms(1)] by (auto simp: list_ex_iff)
  have am: "afterMarker (snippedTagContentAttribute @ ?r)
      = Some (?enc, js ''</'' @ tagName @ js ''>'')"
    using afterMarker_snipped [OF alpha assms(8,9), of "tagName @ js ''>''"] by simp
  have mh: "unsnipMatchHere ?snipped
      = Some (js ''<'' @ tagName @ trimEnd attributes, ?enc, js ''</'' @ tagName @ js ''>'')"
    by (rule unsnipMatchHere_snipped [OF assms(3,4,6,7) am])
  obtain c cs where c: "?snipped = c # cs" by (simp add: js_def)
  have "unsnipContent (c # cs) =
      Inr ((js ''<'' @ tagName @ trimEnd attributes) @ js ''>'' @ content
           @ js ''</'' @ tagName @ js ''>'')"
    using mh 2 unsnipContent_end_tag [OF lt] unfolding c by simp
  then have 3: "unsnipContent ?snipped =
      Inr (js ''<'' @ tagName @ trimEnd attributes @ js ''>'' @ content @ js ''</'' @ tagName @ js ''>'')"
    unfolding c by simp
  let ?m = "Attribute a b snippedTagContentAttribute (Some [Text vs ve raw ?enc])"
  have "find (\<lambda>attribute. nameProp attribute = Some snippedTagContentAttribute) (attrs @ [?m]) = Some ?m"
    using assms(10) by (intro find_append_last) (simp_all add: list_all_iff)
  then have 4: "getSnippedContent (Script s e (attrs @ [?m])) = Inr content"
    using 2 by (auto simp: getSnippedContent_def getAttributeTextValue_def getAttributeValue_def
        encode64_Nil)
  from 0 3 4 show ?thesis by blast
qed

lemma replicate_two: "replicate 2 x = [x, x]"
  by (simp add: numeral_2_eq_2)

lemmas codec_defs =
  preprocess_def snipMatchHere_def snipReplacement_def btoa_def encode64_def padding_def
  b64char_def lowerChar_def replicate_two unsnipMatchHere_def afterMarker_def isWordChar_def
  extractAttributes_def tagRest_def isAsciiLetter_def isNameChar_def quotedValue_def
  atob_def stripPadding_def isAsciiWhitespace_def b64val_def
  coffeeSource_def coffeeSnipped_def coffeeRoot_def arrowScript_def styleInScript_def
  multilineScript_def multilineSnipped_def multilineRoot_def

text \<open>
  Claim C2 on the code. The round trip fails in the encoder and in both decoders.
  \<open>btoa\<close> throws on a code unit above \<open>0xFF\<close>, so \<open>preprocess\<close> throws on a script whose
  body holds the character U+2192. The marker that snipping the \<open>style\<close> tags writes holds
  such a code unit, so \<open>preprocess\<close> also throws on a script whose body, all ASCII, holds a
  \<open>style\<close> tag in a string: snipping \<open>style\<close> puts the marker into the body and \<open>btoa\<close>
  throws on it when the script is snipped. \<open>unsnipContent\<close> gives the body of a tag on one
  line back, wherever the tag stands in the text. A start tag over several lines is
  encoded, but neither decoder reads it back: no \<open>.\<close> of the expression of \<open>unsnipContent\<close>
  or of \<open>extractAttributes\<close> matches a line feed, so \<open>unsnipContent\<close> leaves the encoded
  text as it is, \<open>extractAttributes\<close> destructures \<open>null\<close>, and \<open>print\<close> throws a
  \<open>TypeError\<close> on the tree of that text, whatever the host's formatters are.
\<close>

theorem snip_roundtrip_fails:
  "preprocess arrowScript = Inl InvalidCharacterError
   \<and> snipTagContent (js ''style'') [] styleInScript =
       Inr (js ''<script>let a = \"<style '' @ snippedTagContentAttribute
            @ js ''=\"Yg==\"></style>\";</script>'')
   \<and> preprocess styleInScript = Inl InvalidCharacterError
   \<and> unsnipContent (js ''x <script lang=\"ts\" '' @ snippedTagContentAttribute
                     @ js ''=\"bGV0IGE7\">{}</script> y'')
       = Inr (js ''x <script lang=\"ts\">let a;</script> y'')
   \<and> preprocess multilineScript = Inr multilineSnipped
   \<and> unsnipContent multilineSnipped = Inr multilineSnipped
   \<and> extractAttributes multilineSnipped = Inl TypeError
   \<and> (\<forall>h. print h (exampleOptions multilineSnipped) [] multilineRoot False
            = (Inl TypeError, False))"
proof -
  have 0: "unsnipContent (js ''x <script lang=\"ts\" '' @ snippedTagContentAttribute
                     @ js ''=\"bGV0IGE7\">{}</script> y'')
       = Inr (js ''x <script lang=\"ts\">let a;</script> y'')"
    by (simp add: codec_defs js_def snippedTagContentAttribute_def isJSWhitespace_def
        isLineTerminator_def)
  have 1: "preprocess arrowScript = Inl InvalidCharacterError"
    by (simp add: codec_defs js_def snippedTagContentAttribute_def isJSWhitespace_def)
  have 2: "snipTagContent (js ''style'') [] styleInScript =
       Inr (js ''<script>let a = \"<style '' @ snippedTagContentAttribute
            @ js ''=\"Yg==\"></style>\";</script>'')"
    by (simp add: codec_defs js_def snippedTagContentAttribute_def isJSWhitespace_def)
  have 3: "preprocess styleInScript = Inl InvalidCharacterError"
    by (simp add: codec_defs js_def snippedTagContentAttribute_def isJSWhitespace_def)
  have 4: "preprocess multilineScript = Inr multilineSnipped"
    by (simp add: codec_defs js_def snippedTagContentAttribute_def isJSWhitespace_def trim_js_def)
  have 5: "unsnipContent multilineSnipped = Inr multilineSnipped"
    by (simp add: codec_defs js_def snippedTagContentAttribute_def isJSWhitespace_def
        isLineTerminator_def)
  have 6: "extractAttributes multilineSnipped = Inl TypeError"
    by (simp add: codec_defs js_def snippedTagContentAttribute_def isJSWhitespace_def
        isLineTerminator_def)
  have 7: "print h (exampleOptions multilineSnipped) [] multilineRoot False
            = (Inl TypeError, False)" for h
    using 6 by (simp add: multilineRoot_def exampleOptions_def bnd_def lift_def throw_def ret_def
        slice_def multilineSnipped_def js_def snippedTagContentAttribute_def split_on.simps)
  from 0 1 2 3 4 5 6 7 show ?thesis by blast
qed


subsection \<open>Strings and documents\<close>

lemma literalTexts_append: "literalTexts (xs @ ys) = literalTexts xs @ literalTexts ys"
  by (induction xs) auto

lemma literalTexts_lines:
  "literalTexts (concat (map (\<lambda>s. [literalline, Str s]) xs)) = concat (map (\<lambda>s. 10 # s) xs)"
  by (induction xs) (auto simp: literalline_def)

lemma split_on_nonempty: "split_on sep t \<noteq> []"
  by (cases t) (auto split: list.splits)

lemma split_on_join: "split_on 10 t = x # xs \<Longrightarrow> x @ concat (map (\<lambda>s. 10 # s) xs) = t"
proof (induction t arbitrary: x xs)
  case Nil
  then show ?case by simp
next
  case (Cons c cs)
  obtain y ys where y: "split_on 10 cs = y # ys"
    using split_on_nonempty [of 10 cs] by (cases "split_on 10 cs") auto
  show ?case
  proof (cases "c = 10")
    case True
    with Cons.prems y have "x = []" and "xs = y # ys" by auto
    with Cons.IH [OF y] True show ?thesis by simp
  next
    case False
    with Cons.prems y have "x = c # y" and "xs = ys" by auto
    with Cons.IH [OF y] show ?thesis by simp
  qed
qed

lemma literalText_rawDoc:
  "literalText (rawDoc opts n) = slice (originalText opts) (locStart n) (locEnd n)"
proof -
  let ?t = "slice (originalText opts) (locStart n) (locEnd n)"
  obtain x xs where s: "split_on 10 ?t = x # xs"
    using split_on_nonempty [of 10 ?t] by (cases "split_on 10 ?t") auto
  then show ?thesis
    using split_on_join [OF s] by (simp add: rawDoc_def literalTexts_lines)
qed

lemma set_dropWhile_sub: "set xs \<subseteq> set (dropWhile P xs) \<union> {x. P x}"
  by (induction xs) auto

lemma set_trim_js: "set t \<subseteq> set (trim_js t) \<union> {c. isJSWhitespace c}"
proof -
  let ?d = "dropWhile isJSWhitespace t"
  have 1: "set t \<subseteq> set ?d \<union> {c. isJSWhitespace c}"
    by (rule set_dropWhile_sub)
  have 2: "set (rev ?d) \<subseteq> set (dropWhile isJSWhitespace (rev ?d)) \<union> {c. isJSWhitespace c}"
    by (rule set_dropWhile_sub)
  have 3: "set (trim_js t) = set (dropWhile isJSWhitespace (rev ?d))"
    by (simp only: trim_js_def set_rev)
  have 4: "set (rev ?d) = set ?d" by (rule set_rev)
  from 1 2 show ?thesis unfolding 3 4 by blast
qed

lemma starts_with_set: "starts_with s t \<Longrightarrow> set t \<subseteq> set s"
  by (induction s t rule: starts_with.induct) auto

lemma includes_js_set: "includes_js s t \<Longrightarrow> set t \<subseteq> set s"
proof (induction s)
  case Nil
  then show ?case by simp
next
  case (Cons c cs)
  from Cons.prems have "starts_with (c # cs) t \<or> includes_js cs t" by simp
  then show ?case
  proof
    assume "starts_with (c # cs) t"
    then show ?thesis by (rule starts_with_set)
  next
    assume "includes_js cs t"
    then have "set t \<subseteq> set cs" by (rule Cons.IH)
    then show ?thesis by auto
  qed
qed

lemma scissors_not_in_ignore: "9986 \<notin> set (js ''prettier-ignore'')"
  by (simp add: js_def)

lemma scissors_not_ws: "\<not> isJSWhitespace 9986"
  by (simp add: isJSWhitespace_def)

lemma ignore_directive_not_snipped:
  assumes "trim_js d = js ''prettier-ignore''"
  shows "\<not> hasSnippedContent d"
proof
  assume "hasSnippedContent d"
  then have "set snippedTagContentAttribute \<subseteq> set d"
    by (simp add: hasSnippedContent_def includes_js_set)
  then have "9986 \<in> set d" by (auto simp: snippedTagContentAttribute_def)
  then have "9986 \<in> set (trim_js d) \<or> isJSWhitespace 9986" using set_trim_js [of d] by auto
  then show False using assms scissors_not_in_ignore scissors_not_ws by simp
qed



lemma trim_js_Nil: "trim_js t = [] \<longleftrightarrow> list_all isJSWhitespace t"
proof -
  let ?d = "dropWhile isJSWhitespace t"
  have "dropWhile isJSWhitespace (rev ?d) = [] \<longleftrightarrow> ?d = []"
  proof
    assume a: "dropWhile isJSWhitespace (rev ?d) = []"
    show "?d = []"
    proof (rule ccontr)
      assume ne: "?d \<noteq> []"
      then have "\<not> isJSWhitespace (hd ?d)" by (rule hd_dropWhile)
      moreover have "hd ?d \<in> set (rev ?d)" using ne by simp
      ultimately show False using a by (auto simp: dropWhile_eq_Nil_conv)
    qed
  next
    assume "?d = []"
    then show "dropWhile isJSWhitespace (rev ?d) = []" by (simp only: rev.simps dropWhile.simps)
  qed
  then have 1: "dropWhile isJSWhitespace (rev ?d) = [] \<longleftrightarrow> ?d = []" .
  have 2: "?d = [] \<longleftrightarrow> list_all isJSWhitespace t"
    by (simp add: dropWhile_eq_Nil_conv list_all_iff)
  have "trim_js t = [] \<longleftrightarrow> dropWhile isJSWhitespace (rev ?d) = []"
    by (simp only: trim_js_def rev_is_Nil_conv)
  then show ?thesis by (simp only: 1 2)
qed

lemma wsThenLF_ws: "list_all isJSWhitespace t \<Longrightarrow> wsThenLF t \<longleftrightarrow> 10 \<in> set t"
  by (induction t) auto

lemma count_list_pos: "Suc 0 \<le> count_list t x \<longleftrightarrow> x \<in> set t"
  using count_list_0_iff [of t x] by (cases "count_list t x") auto

lemma hasBlankLine_ws:
  "list_all isJSWhitespace t \<Longrightarrow> hasBlankLine t \<longleftrightarrow> 2 \<le> count_list t 10"
proof (induction t)
  case Nil
  then show ?case by simp
next
  case (Cons c cs)
  then have ws: "list_all isJSWhitespace cs" by simp
  have cr: "(case cs of d # ds \<Rightarrow> d = 13 \<and> wsThenLF ds | [] \<Rightarrow> False) \<Longrightarrow> 10 \<in> set cs"
    using ws by (cases cs) (auto simp: wsThenLF_ws)
  have "hasBlankLine (c # cs) \<longleftrightarrow> (c = 10 \<and> 10 \<in> set cs) \<or> hasBlankLine cs"
    using cr wsThenLF_ws [OF ws] by auto
  also have "\<dots> \<longleftrightarrow> (c = 10 \<and> 1 \<le> count_list cs 10) \<or> 2 \<le> count_list cs 10"
    using Cons.IH [OF ws] by (simp add: count_list_pos)
  also have "\<dots> \<longleftrightarrow> 2 \<le> count_list (c # cs) 10" by auto
  finally show ?case .
qed

lemma slice_append: "a \<le> b \<Longrightarrow> b \<le> c \<Longrightarrow> slice t a b @ slice t b c = slice t a c"
proof -
  assume ab: "a \<le> b" and bc: "b \<le> c"
  have "take (c - a) (drop a t) = take ((b - a) + (c - b)) (drop a t)" using ab bc by simp
  also have "\<dots> = take (b - a) (drop a t) @ take (c - b) (drop (b - a) (drop a t))"
    by (rule take_add)
  also have "drop (b - a) (drop a t) = drop b t" using ab by simp
  finally show ?thesis by (simp add: slice_def)
qed

lemma contiguousText_le: "contiguousText t p q ns \<Longrightarrow> p \<le> q"
  by (induction t p q ns rule: contiguousText.induct) auto

lemma printRaws_contiguous: "contiguousText t p q ns \<Longrightarrow> printRaws ns = slice t p q"
proof (induction t p q ns rule: contiguousText.induct)
  case (1 t p q)
  then show ?case by (simp add: slice_def)
next
  case (2 t p q s e raw d ns)
  then have "printRaws ns = slice t e q" and "p \<le> e" and "e \<le> q" and "raw = Some (slice t p e)"
    using contiguousText_le [of t e q ns] by auto
  then show ?case by (simp add: slice_append)
qed simp_all



subsection \<open>Control-flow blocks\<close>

lemma printChildren_bnd:
  "bnd (printChildrenLoop h opts stack (isPreTagContent stack) children
          \<lparr>childDocs = [], currentGroup = [], lastBreakIndex = - 1\<rparr>)
     (\<lambda>st. bnd (lift (childrenDone (isPreTagContent stack) st)) f)
   = bnd (printChildren h opts stack children) f"
  by (simp add: printChildren_def bnd_assoc)

lemma hasForcedBreaks_append:
  "hasForcedBreaks (xs @ ys) \<longleftrightarrow> hasForcedBreaks xs \<or> hasForcedBreaks ys"
  by (induction xs) auto

lemma hasForcedBreak_indentedWithNewlines:
  "hasForcedBreak (indentedWithNewlines docs) \<longleftrightarrow> hasForcedBreaks (trim docs isLine)"
  by (simp add: indentedWithNewlines_def hasForcedBreaks_append softline_def dedent_def)

lemma optional_print:
  assumes "(case opt of None \<Rightarrow> ret [] | Some n \<Rightarrow> bnd (print h opts stack n) (\<lambda>d. ret (f d))) ig
             = (Inr ds, ig')"
  shows "case opt of
           None \<Rightarrow> ds = [] \<and> ig' = ig
         | Some n \<Rightarrow> \<exists>d. print h opts stack n ig = (Inr d, ig') \<and> ds = f d"
  using assms by (cases opt) (auto simp: ret_def elim!: bnd_Inr_elim)

text \<open>
  Claim C3, as amended. Whenever \<open>print\<close>, entered with \<open>ignoreNext\<close> clear, returns a
  document \<open>d\<close> for an \<open>IfBlock\<close> or an \<open>EachBlock\<close>, \<open>d\<close> is \<open>concat([g, breakParent])\<close>,
  where \<open>g\<close> is the block's own group: the opening marker around the printed expression
  (for \<open>each\<close> also the context, the index and the key), the printed children indented
  between soft lines, the printed \<open>else\<close> branch when there is one, and the closing
  marker. The \<open>break-parent\<close> stands beside \<open>g\<close>, not inside it: it is for the groups
  that enclose the block, and \<open>g\<close> holds a forced break only where the document of a
  printed part holds one. For an \<open>AwaitBlock\<close>, \<open>d\<close> is one group of the markers and the
  indented printed branches that ends in \<open>{/await}\<close>, with no \<open>break-parent\<close> attached:
  \<open>d\<close> holds a forced break only where the document of a printed part holds one.
\<close>

theorem control_flow_break:
  "(print h opts ancestors (IfBlock s e expression children els) False = (Inr d, ig) \<longrightarrow>
     (let stack = IfBlock s e expression children els # ancestors
      in \<exists>x ig1 docs ig2 elseDocs g.
           print h opts stack expression False = (Inr x, ig1)
         \<and> printChildren h opts stack children ig1 = (Inr docs, ig2)
         \<and> (case els of
               None \<Rightarrow> elseDocs = [] \<and> ig = ig2
             | Some el \<Rightarrow> \<exists>ed. print h opts stack el ig2 = (Inr ed, ig) \<and> elseDocs = [ed])
         \<and> g = Group (Concat ([Str (js ''{#if ''), x, Str (js ''}''), indentedWithNewlines docs]
                               @ elseDocs @ [Str (js ''{/if}'')]))
         \<and> d = Concat [g, BreakParent]
         \<and> (hasForcedBreak g \<longleftrightarrow>
              hasForcedBreak x \<or> hasForcedBreaks (trim docs isLine) \<or> hasForcedBreaks elseDocs)))
 \<and> (print h opts ancestors (EachBlock s e expression contextNode index key children els) False
       = (Inr d, ig) \<longrightarrow>
     (let stack = EachBlock s e expression contextNode index key children els # ancestors
      in \<exists>x ig1 ctx ig2 keyDocs ig3 docs ig4 elseDocs g.
           print h opts stack expression False = (Inr x, ig1)
         \<and> print h opts stack contextNode ig1 = (Inr ctx, ig2)
         \<and> (case key of
               None \<Rightarrow> keyDocs = [] \<and> ig3 = ig2
             | Some kn \<Rightarrow>
                 \<exists>kd. print h opts stack kn ig2 = (Inr kd, ig3)
                      \<and> keyDocs = [Str (js '' (''), kd, Str (js '')'')])
         \<and> printChildren h opts stack children ig3 = (Inr docs, ig4)
         \<and> (case els of
               None \<Rightarrow> elseDocs = [] \<and> ig = ig4
             | Some el \<Rightarrow> \<exists>ed. print h opts stack el ig4 = (Inr ed, ig) \<and> elseDocs = [ed])
         \<and> g = Group (Concat ([Str (js ''{#each ''), x, Str (js '' as ''), ctx]
                         @ (case index of
                              None \<Rightarrow> []
                            | Some ix \<Rightarrow> if ix \<noteq> [] then [Str (js '', ''), Str ix] else [])
                         @ keyDocs
                         @ [Str (js ''}''), indentedWithNewlines docs]
                         @ elseDocs @ [Str (js ''{/each}'')]))
         \<and> d = Concat [g, BreakParent]
         \<and> (hasForcedBreak g \<longleftrightarrow>
              hasForcedBreak x \<or> hasForcedBreak ctx \<or> hasForcedBreaks keyDocs
              \<or> hasForcedBreaks (trim docs isLine) \<or> hasForcedBreaks elseDocs)))
 \<and> (print h opts ancestors (AwaitBlock s e expression v err pending thn catch) False
       = (Inr d, ig) \<longrightarrow>
     (let stack = AwaitBlock s e expression v err pending thn catch # ancestors;
          hasPendingBlock = list_ex (\<lambda>n. \<not> isEmptyNode n) (getChildren pending);
          hasThenBlock = list_ex (\<lambda>n. \<not> isEmptyNode n) (getChildren thn);
          hasCatchBlock = list_ex (\<lambda>n. \<not> isEmptyNode n) (getChildren catch)
      in \<exists>x ig1 p ig2 vs t ig3 es c.
           print h opts stack expression False = (Inr x, ig1)
         \<and> (if hasPendingBlock then print h opts stack pending ig1 = (Inr p, ig2)
             else ig2 = ig1)
         \<and> (if hasThenBlock
             then expandNode v = Inr vs \<and> print h opts stack thn ig2 = (Inr t, ig3)
             else ig3 = ig2)
         \<and> (if hasCatchBlock
             then expandNode err = Inr es \<and> print h opts stack catch ig3 = (Inr c, ig)
             else ig = ig3)
         \<and> d = Group (Concat (
               (if \<not> hasPendingBlock \<and> hasThenBlock
                then [Group (Concat [Str (js ''{#await ''), x, Str (js '' then''), Str vs,
                                     Str (js ''}'')]),
                      Indent t]
                else [Group (Concat [Str (js ''{#await ''), x, Str (js ''}'')])]
                     @ (if hasPendingBlock then [Indent p] else [])
                     @ (if hasThenBlock
                        then [Group (Concat [Str (js ''{:then''), Str vs, Str (js ''}'')]), Indent t]
                        else []))
               @ (if hasCatchBlock
                  then [Group (Concat [Str (js ''{:catch''), Str es, Str (js ''}'')]), Indent c]
                  else [])
               @ [Str (js ''{/await}'')]))
         \<and> (hasForcedBreak d \<longleftrightarrow>
              hasForcedBreak x \<or> (hasPendingBlock \<and> hasForcedBreak p)
              \<or> (hasThenBlock \<and> hasForcedBreak t) \<or> (hasCatchBlock \<and> hasForcedBreak c))))"
proof (unfold Let_def, intro conjI impI, goal_cases)
  case 1
  let ?stack = "IfBlock s e expression children els # ancestors"
  from 1 have "printNode h opts ancestors (IfBlock s e expression children els) False = (Inr d, ig)"
    by (simp add: guarded_False)
  then have "bnd (print h opts ?stack expression) (\<lambda>x.
     bnd (printChildren h opts ?stack children) (\<lambda>docs.
     bnd (case els of
            None \<Rightarrow> ret []
          | Some el \<Rightarrow> bnd (print h opts ?stack el) (\<lambda>d. ret [d])) (\<lambda>elseDocs.
     ret (Concat [Group (Concat ([Str (js ''{#if ''), x, Str (js ''}''), indentedWithNewlines docs]
                                 @ elseDocs @ [Str (js ''{/if}'')])),
                  BreakParent])))) False = (Inr d, ig)"
    by (simp only: printNode.simps printChildren_bnd)
  then obtain x ig1 docs ig2 elseDocs ig3 where
    a: "print h opts ?stack expression False = (Inr x, ig1)" and
    b: "printChildren h opts ?stack children ig1 = (Inr docs, ig2)" and
    c: "(case els of
            None \<Rightarrow> ret []
          | Some el \<Rightarrow> bnd (print h opts ?stack el) (\<lambda>d. ret [d])) ig2 = (Inr elseDocs, ig3)" and
    r: "ret (Concat [Group (Concat ([Str (js ''{#if ''), x, Str (js ''}''), indentedWithNewlines docs]
                                 @ elseDocs @ [Str (js ''{/if}'')])),
                  BreakParent]) ig3 = (Inr d, ig)"
    by (elim bnd_Inr_elim)
  let ?g = "Group (Concat ([Str (js ''{#if ''), x, Str (js ''}''), indentedWithNewlines docs]
                          @ elseDocs @ [Str (js ''{/if}'')]))"
  from r have d: "d = Concat [?g, BreakParent]" and ig: "ig = ig3" by (simp_all add: ret_def)
  have el: "(case els of
          None \<Rightarrow> elseDocs = [] \<and> ig = ig2
        | Some el \<Rightarrow> \<exists>ed. print h opts ?stack el ig2 = (Inr ed, ig) \<and> elseDocs = [ed])"
    using optional_print [OF c] unfolding ig .
  have fb: "hasForcedBreak ?g \<longleftrightarrow>
         hasForcedBreak x \<or> hasForcedBreaks (trim docs isLine) \<or> hasForcedBreaks elseDocs"
    by (simp add: hasForcedBreaks_append hasForcedBreak_indentedWithNewlines)
  from a b el d fb show ?case by blast
next
  case 2
  let ?stack = "EachBlock s e expression contextNode index key children els # ancestors"
  from 2 have "printNode h opts ancestors
      (EachBlock s e expression contextNode index key children els) False = (Inr d, ig)"
    by (simp add: guarded_False)
  then have "bnd (print h opts ?stack expression) (\<lambda>x.
     bnd (print h opts ?stack contextNode) (\<lambda>ctx.
     bnd (case key of
            None \<Rightarrow> ret []
          | Some kn \<Rightarrow>
              bnd (print h opts ?stack kn) (\<lambda>kd.
              ret [Str (js '' (''), kd, Str (js '')'')])) (\<lambda>keyDocs.
     bnd (printChildren h opts ?stack children) (\<lambda>docs.
     bnd (case els of
            None \<Rightarrow> ret []
          | Some el \<Rightarrow> bnd (print h opts ?stack el) (\<lambda>d. ret [d])) (\<lambda>elseDocs.
     ret (Concat [Group (Concat ([Str (js ''{#each ''), x, Str (js '' as ''), ctx]
                    @ (case index of
                         None \<Rightarrow> []
                       | Some ix \<Rightarrow> if ix \<noteq> [] then [Str (js '', ''), Str ix] else [])
                    @ keyDocs
                    @ [Str (js ''}''), indentedWithNewlines docs]
                    @ elseDocs @ [Str (js ''{/each}'')])),
                  BreakParent])))))) False = (Inr d, ig)"
    by (simp only: printNode.simps printChildren_bnd)
  then obtain x ig1 ctx ig2 keyDocs ig3 docs ig4 elseDocs ig5 where
    a: "print h opts ?stack expression False = (Inr x, ig1)" and
    b: "print h opts ?stack contextNode ig1 = (Inr ctx, ig2)" and
    k: "(case key of
            None \<Rightarrow> ret []
          | Some kn \<Rightarrow>
              bnd (print h opts ?stack kn) (\<lambda>kd.
              ret [Str (js '' (''), kd, Str (js '')'')])) ig2 = (Inr keyDocs, ig3)" and
    c: "printChildren h opts ?stack children ig3 = (Inr docs, ig4)" and
    l: "(case els of
            None \<Rightarrow> ret []
          | Some el \<Rightarrow> bnd (print h opts ?stack el) (\<lambda>d. ret [d])) ig4 = (Inr elseDocs, ig5)" and
    r: "ret (Concat [Group (Concat ([Str (js ''{#each ''), x, Str (js '' as ''), ctx]
                    @ (case index of
                         None \<Rightarrow> []
                       | Some ix \<Rightarrow> if ix \<noteq> [] then [Str (js '', ''), Str ix] else [])
                    @ keyDocs
                    @ [Str (js ''}''), indentedWithNewlines docs]
                    @ elseDocs @ [Str (js ''{/each}'')])),
                  BreakParent]) ig5 = (Inr d, ig)"
    by (elim bnd_Inr_elim)
  let ?g = "Group (Concat ([Str (js ''{#each ''), x, Str (js '' as ''), ctx]
                    @ (case index of
                         None \<Rightarrow> []
                       | Some ix \<Rightarrow> if ix \<noteq> [] then [Str (js '', ''), Str ix] else [])
                    @ keyDocs
                    @ [Str (js ''}''), indentedWithNewlines docs]
                    @ elseDocs @ [Str (js ''{/each}'')]))"
  from r have d: "d = Concat [?g, BreakParent]" and ig: "ig = ig5" by (simp_all add: ret_def)
  have kd: "(case key of
          None \<Rightarrow> keyDocs = [] \<and> ig3 = ig2
        | Some kn \<Rightarrow>
            \<exists>kd. print h opts ?stack kn ig2 = (Inr kd, ig3)
                 \<and> keyDocs = [Str (js '' (''), kd, Str (js '')'')])"
    using optional_print [OF k] .
  have el: "(case els of
          None \<Rightarrow> elseDocs = [] \<and> ig = ig4
        | Some el \<Rightarrow> \<exists>ed. print h opts ?stack el ig4 = (Inr ed, ig) \<and> elseDocs = [ed])"
    using optional_print [OF l] unfolding ig .
  have fb: "hasForcedBreak ?g \<longleftrightarrow>
         hasForcedBreak x \<or> hasForcedBreak ctx \<or> hasForcedBreaks keyDocs
         \<or> hasForcedBreaks (trim docs isLine) \<or> hasForcedBreaks elseDocs"
    by (auto simp: hasForcedBreaks_append hasForcedBreak_indentedWithNewlines split: option.splits)
  from a b kd c el d fb show ?case by blast
next
  case 3
  let ?stack = "AwaitBlock s e expression v err pending thn catch # ancestors"
  let ?hp = "list_ex (\<lambda>n. \<not> isEmptyNode n) (getChildren pending)"
  let ?ht = "list_ex (\<lambda>n. \<not> isEmptyNode n) (getChildren thn)"
  let ?hc = "list_ex (\<lambda>n. \<not> isEmptyNode n) (getChildren catch)"
  from 3 have pn: "printNode h opts ancestors
      (AwaitBlock s e expression v err pending thn catch) False = (Inr d, ig)"
    by (simp add: guarded_False)
  then obtain pc tc cc where ch: "childrenProp pending = Some pc" "childrenProp thn = Some tc"
      "childrenProp catch = Some cc"
    by (auto simp: throw_def split: option.splits)
  have gc: "getChildren pending = pc" "getChildren thn = tc" "getChildren catch = cc"
    using ch by (simp_all add: getChildren_def)
  from pn obtain block igb catchDocs where
    b: "(if \<not> ?hp \<and> ?ht then
          bnd (print h opts ?stack expression) (\<lambda>x.
          bnd (lift (expandNode v)) (\<lambda>vs.
          bnd (print h opts ?stack thn) (\<lambda>t.
          ret [Group (Concat [Str (js ''{#await ''), x, Str (js '' then''), Str vs, Str (js ''}'')]),
               Indent t])))
        else
          bnd (print h opts ?stack expression) (\<lambda>x.
          bnd (if ?hp then bnd (print h opts ?stack pending) (\<lambda>p. ret [Indent p]) else ret [])
            (\<lambda>pendingDocs.
          bnd (if ?ht then
                 bnd (lift (expandNode v)) (\<lambda>vs.
                 bnd (print h opts ?stack thn) (\<lambda>t.
                 ret [Group (Concat [Str (js ''{:then''), Str vs, Str (js ''}'')]), Indent t]))
               else ret []) (\<lambda>thenDocs.
          ret ([Group (Concat [Str (js ''{#await ''), x, Str (js ''}'')])]
               @ pendingDocs @ thenDocs))))) False = (Inr block, igb)"
    and c: "(if ?hc then
              bnd (lift (expandNode err)) (\<lambda>es.
              bnd (print h opts ?stack catch) (\<lambda>cd.
              ret [Group (Concat [Str (js ''{:catch''), Str es, Str (js ''}'')]), Indent cd]))
            else ret []) igb = (Inr catchDocs, ig)"
    and d: "d = Group (Concat (block @ catchDocs @ [Str (js ''{/await}'')]))"
    unfolding printNode.simps ch gc Let_def option.case prod.case
    by (elim bnd_Inr_elim) (simp add: ret_def gc)
  have "\<exists>es c. (if ?hc then expandNode err = Inr es \<and> print h opts ?stack catch igb = (Inr c, ig)
                       \<and> catchDocs = [Group (Concat [Str (js ''{:catch''), Str es, Str (js ''}'')]),
                                        Indent c]
                     else catchDocs = [] \<and> ig = igb)"
    using c by (cases ?hc) (auto simp: ret_def lift_Inr elim!: bnd_Inr_elim)
  then obtain es c where
    cd: "(if ?hc then expandNode err = Inr es \<and> print h opts ?stack catch igb = (Inr c, ig)
                       \<and> catchDocs = [Group (Concat [Str (js ''{:catch''), Str es, Str (js ''}'')]),
                                        Indent c]
                     else catchDocs = [] \<and> ig = igb)"
    by blast
  have "\<exists>x ig1 p ig2 vs t.
       print h opts ?stack expression False = (Inr x, ig1)
     \<and> (if ?hp then print h opts ?stack pending ig1 = (Inr p, ig2) else ig2 = ig1)
     \<and> (if ?ht then expandNode v = Inr vs \<and> print h opts ?stack thn ig2 = (Inr t, igb)
         else igb = ig2)
     \<and> block =
          (if \<not> ?hp \<and> ?ht
           then [Group (Concat [Str (js ''{#await ''), x, Str (js '' then''), Str vs, Str (js ''}'')]),
                 Indent t]
           else [Group (Concat [Str (js ''{#await ''), x, Str (js ''}'')])]
                @ (if ?hp then [Indent p] else [])
                @ (if ?ht
                   then [Group (Concat [Str (js ''{:then''), Str vs, Str (js ''}'')]), Indent t]
                   else []))"
    using b by (cases ?hp; cases ?ht) (auto simp: ret_def lift_Inr elim!: bnd_Inr_elim)
  then obtain x ig1 p ig2 vs t where
    1: "print h opts ?stack expression False = (Inr x, ig1)" and
    2: "(if ?hp then print h opts ?stack pending ig1 = (Inr p, ig2) else ig2 = ig1)" and
    3: "(if ?ht then expandNode v = Inr vs \<and> print h opts ?stack thn ig2 = (Inr t, igb)
         else igb = ig2)" and
    4: "block =
          (if \<not> ?hp \<and> ?ht
           then [Group (Concat [Str (js ''{#await ''), x, Str (js '' then''), Str vs, Str (js ''}'')]),
                 Indent t]
           else [Group (Concat [Str (js ''{#await ''), x, Str (js ''}'')])]
                @ (if ?hp then [Indent p] else [])
                @ (if ?ht
                   then [Group (Concat [Str (js ''{:then''), Str vs, Str (js ''}'')]), Indent t]
                   else []))"
    by blast
  have 6: "(if ?hc then expandNode err = Inr es \<and> print h opts ?stack catch igb = (Inr c, ig)
            else ig = igb)"
    using cd by (simp split: if_splits)
  have 7: "catchDocs = (if ?hc
             then [Group (Concat [Str (js ''{:catch''), Str es, Str (js ''}'')]), Indent c]
             else [])"
    using cd by (simp split: if_splits)
  have 8: "d = Group (Concat (
          (if \<not> ?hp \<and> ?ht
           then [Group (Concat [Str (js ''{#await ''), x, Str (js '' then''), Str vs, Str (js ''}'')]),
                 Indent t]
           else [Group (Concat [Str (js ''{#await ''), x, Str (js ''}'')])]
                @ (if ?hp then [Indent p] else [])
                @ (if ?ht
                   then [Group (Concat [Str (js ''{:then''), Str vs, Str (js ''}'')]), Indent t]
                   else []))
          @ (if ?hc
             then [Group (Concat [Str (js ''{:catch''), Str es, Str (js ''}'')]), Indent c]
             else [])
          @ [Str (js ''{/await}'')]))"
    unfolding d 4 7 by (rule refl)
  have 9: "hasForcedBreak d \<longleftrightarrow>
         hasForcedBreak x \<or> (?hp \<and> hasForcedBreak p) \<or> (?ht \<and> hasForcedBreak t)
         \<or> (?hc \<and> hasForcedBreak c)"
    unfolding 8 by (auto simp: hasForcedBreaks_append)
  from 1 2 3 6 8 9 show ?case by blast
qed

lemma print_smallIf:
  "print exampleHost (exampleOptions []) [] smallIf False =
     (Inr (Concat
        [Group (Concat
           [Str (js ''{#if ''), Str (js ''a''), Str (js ''}''),
            Indent (Concat [softline, Fill [Fill [Str (js ''b'')]], dedent softline]),
            Str (js ''{/if}'')]),
         BreakParent]), False)"
  by (simp add: eval_defs)

lemma print_smallEach:
  "print exampleHost (exampleOptions []) [] smallEach False =
     (Inr (Concat
        [Group (Concat
           [Str (js ''{#each ''), Str (js ''xs''), Str (js '' as ''), Str (js ''x''), Str (js ''}''),
            Indent (Concat [softline, Fill [Fill [Str (js ''y'')]], dedent softline]),
            Str (js ''{/each}'')]),
         BreakParent]), False)"
  by (simp add: eval_defs smallEach_def)

lemma print_inlineAwait:
  "print exampleHost (exampleOptions []) [] inlineAwait False =
     (Inr (Group (Concat
        [Group (Concat [Str (js ''{#await ''), Str (js ''p''), Str (js '' then''), Str (js '' v''),
                        Str (js ''}'')]),
         Indent (Concat [softline, Fill [Fill [Str (js ''hi'')]], dedent softline]),
         Str (js ''{/await}'')])), False)"
  by (simp add: eval_defs)

theorem control_flow_break_witness:
  "print exampleHost (exampleOptions []) [] smallIf False =
     (Inr (Concat
        [Group (Concat
           [Str (js ''{#if ''), Str (js ''a''), Str (js ''}''),
            Indent (Concat [softline, Fill [Fill [Str (js ''b'')]], dedent softline]),
            Str (js ''{/if}'')]),
         BreakParent]), False)
   \<and> (\<exists>x ig1 docs ig2 g.
         print exampleHost (exampleOptions []) [smallIf] (Identifier 5 6 (js ''a'')) False
           = (Inr x, ig1)
       \<and> printChildren exampleHost (exampleOptions []) [smallIf]
           [Text 7 8 (Some (js ''b'')) (js ''b'')] ig1 = (Inr docs, ig2)
       \<and> Concat
           [Group (Concat
              [Str (js ''{#if ''), Str (js ''a''), Str (js ''}''),
               Indent (Concat [softline, Fill [Fill [Str (js ''b'')]], dedent softline]),
               Str (js ''{/if}'')]),
            BreakParent] = Concat [g, BreakParent]
       \<and> (hasForcedBreak g \<longleftrightarrow> hasForcedBreak x \<or> hasForcedBreaks (trim docs isLine)))
   \<and> print exampleHost (exampleOptions []) [] smallEach False =
     (Inr (Concat
        [Group (Concat
           [Str (js ''{#each ''), Str (js ''xs''), Str (js '' as ''), Str (js ''x''), Str (js ''}''),
            Indent (Concat [softline, Fill [Fill [Str (js ''y'')]], dedent softline]),
            Str (js ''{/each}'')]),
         BreakParent]), False)
   \<and> (\<exists>g. Concat
        [Group (Concat
           [Str (js ''{#each ''), Str (js ''xs''), Str (js '' as ''), Str (js ''x''), Str (js ''}''),
            Indent (Concat [softline, Fill [Fill [Str (js ''y'')]], dedent softline]),
            Str (js ''{/each}'')]),
         BreakParent] = Concat [g, BreakParent])
   \<and> print exampleHost (exampleOptions []) [] inlineAwait False =
     (Inr (Group (Concat
        [Group (Concat [Str (js ''{#await ''), Str (js ''p''), Str (js '' then''), Str (js '' v''),
                        Str (js ''}'')]),
         Indent (Concat [softline, Fill [Fill [Str (js ''hi'')]], dedent softline]),
         Str (js ''{/await}'')])), False)
   \<and> (\<exists>x ig1.
         print exampleHost (exampleOptions []) [inlineAwait] (Identifier 8 9 (js ''p'')) False
           = (Inr x, ig1))"
proof -
  let ?dIf = "Concat
        [Group (Concat
           [Str (js ''{#if ''), Str (js ''a''), Str (js ''}''),
            Indent (Concat [softline, Fill [Fill [Str (js ''b'')]], dedent softline]),
            Str (js ''{/if}'')]),
         BreakParent]"
  let ?dEach = "Concat
        [Group (Concat
           [Str (js ''{#each ''), Str (js ''xs''), Str (js '' as ''), Str (js ''x''), Str (js ''}''),
            Indent (Concat [softline, Fill [Fill [Str (js ''y'')]], dedent softline]),
            Str (js ''{/each}'')]),
         BreakParent]"
  let ?dAwait = "Group (Concat
        [Group (Concat [Str (js ''{#await ''), Str (js ''p''), Str (js '' then''), Str (js '' v''),
                        Str (js ''}'')]),
         Indent (Concat [softline, Fill [Fill [Str (js ''hi'')]], dedent softline]),
         Str (js ''{/await}'')])"
  have pi: "print exampleHost (exampleOptions []) []
      (IfBlock 0 13 (Identifier 5 6 (js ''a'')) [Text 7 8 (Some (js ''b'')) (js ''b'')] None) False
      = (Inr ?dIf, False)"
    using print_smallIf unfolding smallIf_def .
  have pe: "print exampleHost (exampleOptions []) []
      (EachBlock 0 23 (Identifier 7 9 (js ''xs'')) (Identifier 13 14 (js ''x'')) None None
         [Text 15 16 (Some (js ''y'')) (js ''y'')] None) False = (Inr ?dEach, False)"
    using print_smallEach unfolding smallEach_def .
  have pa: "print exampleHost (exampleOptions []) []
      (AwaitBlock 0 28 (Identifier 8 9 (js ''p'')) (PIdentifier (js ''v'')) PNull
         (Block PendingBlock 17 17 [])
         (Block ThenBlock 17 19 [Text 17 19 (Some (js ''hi'')) (js ''hi'')])
         (Block CatchBlock 19 19 [])) False = (Inr ?dAwait, False)"
    using print_inlineAwait unfolding inlineAwait_def .
  note ci = control_flow_break [where h = exampleHost and opts = "exampleOptions []"
      and ancestors = "[]" and s = 0 and e = 13 and expression = "Identifier 5 6 (js ''a'')"
      and children = "[Text 7 8 (Some (js ''b'')) (js ''b'')]" and els = None
      and d = ?dIf and ig = False, THEN conjunct1, THEN mp, OF pi, unfolded Let_def option.case]
  note ce = control_flow_break [where h = exampleHost and opts = "exampleOptions []"
      and ancestors = "[]" and s = 0 and e = 23 and expression = "Identifier 7 9 (js ''xs'')"
      and contextNode = "Identifier 13 14 (js ''x'')" and index = None and key = None
      and children = "[Text 15 16 (Some (js ''y'')) (js ''y'')]" and els = None
      and d = ?dEach and ig = False, THEN conjunct2, THEN conjunct1, THEN mp, OF pe,
      unfolded Let_def option.case]
  note ca = control_flow_break [where h = exampleHost and opts = "exampleOptions []"
      and ancestors = "[]" and s = 0 and e = 28 and expression = "Identifier 8 9 (js ''p'')"
      and v = "PIdentifier (js ''v'')" and err = PNull
      and pending = "Block PendingBlock 17 17 []"
      and thn = "Block ThenBlock 17 19 [Text 17 19 (Some (js ''hi'')) (js ''hi'')]"
      and catch = "Block CatchBlock 19 19 []"
      and d = ?dAwait and ig = False, THEN conjunct2, THEN conjunct2, THEN mp, OF pa,
      unfolded Let_def]
  from ci obtain x ig1 docs ig2 elseDocs g where
    i1: "print exampleHost (exampleOptions [])
           [IfBlock 0 13 (Identifier 5 6 (js ''a'')) [Text 7 8 (Some (js ''b'')) (js ''b'')] None]
           (Identifier 5 6 (js ''a'')) False = (Inr x, ig1)" and
    i2: "printChildren exampleHost (exampleOptions [])
           [IfBlock 0 13 (Identifier 5 6 (js ''a'')) [Text 7 8 (Some (js ''b'')) (js ''b'')] None]
           [Text 7 8 (Some (js ''b'')) (js ''b'')] ig1 = (Inr docs, ig2)" and
    i3: "elseDocs = []" and
    i5: "?dIf = Concat [g, BreakParent]" and
    i6: "hasForcedBreak g \<longleftrightarrow>
           hasForcedBreak x \<or> hasForcedBreaks (trim docs isLine) \<or> hasForcedBreaks elseDocs"
    by blast
  have i7: "hasForcedBreak g \<longleftrightarrow> hasForcedBreak x \<or> hasForcedBreaks (trim docs isLine)"
    using i6 unfolding i3 by simp
  have w1: "\<exists>x ig1 docs ig2 g.
         print exampleHost (exampleOptions [])
           [IfBlock 0 13 (Identifier 5 6 (js ''a'')) [Text 7 8 (Some (js ''b'')) (js ''b'')] None]
           (Identifier 5 6 (js ''a'')) False = (Inr x, ig1)
       \<and> printChildren exampleHost (exampleOptions [])
           [IfBlock 0 13 (Identifier 5 6 (js ''a'')) [Text 7 8 (Some (js ''b'')) (js ''b'')] None]
           [Text 7 8 (Some (js ''b'')) (js ''b'')] ig1 = (Inr docs, ig2)
       \<and> ?dIf = Concat [g, BreakParent]
       \<and> (hasForcedBreak g \<longleftrightarrow> hasForcedBreak x \<or> hasForcedBreaks (trim docs isLine))"
    using i1 i2 i5 i7 by blast
  from ce have w2: "\<exists>g. ?dEach = Concat [g, BreakParent]" by blast
  from ca have w3: "\<exists>x ig1.
         print exampleHost (exampleOptions [])
           [AwaitBlock 0 28 (Identifier 8 9 (js ''p'')) (PIdentifier (js ''v'')) PNull
              (Block PendingBlock 17 17 [])
              (Block ThenBlock 17 19 [Text 17 19 (Some (js ''hi'')) (js ''hi'')])
              (Block CatchBlock 19 19 [])]
           (Identifier 8 9 (js ''p'')) False = (Inr x, ig1)"
    by blast
  show ?thesis
    unfolding smallIf_def smallEach_def inlineAwait_def
    using pi w1 pe w2 pa w3 by blast
qed

text \<open>
  The claim as stated fails on \<open>{#await p then v}hi{/await}\<close>, whose document has neither
  a \<open>break-parent\<close> nor a hard line, and on \<open>{#if a}b{/if}\<close>, where the \<open>break-parent\<close>
  stands beside the group of the block and the group itself holds no forced break.
\<close>

theorem control_flow_counterexample:
  "print exampleHost (exampleOptions []) [] inlineAwait False =
     (Inr (Group (Concat
        [Group (Concat [Str (js ''{#await ''), Str (js ''p''), Str (js '' then''), Str (js '' v''),
                        Str (js ''}'')]),
         Indent (Concat [softline, Fill [Fill [Str (js ''hi'')]], dedent softline]),
         Str (js ''{/await}'')])), False)
   \<and> \<not> hasForcedBreak (Group (Concat
        [Group (Concat [Str (js ''{#await ''), Str (js ''p''), Str (js '' then''), Str (js '' v''),
                        Str (js ''}'')]),
         Indent (Concat [softline, Fill [Fill [Str (js ''hi'')]], dedent softline]),
         Str (js ''{/await}'')]))
   \<and> print exampleHost (exampleOptions []) [] smallIf False =
     (Inr (Concat
        [Group (Concat
           [Str (js ''{#if ''), Str (js ''a''), Str (js ''}''),
            Indent (Concat [softline, Fill [Fill [Str (js ''b'')]], dedent softline]),
            Str (js ''{/if}'')]),
         BreakParent]), False)
   \<and> \<not> hasForcedBreak (Group (Concat
           [Str (js ''{#if ''), Str (js ''a''), Str (js ''}''),
            Indent (Concat [softline, Fill [Fill [Str (js ''b'')]], dedent softline]),
            Str (js ''{/if}'')]))"
  by (simp add: eval_defs)


subsection \<open>Unsupported languages\<close>

lemma print_Script:
  "print h opts ancestors (Script s e attributes) False =
     (case getSnippedContent (Script s e attributes) of
        Inl err \<Rightarrow> (Inl err, False)
      | Inr content \<Rightarrow>
          (case formatBabel h content of
             Inl err \<Rightarrow> (Inl err, False)
           | Inr jsCode \<Rightarrow>
               (case formatHtml h (js ''<script>'' @ jsCode @ js ''</script>'') of
                  Inl err \<Rightarrow> (Inl err, False)
                | Inr htmlCode \<Rightarrow> (Inr (Str htmlCode), False))))"
  by (simp add: guarded_False printScript_def bnd_def lift_def ret_def throw_def split: sum.splits)

text \<open>
  Claim C4, as amended. A \<open>template\<close> element whose \<open>lang\<close> (a leading \<open>text/\<close> removed)
  is one of \<open>coffee\<close>, \<open>coffeescript\<close>, \<open>pug\<close>, \<open>styl\<close>, \<open>stylus\<close>, \<open>sass\<close>, and whose
  children are text nodes that follow one another in the source from offset \<open>p\<close> to
  offset \<open>q\<close>, not all of them whitespace, prints, once its attributes are printed, with
  the slice of the source from \<open>p\<close> to \<open>q\<close> as its body, unchanged: no formatter is called
  and no error is raised. A \<open>Script\<close> node is handed to the script formatter whatever its
  \<open>lang\<close>: what \<open>print\<close> returns for it is what the host's formatters return for its
  decoded body.
\<close>

theorem unsupported_template_raw:
  assumes "getLangAttribute (Elem Element s e (js ''template'') attributes children expression)
             = Inr (Some lang)"
    and "lang \<in> set unsupportedLanguages"
    and "\<not> list_all isEmptyNode children"
    and "contiguousText (originalText opts) p q children"
    and "printEach h opts (Elem Element s e (js ''template'') attributes children expression # ancestors)
           attributes False = (Inr attrs, ig)"
  shows "print h opts ancestors (Elem Element s e (js ''template'') attributes children expression) False =
    (Inr (Group (Concat
       [Str (js ''<''), Str (js ''template''),
        Indent (Group (Concat
           ([Str []] @ attrs
            @ [if svelteBracketNewLine opts then dedent softline else Str []]))),
        Str (js ''>''), Str (slice (originalText opts) p q), Str (js ''</template>'')])), ig)
    \<and> print h opts ancestors' (Script s' e' attributes') False =
     (case getSnippedContent (Script s' e' attributes') of
        Inl err \<Rightarrow> (Inl err, False)
      | Inr content \<Rightarrow>
          (case formatBabel h content of
             Inl err \<Rightarrow> (Inl err, False)
           | Inr jsCode \<Rightarrow>
               (case formatHtml h (js ''<script>'' @ jsCode @ js ''</script>'') of
                  Inl err \<Rightarrow> (Inl err, False)
                | Inr htmlCode \<Rightarrow> (Inr (Str htmlCode), False))))"
proof -
  have ne: "lang \<noteq> []" using assms(2) by (auto simp: unsupportedLanguages_def js_def)
  have sup: "isNodeSupportedLanguage (Elem Element s e (js ''template'') attributes children expression)
      = Inr False"
    using assms(1,2) ne by (simp add: isNodeSupportedLanguage_def)
  have raw: "printRaws children = slice (originalText opts) p q"
    using assms(4) by (rule printRaws_contiguous)
  have 1: "print h opts ancestors (Elem Element s e (js ''template'') attributes children expression) False =
    (Inr (Group (Concat
       [Str (js ''<''), Str (js ''template''),
        Indent (Group (Concat
           ([Str []] @ attrs
            @ [if svelteBracketNewLine opts then dedent softline else Str []]))),
        Str (js ''>''), Str (slice (originalText opts) p q), Str (js ''</template>'')])), ig)"
    using sup assms(3,5) raw
    by (cases expression)
       (auto simp: guarded_False bnd_def ret_def throw_def lift_def Let_def js_def)
  show ?thesis using 1 print_Script by simp
qed

lemma printEach_pugLang:
  "printEach exampleHost (exampleOptions pugSource) [pugTemplate] [pugLang] False =
     (Inr [Concat [line, Str (js ''lang''), Str (js ''=''), Str (js ''\"''),
                   Concat [Str (js ''pug'')], Str (js ''\"'')]], False)"
  by (simp add: eval_defs)

theorem unsupported_template_raw_witness:
  "getLangAttribute pugTemplate = Inr (Some (js ''pug''))
   \<and> js ''pug'' \<in> set unsupportedLanguages
   \<and> slice pugSource 21 28 = js ''p hello''
   \<and> print exampleHost (exampleOptions pugSource) [] pugTemplate False =
     (Inr (Group (Concat
        [Str (js ''<''), Str (js ''template''),
         Indent (Group (Concat
           [Str [], Concat [line, Str (js ''lang''), Str (js ''=''), Str (js ''\"''),
                            Concat [Str (js ''pug'')], Str (js ''\"'')], Str []])),
         Str (js ''>''), Str (js ''p hello''), Str (js ''</template>'')])), False)"
proof -
  have 1: "getLangAttribute
      (Elem Element 0 39 (js ''template'') [pugLang]
         [Text 21 28 (Some (js ''p hello'')) (js ''p hello'')] None) = Inr (Some (js ''pug''))"
    by (simp add: eval_defs)
  have 2: "js ''pug'' \<in> set unsupportedLanguages"
    by (simp add: unsupportedLanguages_def)
  have 3: "\<not> list_all isEmptyNode [Text 21 28 (Some (js ''p hello'')) (js ''p hello'')]"
    by (simp add: eval_defs)
  have 4: "contiguousText (originalText (exampleOptions pugSource)) 21 28
      [Text 21 28 (Some (js ''p hello'')) (js ''p hello'')]"
    by (simp add: eval_defs)
  have 5: "printEach exampleHost (exampleOptions pugSource)
      (Elem Element 0 39 (js ''template'') [pugLang]
         [Text 21 28 (Some (js ''p hello'')) (js ''p hello'')] None # []) [pugLang] False =
     (Inr [Concat [line, Str (js ''lang''), Str (js ''=''), Str (js ''\"''),
                   Concat [Str (js ''pug'')], Str (js ''\"'')]], False)"
    using printEach_pugLang by (simp add: pugTemplate_def)
  have 6: "slice pugSource 21 28 = js ''p hello''" by (simp add: eval_defs)
  note inst = unsupported_template_raw [OF 1 2 3 4 5, THEN conjunct1]
  have 7: "print exampleHost (exampleOptions pugSource) [] pugTemplate False =
     (Inr (Group (Concat
        [Str (js ''<''), Str (js ''template''),
         Indent (Group (Concat
           [Str [], Concat [line, Str (js ''lang''), Str (js ''=''), Str (js ''\"''),
                            Concat [Str (js ''pug'')], Str (js ''\"'')], Str []])),
         Str (js ''>''), Str (js ''p hello''), Str (js ''</template>'')])), False)"
    using inst 6 by (simp add: pugTemplate_def exampleOptions_def js_def)
  from 1 2 6 7 show ?thesis by (simp add: pugTemplate_def)
qed

lemma coffee_attributes:
  "extractAttributes (slice coffeeSnipped 0 63) =
     Inr [Attribute 0 13 (js ''lang'') (Some [Text 6 12 None (js ''coffee'')]),
          Attribute 14 43 snippedTagContentAttribute (Some [Text 34 42 None (js ''eCA9IDE='')])]"
  by (simp add: codec_defs js_def snippedTagContentAttribute_def slice_def isJSWhitespace_def
      isLineTerminator_def Let_def)

text \<open>
  The claim as stated fails on \<open><script lang="coffee">x = 1</script>\<close>: \<open>coffee\<close> is one of
  the unsupported languages, and the \<open>Script\<close> case never looks at \<open>lang\<close>. Whatever the
  host's formatters are, the decoded body \<open>x = 1\<close> goes to the script formatter, and what
  \<open>print\<close> returns is the formatters' result, or their failure, not the source of the
  script.
\<close>

theorem unsupported_script_counterexample:
  "preprocess coffeeSource = Inr coffeeSnipped
   \<and> extractAttributes (slice coffeeSnipped 0 63) =
       Inr [Attribute 0 13 (js ''lang'') (Some [Text 6 12 None (js ''coffee'')]),
            Attribute 14 43 snippedTagContentAttribute (Some [Text 34 42 None (js ''eCA9IDE='')])]
   \<and> getLangAttribute (Script 0 63
         [Attribute 0 13 (js ''lang'') (Some [Text 6 12 None (js ''coffee'')]),
          Attribute 14 43 snippedTagContentAttribute (Some [Text 34 42 None (js ''eCA9IDE='')])])
       = Inr (Some (js ''coffee''))
   \<and> js ''coffee'' \<in> set unsupportedLanguages
   \<and> (\<forall>h. print h (exampleOptions coffeeSnipped) [] coffeeRoot False =
         (case formatBabel h (js ''x = 1'') of
            Inl err \<Rightarrow> (Inl err, False)
          | Inr jsCode \<Rightarrow>
              (case formatHtml h (js ''<script>'' @ jsCode @ js ''</script>'') of
                 Inl err \<Rightarrow> (Inl err, False)
               | Inr htmlCode \<Rightarrow> (Inr (Group (Concat [Str htmlCode])), False))))"
proof -
  have p: "preprocess coffeeSource = Inr coffeeSnipped"
    by (simp add: codec_defs js_def snippedTagContentAttribute_def trim_js_def isJSWhitespace_def)
  have l: "getLangAttribute (Script 0 63
         [Attribute 0 13 (js ''lang'') (Some [Text 6 12 None (js ''coffee'')]),
          Attribute 14 43 snippedTagContentAttribute (Some [Text 34 42 None (js ''eCA9IDE='')])])
       = Inr (Some (js ''coffee''))"
    by (simp add: getLangAttribute_def getAttributeTextValue_def getAttributeValue_def
        stripTextPrefix_def js_def snippedTagContentAttribute_def)
  have u: "js ''coffee'' \<in> set unsupportedLanguages"
    by (simp add: unsupportedLanguages_def)
  have r: "print h (exampleOptions coffeeSnipped) [] coffeeRoot False =
         (case formatBabel h (js ''x = 1'') of
            Inl err \<Rightarrow> (Inl err, False)
          | Inr jsCode \<Rightarrow>
              (case formatHtml h (js ''<script>'' @ jsCode @ js ''</script>'') of
                 Inl err \<Rightarrow> (Inl err, False)
               | Inr htmlCode \<Rightarrow> (Inr (Group (Concat [Str htmlCode])), False)))" for h
    by (simp add: eval_defs codec_defs split: sum.splits)
  from p coffee_attributes l u r show ?thesis by blast
qed


subsection \<open>Attribute shorthand\<close>

text \<open>
  Claim C5. With \<open>ignoreNext\<close> clear, an attribute \<open>x={x}\<close> (a lone mustache tag whose
  expression is the identifier \<open>x\<close>) and an attribute \<open>x\<close> in shorthand form print to the
  same document: \<open>x="{x}"\<close> in strict mode, \<open>{x}\<close> when shorthand is allowed, and
  \<open>x={x}\<close> otherwise.
\<close>

theorem shorthand_equivalence:
  "print h opts ancestors
     (Attribute s e x (Some [MustacheTag s1 e1 (Identifier s2 e2 x)])) False
   = (Inr (if svelteStrictMode opts
           then Concat [line, Str x, Str (js ''=\"{''), Str x, Str (js ''}\"'')]
           else if svelteAllowShorthand opts
           then Concat [line, Str (js ''{''), Str x, Str (js ''}'')]
           else Concat [line, Str x, Str (js ''={''), Str x, Str (js ''}'')]), False)
   \<and> print h opts ancestors'
       (Attribute s' e' x (Some [AttributeShorthand s3 e3 n])) False
     = print h opts ancestors
       (Attribute s e x (Some [MustacheTag s1 e1 (Identifier s2 e2 x)])) False"
  by (simp add: guarded_False ret_def)

theorem shorthand_equivalence_witness:
  "print exampleHost (exampleOptions []) []
     (Attribute 5 10 (js ''a'') (Some [MustacheTag 7 10 (Identifier 8 9 (js ''a''))])) False
   = (Inr (Concat [line, Str (js ''{''), Str (js ''a''), Str (js ''}'')]), False)
   \<and> print exampleHost (exampleOptions []) []
       (Attribute 5 8 (js ''a'') (Some [AttributeShorthand 5 8 (js ''a'')])) False
     = (Inr (Concat [line, Str (js ''{''), Str (js ''a''), Str (js ''}'')]), False)"
  using shorthand_equivalence [of exampleHost "exampleOptions []" "[]" 5 10 "js ''a''" 7 10 8 9
      "[]" 5 8 5 8 "js ''a''"]
  by (simp add: exampleOptions_def)


subsection \<open>Self-closing elements\<close>






subsection \<open>The ignore comment\<close>

lemma comment_ignore:
  assumes "isIgnoreDirective (Comment s e d)"
  shows "print h opts ancestors (Comment s e d) False =
    (case getNextNode ancestors (Comment s e d) of
       Inl err \<Rightarrow> (Inl err, False)
     | Inr None \<Rightarrow> (Inr (Str []), False)
     | Inr (Some next) \<Rightarrow>
         (Inr (Group (Concat [Str (js ''<!--''), Str d, Str (js ''-->'')])), True))"
proof -
  from assms have "\<not> hasSnippedContent d" by (simp add: ignore_directive_not_snipped)
  with assms show ?thesis
    by (auto simp: guarded_False bnd_def ret_def throw_def lift_def setIgnoreNext_def
        split: sum.splits option.splits)
qed


lemma whitespace_text_keeps_flag:
  assumes "isTextNode n" and "isEmptyNode n"
  shows "print h opts ancestors n True = printNode h opts ancestors n True
         \<and> snd (printNode h opts ancestors n True) = True"
  using assms by (cases n) (simp_all add: guarded_True ret_def)



lemma printChildrenLoop_append:
  "printChildrenLoop h opts stack isPreformat (xs @ ys) st =
     bnd (printChildrenLoop h opts stack isPreformat xs st)
       (\<lambda>st'. printChildrenLoop h opts stack isPreformat ys st')"
proof (induction xs arbitrary: st)
  case Nil
  show ?case by (simp add: bnd_ret_left)
next
  case (Cons a xs)
  have ih: "printChildrenLoop h opts stack isPreformat (xs @ ys) =
      (\<lambda>st. bnd (printChildrenLoop h opts stack isPreformat xs st)
         (\<lambda>st'. printChildrenLoop h opts stack isPreformat ys st'))"
    by (rule ext) (rule Cons.IH)
  show ?case by (simp add: bnd_assoc ih)
qed

lemma whitespace_loop_keeps_flag:
  assumes "list_all (\<lambda>w. isTextNode w \<and> isEmptyNode w) ws"
  shows "snd (printChildrenLoop h opts stack isPreformat ws st True) = True"
  using assms
proof (induction ws arbitrary: st)
  case Nil
  then show ?case by (simp add: ret_def)
next
  case (Cons w ws)
  then have w: "isTextNode w" "isEmptyNode w"
    and ws: "list_all (\<lambda>w. isTextNode w \<and> isEmptyNode w) ws" by simp_all
  obtain s e raw d where t: "w = Text s e raw d" using w(1) by (cases w) simp_all
  have "\<exists>doc. printNode h opts stack (Text s e raw d) True = (Inr doc, True)"
    by (simp add: ret_def)
  then obtain doc where p: "print h opts stack w True = (Inr doc, True)"
    using whitespace_text_keeps_flag [OF w, of h opts stack] unfolding t by auto
  show ?case
  proof (cases "childProduced isPreformat w doc st")
    case (Inl err)
    then show ?thesis using p by (simp add: bnd_def lift_def throw_def)
  next
    case (Inr st')
    then show ?thesis using p Cons.IH [OF ws, of st'] by (simp add: bnd_def lift_def ret_def)
  qed
qed

text \<open>
  Claim C7, as amended. Let an ignore comment have a following sibling, and let it be
  followed in the list of children, after any number of whitespace-only text nodes, by
  a node \<open>x\<close> that is not a whitespace-only text node. Then the loop of \<open>printChildren\<close>,
  entered at the comment with \<open>ignoreNext\<close> clear, takes the comment printed as a comment,
  the whitespace-only text nodes printed by their own rule, and for \<open>x\<close> the slice of
  \<open>options.originalText\<close> from its start to its end, split at line feeds with a literal
  line between the pieces, which renders as the slice itself; \<open>x\<close> is not printed by its
  rule. After \<open>x\<close> the flag is clear again: the siblings after \<open>x\<close> are printed from a clear
  flag, and with the flag clear every node is printed by its own rule, so \<open>x\<close> is the only
  sibling that is suppressed.
\<close>

theorem ignore_suppression:
  assumes "isIgnoreDirective (Comment s e d)"
    and "getNextNode stack (Comment s e d) = Inr (Some next)"
    and "list_all (\<lambda>w. isTextNode w \<and> isEmptyNode w) ws"
    and "\<not> isASTNode x" and "\<not> isTextNode x \<or> \<not> isEmptyNode x"
  shows "printChildrenLoop h opts stack isPreformat (Comment s e d # ws @ x # rest) st False =
           (case childProduced isPreformat (Comment s e d)
                   (Group (Concat [Str (js ''<!--''), Str d, Str (js ''-->'')])) st of
              Inl err \<Rightarrow> (Inl err, True)
            | Inr st1 \<Rightarrow>
                (case fst (printChildrenLoop h opts stack isPreformat ws st1 True) of
                   Inl err \<Rightarrow> (Inl err, True)
                 | Inr st2 \<Rightarrow>
                     (case childProduced isPreformat x (rawDoc opts x) st2 of
                        Inl err \<Rightarrow> (Inl err, False)
                      | Inr st3 \<Rightarrow> printChildrenLoop h opts stack isPreformat rest st3 False)))
         \<and> (\<forall>w \<in> set ws. print h opts stack w True = printNode h opts stack w True
                            \<and> snd (printNode h opts stack w True) = True)
         \<and> literalText (rawDoc opts x) = slice (originalText opts) (locStart x) (locEnd x)
         \<and> (\<forall>n. \<not> isASTNode n \<longrightarrow>
               print h opts stack n False = printNode h opts stack n False)"
proof -
  have c: "print h opts stack (Comment s e d) False =
      (Inr (Group (Concat [Str (js ''<!--''), Str d, Str (js ''-->'')])), True)"
    using comment_ignore [OF assms(1), of h opts stack] assms(2) by simp
  have x: "print h opts stack x True = (Inr (rawDoc opts x), False)"
    using assms(4,5) by (auto simp: print_not_root guarded_True)
  have xl: "printChildrenLoop h opts stack isPreformat (x # rest) st2 True =
      (case childProduced isPreformat x (rawDoc opts x) st2 of
         Inl err \<Rightarrow> (Inl err, False)
       | Inr st3 \<Rightarrow> printChildrenLoop h opts stack isPreformat rest st3 False)" for st2
    using x by (simp del: print.simps add: bnd_def lift_def throw_def ret_def split: sum.splits)
  have cl: "printChildrenLoop h opts stack isPreformat (Comment s e d # tail) st False =
      (case childProduced isPreformat (Comment s e d)
              (Group (Concat [Str (js ''<!--''), Str d, Str (js ''-->'')])) st of
         Inl err \<Rightarrow> (Inl err, True)
       | Inr st1 \<Rightarrow> printChildrenLoop h opts stack isPreformat tail st1 True)" for tail
    using c by (simp del: print.simps add: bnd_def lift_def throw_def ret_def split: sum.splits)
  have wl: "printChildrenLoop h opts stack isPreformat (ws @ x # rest) st1 True =
      (case fst (printChildrenLoop h opts stack isPreformat ws st1 True) of
         Inl err \<Rightarrow> (Inl err, True)
       | Inr st2 \<Rightarrow> printChildrenLoop h opts stack isPreformat (x # rest) st2 True)" for st1
    using whitespace_loop_keeps_flag [OF assms(3), of h opts stack isPreformat st1]
    by (cases "printChildrenLoop h opts stack isPreformat ws st1 True")
       (simp add: printChildrenLoop_append bnd_def split: sum.splits)
  have 1: "printChildrenLoop h opts stack isPreformat (Comment s e d # ws @ x # rest) st False =
           (case childProduced isPreformat (Comment s e d)
                   (Group (Concat [Str (js ''<!--''), Str d, Str (js ''-->'')])) st of
              Inl err \<Rightarrow> (Inl err, True)
            | Inr st1 \<Rightarrow>
                (case fst (printChildrenLoop h opts stack isPreformat ws st1 True) of
                   Inl err \<Rightarrow> (Inl err, True)
                 | Inr st2 \<Rightarrow>
                     (case childProduced isPreformat x (rawDoc opts x) st2 of
                        Inl err \<Rightarrow> (Inl err, False)
                      | Inr st3 \<Rightarrow> printChildrenLoop h opts stack isPreformat rest st3 False)))"
    by (simp only: cl wl xl)
  have 2: "\<forall>w \<in> set ws. print h opts stack w True = printNode h opts stack w True
                            \<and> snd (printNode h opts stack w True) = True"
    using assms(3) whitespace_text_keeps_flag by (auto simp: list_all_iff)
  have 3: "\<forall>n. \<not> isASTNode n \<longrightarrow> print h opts stack n False = printNode h opts stack n False"
    by (simp add: print_not_root guarded_False)
  from 1 2 3 show ?thesis by (simp add: literalText_rawDoc)
qed

theorem ignore_suppression_witness:
  "printChildrenLoop exampleHost (exampleOptions ignoredMarkup) [ignoredFragment] False
     [ignoreComment, lineFeedText, spacedDiv]
     \<lparr>childDocs = [], currentGroup = [], lastBreakIndex = - 1\<rparr> False =
     (Inr \<lparr>childDocs =
             [Concat [BreakParent,
                Group (Concat [Str (js ''<!--''), Str (js '' prettier-ignore ''), Str (js ''-->'')])],
              Line False False False False,
              Concat [BreakParent, Concat [Str (js ''<div   ></div>'')]]],
           currentGroup = [], lastBreakIndex = - 1\<rparr>, False)
   \<and> print exampleHost (exampleOptions ignoredMarkup) [ignoredFragment] lineFeedText True =
       printNode exampleHost (exampleOptions ignoredMarkup) [ignoredFragment] lineFeedText True
   \<and> literalText (rawDoc (exampleOptions ignoredMarkup) spacedDiv) = js ''<div   ></div>''"
proof -
  have 1: "isIgnoreDirective (Comment 0 24 (js '' prettier-ignore ''))"
    by (simp add: eval_defs)
  have 2: "getNextNode [ignoredFragment] (Comment 0 24 (js '' prettier-ignore ''))
      = Inr (Some lineFeedText)"
    by (simp add: eval_defs)
  have 3: "list_all (\<lambda>w. isTextNode w \<and> isEmptyNode w) [lineFeedText]"
    by (simp add: eval_defs)
  have 4: "\<not> isASTNode spacedDiv" by (simp add: spacedDiv_def)
  have 5: "\<not> isTextNode spacedDiv \<or> \<not> isEmptyNode spacedDiv" by (simp add: spacedDiv_def)
  note inst = ignore_suppression [OF 1 2 3 4 5, of exampleHost "exampleOptions ignoredMarkup"
      False "[]" "\<lparr>childDocs = [], currentGroup = [], lastBreakIndex = - 1\<rparr>"]
  have l: "[ignoreComment, lineFeedText, spacedDiv] =
      Comment 0 24 (js '' prettier-ignore '') # [lineFeedText] @ spacedDiv # []"
    by (simp add: ignoreComment_def)
  have a: "printChildrenLoop exampleHost (exampleOptions ignoredMarkup) [ignoredFragment] False
     [ignoreComment, lineFeedText, spacedDiv]
     \<lparr>childDocs = [], currentGroup = [], lastBreakIndex = - 1\<rparr> False =
     (Inr \<lparr>childDocs =
             [Concat [BreakParent,
                Group (Concat [Str (js ''<!--''), Str (js '' prettier-ignore ''), Str (js ''-->'')])],
              Line False False False False,
              Concat [BreakParent, Concat [Str (js ''<div   ></div>'')]]],
           currentGroup = [], lastBreakIndex = - 1\<rparr>, False)"
    by (simp only: l inst [THEN conjunct1]) (simp add: eval_defs)
  have b: "print exampleHost (exampleOptions ignoredMarkup) [ignoredFragment] lineFeedText True =
       printNode exampleHost (exampleOptions ignoredMarkup) [ignoredFragment] lineFeedText True"
    using inst [THEN conjunct2, THEN conjunct1] by simp
  have c: "literalText (rawDoc (exampleOptions ignoredMarkup) spacedDiv) = js ''<div   ></div>''"
    using inst [THEN conjunct2, THEN conjunct2, THEN conjunct1] by (simp add: eval_defs)
  from a b c show ?thesis by blast
qed

text \<open>
  The claim as stated fails on \<open><!-- prettier-ignore -->\<close>, a line feed and
  \<open><div   ></div>\<close>: the comment's next sibling is the text node of the line feed, which
  is printed by its own rule as a line while the flag stays set; the node whose source
  is reproduced is the element after it.
\<close>

theorem ignore_next_sibling_counterexample:
  "getNextNode [ignoredFragment] ignoreComment = Inr (Some lineFeedText)
   \<and> print exampleHost (exampleOptions ignoredMarkup) [ignoredFragment] ignoreComment False =
       (Inr (Group (Concat [Str (js ''<!--''), Str (js '' prettier-ignore ''), Str (js ''-->'')])),
        True)
   \<and> print exampleHost (exampleOptions ignoredMarkup) [ignoredFragment] lineFeedText True =
       (Inr (Line False False False False), True)
   \<and> print exampleHost (exampleOptions ignoredMarkup) [ignoredFragment] spacedDiv True =
       (Inr (Concat [Str (js ''<div   ></div>'')]), False)"
  by (simp add: eval_defs)


subsection \<open>Whitespace-only text\<close>

text \<open>
  Claim C8, as amended. Outside preformatted content and with \<open>ignoreNext\<close> clear, a
  whitespace-only text node prints as a \<open>line\<close> that is neither soft nor hard (a space
  when flat, a break when broken), marked \<open>keepIfLonely\<close> exactly when the text holds at
  least two line feeds.
\<close>

theorem whitespace_text_line:
  assumes "isEmptyNode (Text s e raw d)"
    and "\<not> isPreTagContent (Text s e raw d # ancestors)"
  shows "print h opts ancestors (Text s e raw d) False =
           (Inr (Line False False False (2 \<le> count_list (rawOrData raw d) 10)), False)"
  using assms by (simp add: guarded_False ret_def hasBlankLine_ws trim_js_Nil)

theorem whitespace_text_line_witness:
  "print exampleHost (exampleOptions []) [] (Text 0 3 (Some [10, 32, 10]) [10, 32, 10]) False =
     (Inr (Line False False False True), False)"
proof -
  have 1: "isEmptyNode (Text 0 3 (Some [10, 32, 10]) [10, 32, 10])"
    by (simp add: eval_defs)
  have 2: "\<not> isPreTagContent (Text 0 3 (Some [10, 32, 10]) [10, 32, 10] # [])"
    by (simp add: eval_defs)
  from whitespace_text_line [OF 1 2, of exampleHost "exampleOptions []"] show ?thesis
    by (simp add: rawOrData_def)
qed

text \<open>
  The claim as stated fails on a text node of one space and on one of two line feeds:
  the first prints as a line whose \<open>soft\<close> flag is clear, so it is not a soft line; the
  second prints as a line marked \<open>keepIfLonely\<close> whose \<open>hard\<close> flag is clear, with no
  \<open>break-parent\<close>, so nothing forces it to break.
\<close>

theorem whitespace_text_counterexample:
  "print exampleHost (exampleOptions []) [] (Text 0 1 (Some (js '' '')) (js '' '')) False =
     (Inr (Line False False False False), False)
   \<and> Line False False False False \<noteq> softline
   \<and> print exampleHost (exampleOptions []) [] (Text 0 2 (Some [10, 10]) [10, 10]) False =
     (Inr (Line False False False True), False)
   \<and> \<not> hasForcedBreak (Line False False False True)"
  by (simp add: eval_defs)


subsection \<open>The flag across invocations\<close>

text \<open>
  Claim C9 on the code. \<open>ignoreNext\<close> is a variable of the module, cleared only when the
  root case returns. Printing \<open>failingRoot\<close> sets the flag in the pending block and then
  throws in \<open>expandNode\<close>, so the invocation ends with the flag set. The next invocation,
  on \<open><p>  hi  x</p>\<close>, starts with the flag set and returns the source of the fragment
  unformatted, where a first invocation on the same input formats it.
\<close>

theorem ignore_flag_leaks:
  "print exampleHost (exampleOptions []) [] failingRoot False =
     (Inl (UnknownNodeType (js ''ArrayExpression'')), True)
   \<and> print exampleHost (exampleOptions (js ''<p>  hi  x</p>'')) [] sampleMarkup True =
     (Inr (Group (Concat [Concat [Str (js ''<p>  hi  x</p>'')]])), False)
   \<and> print exampleHost (exampleOptions (js ''<p>  hi  x</p>'')) [] sampleMarkup False =
     (Inr (Group (Concat [Concat [Concat [BreakParent,
        Group (Concat [Str (js ''<''), Str (js ''p''), Indent (Group (Concat [Str [], Str []])),
          Str (js ''>''),
          Indent (Concat [softline, Fill [Fill [Str (js ''hi''), line, Str (js ''x'')]],
                          dedent softline]),
          Str (js ''</p>'')])], hardline]])), False)"
  by (simp add: eval_defs)


subsection \<open>Empty fragments\<close>

text \<open>
  Claim C10. With \<open>ignoreNext\<close> clear, a \<open>Fragment\<close> whose child list is empty or holds
  only whitespace-only text nodes prints as the empty string.
\<close>

theorem fragment_empty:
  assumes "children = [] \<or> list_all isEmptyNode children"
  shows "print h opts ancestors (Fragment s e children) False = (Inr (Str []), False)"
  using assms by (auto simp: guarded_False ret_def)

theorem fragment_empty_witness:
  "print exampleHost (exampleOptions []) []
     (Fragment 0 2 [Text 0 1 (Some [10]) [10], Text 1 2 (Some (js '' '')) (js '' '')]) False =
     (Inr (Str []), False)"
proof -
  have "[Text 0 1 (Some [10]) [10], Text 1 2 (Some (js '' '')) (js '' '')] = []
      \<or> list_all isEmptyNode [Text 0 1 (Some [10]) [10], Text 1 2 (Some (js '' '')) (js '' '')]"
    by (simp add: eval_defs)
  from fragment_empty [OF this] show ?thesis .
qed


end
